theory Spec2Isabelle
  imports Complex_Main "HOL-Library.Word" "HOL-Library.Signed_Division"
begin

unbundle bit_operations_syntax

section \<open>Script values (variable.h, variable.cpp)\<close>

text \<open>
  The tag of a \<open>Variable\<close>. The enum is declared in \<open>reone/script/types.h\<close>; its
  members are the ones \<open>Variable::toString\<close> switches over.
\<close>

datatype VariableType =
  Void | Int_t | Float | String | Object | Vector | Effect | Event | Location | Talent | Action

text \<open>
  The kinds of engine arguments, as \<open>argKindToString\<close>, \<open>Argument::fromString\<close> and
  \<open>Argument::verify\<close> in variable.cpp enumerate them.
\<close>

datatype ArgKind =
  Caller | ScriptVar | UserDefinedEventNumber | ClickingObject | EnteringObject
  | ExitingObject | LastClosedBy | LastOpenedBy | LastPerceived | LastPerceptionHeard
  | LastPerceptionInaudible | LastPerceptionSeen | LastPerceptionVanished

text \<open>
  The opcodes. The enum \<open>InstructionType\<close> is declared in \<open>reone/script/types.h\<close>,
  which is not part of the sources at hand, so the numeric values of its enumerators are
  not known here. An opcode is therefore a number under a constructor, and each
  enumerator that virtualmachine.cpp names is a constant with a number of its own (its
  position in the list below); only their being pairwise distinct matters. Every other
  number is an opcode that the machine has no name for.
\<close>

datatype InstructionType = InstructionType nat

definition NOP :: InstructionType where "NOP = InstructionType 0"
definition NOP2 :: InstructionType where "NOP2 = InstructionType 1"
definition CPDOWNSP :: InstructionType where "CPDOWNSP = InstructionType 2"
definition RSADDI :: InstructionType where "RSADDI = InstructionType 3"
definition RSADDF :: InstructionType where "RSADDF = InstructionType 4"
definition RSADDS :: InstructionType where "RSADDS = InstructionType 5"
definition RSADDO :: InstructionType where "RSADDO = InstructionType 6"
definition RSADDEFF :: InstructionType where "RSADDEFF = InstructionType 7"
definition RSADDEVT :: InstructionType where "RSADDEVT = InstructionType 8"
definition RSADDLOC :: InstructionType where "RSADDLOC = InstructionType 9"
definition RSADDTAL :: InstructionType where "RSADDTAL = InstructionType 10"
definition CPTOPSP :: InstructionType where "CPTOPSP = InstructionType 11"
definition CONSTI :: InstructionType where "CONSTI = InstructionType 12"
definition CONSTF :: InstructionType where "CONSTF = InstructionType 13"
definition CONSTS :: InstructionType where "CONSTS = InstructionType 14"
definition CONSTO :: InstructionType where "CONSTO = InstructionType 15"
definition ACTION :: InstructionType where "ACTION = InstructionType 16"
definition LOGANDII :: InstructionType where "LOGANDII = InstructionType 17"
definition LOGORII :: InstructionType where "LOGORII = InstructionType 18"
definition INCORII :: InstructionType where "INCORII = InstructionType 19"
definition EXCORII :: InstructionType where "EXCORII = InstructionType 20"
definition BOOLANDII :: InstructionType where "BOOLANDII = InstructionType 21"
definition EQUALII :: InstructionType where "EQUALII = InstructionType 22"
definition EQUALFF :: InstructionType where "EQUALFF = InstructionType 23"
definition EQUALSS :: InstructionType where "EQUALSS = InstructionType 24"
definition EQUALOO :: InstructionType where "EQUALOO = InstructionType 25"
definition EQUALTT :: InstructionType where "EQUALTT = InstructionType 26"
definition EQUALEFFEFF :: InstructionType where "EQUALEFFEFF = InstructionType 27"
definition EQUALEVTEVT :: InstructionType where "EQUALEVTEVT = InstructionType 28"
definition EQUALLOCLOC :: InstructionType where "EQUALLOCLOC = InstructionType 29"
definition EQUALTALTAL :: InstructionType where "EQUALTALTAL = InstructionType 30"
definition NEQUALII :: InstructionType where "NEQUALII = InstructionType 31"
definition NEQUALFF :: InstructionType where "NEQUALFF = InstructionType 32"
definition NEQUALSS :: InstructionType where "NEQUALSS = InstructionType 33"
definition NEQUALOO :: InstructionType where "NEQUALOO = InstructionType 34"
definition NEQUALTT :: InstructionType where "NEQUALTT = InstructionType 35"
definition NEQUALEFFEFF :: InstructionType where "NEQUALEFFEFF = InstructionType 36"
definition NEQUALEVTEVT :: InstructionType where "NEQUALEVTEVT = InstructionType 37"
definition NEQUALLOCLOC :: InstructionType where "NEQUALLOCLOC = InstructionType 38"
definition NEQUALTALTAL :: InstructionType where "NEQUALTALTAL = InstructionType 39"
definition GEQII :: InstructionType where "GEQII = InstructionType 40"
definition GEQFF :: InstructionType where "GEQFF = InstructionType 41"
definition GTII :: InstructionType where "GTII = InstructionType 42"
definition GTFF :: InstructionType where "GTFF = InstructionType 43"
definition LTII :: InstructionType where "LTII = InstructionType 44"
definition LTFF :: InstructionType where "LTFF = InstructionType 45"
definition LEQII :: InstructionType where "LEQII = InstructionType 46"
definition LEQFF :: InstructionType where "LEQFF = InstructionType 47"
definition SHLEFTII :: InstructionType where "SHLEFTII = InstructionType 48"
definition SHRIGHTII :: InstructionType where "SHRIGHTII = InstructionType 49"
definition USHRIGHTII :: InstructionType where "USHRIGHTII = InstructionType 50"
definition ADDII :: InstructionType where "ADDII = InstructionType 51"
definition ADDIF :: InstructionType where "ADDIF = InstructionType 52"
definition ADDFI :: InstructionType where "ADDFI = InstructionType 53"
definition ADDFF :: InstructionType where "ADDFF = InstructionType 54"
definition ADDSS :: InstructionType where "ADDSS = InstructionType 55"
definition ADDVV :: InstructionType where "ADDVV = InstructionType 56"
definition SUBII :: InstructionType where "SUBII = InstructionType 57"
definition SUBIF :: InstructionType where "SUBIF = InstructionType 58"
definition SUBFI :: InstructionType where "SUBFI = InstructionType 59"
definition SUBFF :: InstructionType where "SUBFF = InstructionType 60"
definition SUBVV :: InstructionType where "SUBVV = InstructionType 61"
definition MULII :: InstructionType where "MULII = InstructionType 62"
definition MULIF :: InstructionType where "MULIF = InstructionType 63"
definition MULFI :: InstructionType where "MULFI = InstructionType 64"
definition MULFF :: InstructionType where "MULFF = InstructionType 65"
definition MULVF :: InstructionType where "MULVF = InstructionType 66"
definition MULFV :: InstructionType where "MULFV = InstructionType 67"
definition DIVII :: InstructionType where "DIVII = InstructionType 68"
definition DIVIF :: InstructionType where "DIVIF = InstructionType 69"
definition DIVFI :: InstructionType where "DIVFI = InstructionType 70"
definition DIVFF :: InstructionType where "DIVFF = InstructionType 71"
definition DIVVF :: InstructionType where "DIVVF = InstructionType 72"
definition DIVFV :: InstructionType where "DIVFV = InstructionType 73"
definition MODII :: InstructionType where "MODII = InstructionType 74"
definition NEGI :: InstructionType where "NEGI = InstructionType 75"
definition NEGF :: InstructionType where "NEGF = InstructionType 76"
definition MOVSP :: InstructionType where "MOVSP = InstructionType 77"
definition JMP :: InstructionType where "JMP = InstructionType 78"
definition JSR :: InstructionType where "JSR = InstructionType 79"
definition JZ :: InstructionType where "JZ = InstructionType 80"
definition RETN :: InstructionType where "RETN = InstructionType 81"
definition DESTRUCT :: InstructionType where "DESTRUCT = InstructionType 82"
definition NOTI :: InstructionType where "NOTI = InstructionType 83"
definition DECISP :: InstructionType where "DECISP = InstructionType 84"
definition INCISP :: InstructionType where "INCISP = InstructionType 85"
definition JNZ :: InstructionType where "JNZ = InstructionType 86"
definition CPDOWNBP :: InstructionType where "CPDOWNBP = InstructionType 87"
definition CPTOPBP :: InstructionType where "CPTOPBP = InstructionType 88"
definition DECIBP :: InstructionType where "DECIBP = InstructionType 89"
definition INCIBP :: InstructionType where "INCIBP = InstructionType 90"
definition SAVEBP :: InstructionType where "SAVEBP = InstructionType 91"
definition RESTOREBP :: InstructionType where "RESTOREBP = InstructionType 92"
definition STORE_STATE :: InstructionType where "STORE_STATE = InstructionType 93"

lemmas InstructionType_defs =
  NOP_def NOP2_def CPDOWNSP_def RSADDI_def RSADDF_def RSADDS_def RSADDO_def RSADDEFF_def
  RSADDEVT_def RSADDLOC_def RSADDTAL_def CPTOPSP_def CONSTI_def CONSTF_def CONSTS_def
  CONSTO_def ACTION_def LOGANDII_def LOGORII_def INCORII_def EXCORII_def BOOLANDII_def
  EQUALII_def EQUALFF_def EQUALSS_def EQUALOO_def EQUALTT_def EQUALEFFEFF_def EQUALEVTEVT_def
  EQUALLOCLOC_def EQUALTALTAL_def NEQUALII_def NEQUALFF_def NEQUALSS_def NEQUALOO_def
  NEQUALTT_def NEQUALEFFEFF_def NEQUALEVTEVT_def NEQUALLOCLOC_def NEQUALTALTAL_def GEQII_def
  GEQFF_def GTII_def GTFF_def LTII_def LTFF_def LEQII_def LEQFF_def SHLEFTII_def SHRIGHTII_def
  USHRIGHTII_def ADDII_def ADDIF_def ADDFI_def ADDFF_def ADDSS_def ADDVV_def SUBII_def
  SUBIF_def SUBFI_def SUBFF_def SUBVV_def MULII_def MULIF_def MULFI_def MULFF_def MULVF_def
  MULFV_def DIVII_def DIVIF_def DIVFI_def DIVFF_def DIVVF_def DIVFV_def MODII_def NEGI_def
  NEGF_def MOVSP_def JMP_def JSR_def JZ_def RETN_def DESTRUCT_def NOTI_def DECISP_def
  INCISP_def JNZ_def CPDOWNBP_def CPTOPBP_def DECIBP_def INCIBP_def SAVEBP_def RESTOREBP_def
  STORE_STATE_def

text \<open>
  A C++ \<open>float\<close> is an IEEE binary32 number. A float of the model is the real number
  that a finite binary32 value denotes; the model holds neither an infinity, nor a NaN,
  nor the negative zero (the real \<open>0\<close> is \<open>+0.0\<close>). An operation whose binary32 result
  is one of those ends the step with an error, \<open>NonFiniteFloat\<close> or \<open>NegativeZero\<close>
  below. The type is that of all reals: a literal or a routine result that is not a
  binary32 number has no counterpart in the code. \<open>glm::vec3\<close> is three floats.

  Every arithmetic operation on floats rounds its exact result to binary32, to nearest
  with ties to even. \<open>binade x\<close> is the exponent of the binary32 interval that holds
  \<open>x\<close>: the \<open>e\<close> with \<open>2 ^ e \<le> \<bar>x\<bar> < 2 ^ (e + 1)\<close>, kept between \<open>-126\<close> (below
  \<open>2 ^ -126\<close> lie the subnormal numbers, which share that exponent) and \<open>127\<close>. The
  binary32 numbers of that interval are the multiples of \<open>2 ^ (e - 23)\<close>, and
  \<open>round32 x\<close> is the nearest of them. An exact result of magnitude
  \<open>2 ^ 128 - 2 ^ 103\<close> or more, half a step above the largest finite binary32 number
  \<open>2 ^ 128 - 2 ^ 104\<close>, rounds to an infinity: \<open>overflow32\<close>.
  \<open>binade_search n e m\<close> looks for the exponent of the magnitude \<open>m\<close> upwards from
  \<open>e\<close>, over at most \<open>n\<close> steps; \<open>round_even\<close> is the nearest integer, the even one
  of the two at a tie.
\<close>

type_synonym float = real

fun binade_search :: "nat \<Rightarrow> int \<Rightarrow> real \<Rightarrow> int" where
  "binade_search 0 e m = e"
| "binade_search (Suc n) e m = (if m < 2 powi (e + 1) then e else binade_search n (e + 1) m)"

definition binade :: "real \<Rightarrow> int" where
  "binade x = binade_search 253 (- 126) \<bar>x\<bar>"

definition round_even :: "real \<Rightarrow> int" where
  "round_even x =
     (let f = \<lfloor>x\<rfloor> in
      if x - of_int f < 1 / 2 then f
      else if 1 / 2 < x - of_int f then f + 1
      else if even f then f else f + 1)"

definition round32 :: "real \<Rightarrow> float" where
  "round32 x = (let ulp = 2 powi (binade x - 23) in of_int (round_even (x / ulp)) * ulp)"

definition overflow32 :: "real \<Rightarrow> bool" where
  "overflow32 x \<longleftrightarrow> 2 ^ 128 - 2 ^ 103 \<le> \<bar>x\<bar>"

datatype vec3 = vec3 (vx: float) (vy: float) (vz: float)

text \<open>
  Modelled from the spec: the struct \<open>Instruction\<close> (program.h) is not part of the
  sources at hand. The spec lists what an instruction carries: the opcode, its own and
  its successor's offset, and the encoded fields (a size in bytes, signed stack-offset and
  jump deltas, literal values, a routine id with an argument count, the sub-range of
  DESTRUCT, the size of the locals of STORE_STATE). The fields here are the ones the
  handlers read, under the names they read them by. Offsets are \<open>uint32_t\<close>; sizes and
  deltas are given by their integer values.
\<close>

record Instruction =
  offset :: "32 word"
  type_ins :: InstructionType
  nextOffset :: "32 word"
  size_ins :: int
  stackOffset :: int
  intValue_ins :: "32 word"
  floatValue_ins :: float
  strValue_ins :: string
  objectId_ins :: "32 word"
  routine :: int
  argCount :: int
  jumpOffset :: int
  sizeNoDestroy :: int
  sizeLocals :: int

text \<open>
  Modelled from the spec: the class \<open>ScriptProgram\<close> (program.h) is not part of the
  sources at hand. The spec gives its interface: \<open>instruction(offset)\<close>, \<open>length()\<close>,
  \<open>name()\<close>, over an immutable sequence of decoded instructions keyed by offset.
\<close>

record ScriptProgram =
  name :: string
  length_prog :: "32 word"
  instructions :: "Instruction list"

definition getInstruction :: "ScriptProgram \<Rightarrow> 32 word \<Rightarrow> Instruction option" where
  "getInstruction p off = find (\<lambda>i. offset i = off) (instructions p)"

text \<open>
  \<open>Variable\<close>, \<open>Argument\<close>, \<open>ExecutionContext\<close> and \<open>ExecutionState\<close> refer to each other:
  an Action variable owns a captured context, a context owns arguments and a saved state,
  a saved state owns variables.

  The anonymous union of \<open>intValue\<close>, \<open>objectId\<close> and \<open>floatValue\<close> is two fields here:
  \<open>intValue\<close> holds the 32 bits of the integer members (\<open>objectId\<close> is the same word read
  as unsigned) and \<open>floatValue\<close> the float member. Reading an integer member of a
  Float-tagged variable, or the float member of any other, is undefined behaviour in the
  model (see \<open>read_intValue\<close>, \<open>read_floatValue\<close>).

  A \<open>shared_ptr\<close> that \<open>operator==\<close> compares by identity carries its address:
  \<open>engineType\<close> is the address alone (the engine object is opaque to the machine),
  \<open>context_v\<close> the address and the context pointed to. \<open>None\<close> is the null pointer.
  \<open>ExecutionContext::routines\<close> is a non-owning pointer to a routine table, an address.

  \<open>ExecutionState\<close> is declared in executionstate.h; its four members are the ones
  \<open>run\<close> and STORE_STATE read and write.

  The field \<open>Variable::id\<close>, a diagnostic number drawn from the process-wide counter
  \<open>g_id\<close> and printed by \<open>toString\<close> only, is left out: \<open>operator==\<close> ignores it and
  no handler reads it.
\<close>

datatype Variable = Variable
    (type: VariableType) (strValue: string) (vecValue: vec3)
    (engineType: "nat option") (context_v: "(nat \<times> ExecutionContext) option")
    (intValue: "32 word") (floatValue: float)
and ExecutionContext = ExecutionContext
    (routines: "nat option") (savedState: "ExecutionState option") (args: "Argument list")
and Argument = Argument (kind: ArgKind) (var: Variable)
and ExecutionState = ExecutionState
    (globals: "Variable list") (locals: "Variable list")
    (program: "ScriptProgram option") (insOffset: "32 word")

abbreviation objectId :: "Variable \<Rightarrow> 32 word" where
  "objectId v \<equiv> intValue v"

text \<open>A default-constructed \<open>Variable\<close>: the member initialisers of the struct.\<close>

definition Variable_default :: Variable where
  "Variable_default = Variable Void [] (vec3 0 0 0) None None 0 0"

definition ofNull :: Variable where
  "ofNull = Variable Void [] (vec3 0 0 0) None None 0 0"

definition ofInt :: "32 word \<Rightarrow> Variable" where
  "ofInt v = Variable Int_t [] (vec3 0 0 0) None None v 0"

definition ofFloat :: "float \<Rightarrow> Variable" where
  "ofFloat v = Variable Float [] (vec3 0 0 0) None None 0 v"

definition ofString :: "string \<Rightarrow> Variable" where
  "ofString v = Variable String v (vec3 0 0 0) None None 0 0"

definition ofVector :: "vec3 \<Rightarrow> Variable" where
  "ofVector v = Variable Vector [] v None None 0 0"

definition ofObject :: "32 word \<Rightarrow> Variable" where
  "ofObject oid = Variable Object [] (vec3 0 0 0) None None oid 0"

definition ofEffect :: "nat option \<Rightarrow> Variable" where
  "ofEffect e = Variable Effect [] (vec3 0 0 0) e None 0 0"

definition ofEvent :: "nat option \<Rightarrow> Variable" where
  "ofEvent e = Variable Event [] (vec3 0 0 0) e None 0 0"

definition ofLocation :: "nat option \<Rightarrow> Variable" where
  "ofLocation e = Variable Location [] (vec3 0 0 0) e None 0 0"

definition ofTalent :: "nat option \<Rightarrow> Variable" where
  "ofTalent e = Variable Talent [] (vec3 0 0 0) e None 0 0"

definition ofAction :: "(nat \<times> ExecutionContext) option \<Rightarrow> Variable" where
  "ofAction c = Variable Action [] (vec3 0 0 0) None c 0 0"

text \<open>
  \<open>Variable::operator==\<close>: tag, string, vector, the two pointers (by address) and the
  union payload, which the code compares as the 32 bits of \<open>intValue\<close>. Two finite
  binary32 numbers other than the negative zero have the same bits exactly when they
  denote the same real, so on the floats of the model the comparison of the bits is the
  equality of \<open>floatValue\<close>.
\<close>

definition var_eq :: "Variable \<Rightarrow> Variable \<Rightarrow> bool" where
  "var_eq a b \<longleftrightarrow>
     type a = type b \<and> strValue a = strValue b \<and> vecValue a = vecValue b \<and>
     engineType a = engineType b \<and>
     map_option fst (context_v a) = map_option fst (context_v b) \<and>
     intValue a = intValue b \<and> floatValue a = floatValue b"

section \<open>Errors\<close>

text \<open>
  The exceptions the code throws, all derived from \<open>std::exception\<close>, and the ways a
  step can leave the model: undefined behaviour of C++ (reading past the ends of the
  stack vector, signed overflow, division by zero on \<open>int\<close>, a shift count out of range,
  a null pointer dereferenced, an inactive union member read), a float result that is an
  infinity or a NaN (\<open>NonFiniteFloat\<close>: the code goes on with that value), and a float
  result that is the negative zero (\<open>NegativeZero\<close>: the code goes on with \<open>-0.0\<close>).
\<close>

datatype exception =
  invalid_argument | runtime_error | logic_error | length_error | out_of_range
  | NotImplementedException | routine_exception

datatype error = Thrown exception | UndefinedBehaviour | NonFiniteFloat | NegativeZero

definition andThen :: "error + 'a \<Rightarrow> ('a \<Rightarrow> error + 'b) \<Rightarrow> error + 'b" where
  "andThen m f = (case m of Inl e \<Rightarrow> Inl e | Inr x \<Rightarrow> f x)"

text \<open>The constants of types.h that the sources at hand use but do not declare.\<close>

record script_consts =
  kObjectSelf :: "32 word"
  kObjectInvalid :: "32 word"

section \<open>Arguments (variable.cpp)\<close>

text \<open>
  \<open>Argument::verify\<close>. The message of the exception is built by \<open>toString\<close>, which
  cannot fail on a variable whose tag is one of the enum's members.
\<close>

definition verify :: "script_consts \<Rightarrow> Argument \<Rightarrow> error + unit" where
  "verify K a =
    (case kind a of
       Caller \<Rightarrow> (if type (var a) \<noteq> Object \<or> objectId (var a) = kObjectSelf K
                   then Inl (Thrown invalid_argument) else Inr ())
     | ClickingObject \<Rightarrow> (if type (var a) \<noteq> Object \<or> objectId (var a) = kObjectSelf K
                   then Inl (Thrown invalid_argument) else Inr ())
     | EnteringObject \<Rightarrow> (if type (var a) \<noteq> Object \<or> objectId (var a) = kObjectSelf K
                   then Inl (Thrown invalid_argument) else Inr ())
     | ExitingObject \<Rightarrow> (if type (var a) \<noteq> Object \<or> objectId (var a) = kObjectSelf K
                   then Inl (Thrown invalid_argument) else Inr ())
     | LastClosedBy \<Rightarrow> (if type (var a) \<noteq> Object \<or> objectId (var a) = kObjectSelf K
                   then Inl (Thrown invalid_argument) else Inr ())
     | LastOpenedBy \<Rightarrow> (if type (var a) \<noteq> Object \<or> objectId (var a) = kObjectSelf K
                   then Inl (Thrown invalid_argument) else Inr ())
     | LastPerceived \<Rightarrow> (if type (var a) \<noteq> Object \<or> objectId (var a) = kObjectSelf K
                   then Inl (Thrown invalid_argument) else Inr ())
     | ScriptVar \<Rightarrow> (if type (var a) \<noteq> Int_t then Inl (Thrown invalid_argument) else Inr ())
     | UserDefinedEventNumber \<Rightarrow>
         (if type (var a) \<noteq> Int_t then Inl (Thrown invalid_argument) else Inr ())
     | LastPerceptionHeard \<Rightarrow>
         (if type (var a) \<noteq> Int_t then Inl (Thrown invalid_argument) else Inr ())
     | LastPerceptionInaudible \<Rightarrow>
         (if type (var a) \<noteq> Int_t then Inl (Thrown invalid_argument) else Inr ())
     | LastPerceptionSeen \<Rightarrow>
         (if type (var a) \<noteq> Int_t then Inl (Thrown invalid_argument) else Inr ())
     | LastPerceptionVanished \<Rightarrow>
         (if type (var a) \<noteq> Int_t then Inl (Thrown invalid_argument) else Inr ()))"

text \<open>The constructor \<open>Argument(ArgKind kind, Variable var)\<close>: store both, then verify.\<close>

definition Argument_new :: "script_consts \<Rightarrow> ArgKind \<Rightarrow> Variable \<Rightarrow> error + Argument" where
  "Argument_new K k v = andThen (verify K (Argument k v)) (\<lambda>_. Inr (Argument k v))"

text \<open>
  Modelled from the spec: the body of \<open>ExecutionContext::findArg\<close> is not part of the
  sources at hand (executioncontext.h declares it). The spec: a linear scan, the first
  match wins, not found if absent.
\<close>

definition findArg :: "ExecutionContext \<Rightarrow> ArgKind \<Rightarrow> Variable option" where
  "findArg c k = map_option var (find (\<lambda>a. kind a = k) (args c))"

section \<open>The virtual machine (virtualmachine.cpp)\<close>

text \<open>
  Modelled from the spec: \<open>Routine\<close> and \<open>IRoutines\<close> (routine.h, routines.h) are not
  part of the sources at hand. The spec gives the interface: a routine exposes
  \<open>argumentCount()\<close>, \<open>argumentType(i)\<close>, \<open>returnType()\<close> and
  \<open>invoke(args, context)\<close>; the table's \<open>get(id)\<close> fails with an error of the engine's
  when the id is out of range. The declared argument types are a list, so
  \<open>getArgumentCount\<close> is its length and \<open>getArgumentType i\<close> its \<open>i\<close>-th element.
\<close>

record Routine =
  argumentTypes :: "VariableType list"
  returnType :: VariableType
  invoke :: "Variable list \<Rightarrow> ExecutionContext \<Rightarrow> error + Variable"

definition getArgumentCount :: "Routine \<Rightarrow> int" where
  "getArgumentCount r = int (length (argumentTypes r))"

type_synonym IRoutines = "int \<Rightarrow> error + Routine"

text \<open>
  What a machine is constructed with and never changes: its context, its program, the
  routine tables that the pointer \<open>ExecutionContext::routines\<close> may refer to, and the
  constants of types.h.
\<close>

record env =
  context_env :: ExecutionContext
  program_env :: ScriptProgram
  routineTables :: "nat \<Rightarrow> IRoutines"
  consts_env :: script_consts

text \<open>
  The members of \<open>VirtualMachine\<close> that a run changes, by the names virtualmachine.cpp
  uses (the class itself is declared in virtualmachine.h; the spec's machine run state is
  the operand stack, the return-address stack, the global count and the next-instruction
  offset). The stack is the
  \<open>std::vector\<close> \<open>_stack\<close>: index 0 is its bottom, \<open>back()\<close> its last element.
  \<open>nextAddr\<close> is the address that the next \<open>std::make_shared\<close> returns.
  Tracing (\<open>logOperands\<close>, \<open>logResults\<close>, \<open>logJump\<close>) only writes to the log stream
  and only when the Script3 channel is enabled; the model is the machine with that
  channel off.
\<close>

record vm =
  stack :: "Variable list"
  returnOffsets :: "32 word list"
  globalCount :: int
  nextInstruction :: "32 word"
  savedState_vm :: ExecutionState
  nextAddr :: nat

definition kStartInstructionOffset :: "32 word" where
  "kStartInstructionOffset = 13"

text \<open>
  \<open>static constexpr float kFloatTolerance = 1e-5\<close>: the binary32 number nearest to
  \<open>1 / 100000\<close>, which is \<open>2748779 / 2 ^ 38\<close> (the bits \<open>0x3727C5AC\<close>), a little
  below \<open>1 / 100000\<close>.
\<close>

definition kFloatTolerance :: float where
  "kFloatTolerance = 2748779 / 2 ^ 38"

subsection \<open>Stack access\<close>

definition stack_size :: "vm \<Rightarrow> int" where
  "stack_size s = int (length (stack s))"

definition push_back :: "Variable \<Rightarrow> vm \<Rightarrow> vm" where
  "push_back v s = s\<lparr>stack := stack s @ [v]\<rparr>"

text \<open>\<open>_stack.back()\<close> followed by \<open>_stack.pop_back()\<close>; on an empty vector both are undefined.\<close>

definition pop_back :: "vm \<Rightarrow> error + (Variable \<times> vm)" where
  "pop_back s = (if stack s = [] then Inl UndefinedBehaviour
                 else Inr (last (stack s), s\<lparr>stack := butlast (stack s)\<rparr>))"

text \<open>\<open>_stack[i]\<close> for an \<open>int\<close> index, read and written.\<close>

definition stack_at :: "vm \<Rightarrow> int \<Rightarrow> error + Variable" where
  "stack_at s i = (if 0 \<le> i \<and> i < stack_size s then Inr (stack s ! nat i)
                   else Inl UndefinedBehaviour)"

definition stack_set :: "vm \<Rightarrow> int \<Rightarrow> Variable \<Rightarrow> error + vm" where
  "stack_set s i v = (if 0 \<le> i \<and> i < stack_size s then Inr (s\<lparr>stack := (stack s)[nat i := v]\<rparr>)
                      else Inl UndefinedBehaviour)"

text \<open>Reading a member of the union (see the datatype \<open>Variable\<close>).\<close>

definition read_intValue :: "Variable \<Rightarrow> error + 32 word" where
  "read_intValue v = (if type v = Float then Inl UndefinedBehaviour else Inr (intValue v))"

definition read_floatValue :: "Variable \<Rightarrow> error + float" where
  "read_floatValue v = (if type v = Float then Inr (floatValue v) else Inl UndefinedBehaviour)"

text \<open>
  The result of an \<open>int\<close> operation whose mathematical value is \<open>k\<close>: signed overflow is
  undefined.
\<close>

definition int32 :: "int \<Rightarrow> error + 32 word" where
  "int32 k = (if - (2 ^ 31) \<le> k \<and> k < 2 ^ 31 then Inr (word_of_int k)
              else Inl UndefinedBehaviour)"

definition throwIfInvalidType :: "VariableType \<Rightarrow> VariableType \<Rightarrow> error + unit" where
  "throwIfInvalidType expected actual =
     (if actual \<noteq> expected then Inl (Thrown runtime_error) else Inr ())"

definition getIntFromStack :: "vm \<Rightarrow> error + (32 word \<times> vm)" where
  "getIntFromStack s =
     andThen (pop_back s) (\<lambda>(v, s').
     andThen (throwIfInvalidType Int_t (type v)) (\<lambda>_. Inr (intValue v, s')))"

definition getFloatFromStack :: "vm \<Rightarrow> error + (float \<times> vm)" where
  "getFloatFromStack s =
     andThen (pop_back s) (\<lambda>(v, s').
     andThen (throwIfInvalidType Float (type v)) (\<lambda>_. Inr (floatValue v, s')))"

definition getVectorFromStack :: "vm \<Rightarrow> error + (vec3 \<times> vm)" where
  "getVectorFromStack s =
     andThen (getFloatFromStack s) (\<lambda>(z, s1).
     andThen (getFloatFromStack s1) (\<lambda>(y, s2).
     andThen (getFloatFromStack s2) (\<lambda>(x, s3). Inr (vec3 x y z, s3))))"

definition withStackVariables ::
  "(Variable \<Rightarrow> Variable \<Rightarrow> vm \<Rightarrow> error + vm) \<Rightarrow> vm \<Rightarrow> error + vm" where
  "withStackVariables fn s =
     andThen (pop_back s) (\<lambda>(second, s1).
     andThen (pop_back s1) (\<lambda>(first, s2). fn first second s2))"

definition withIntsFromStack ::
  "(32 word \<Rightarrow> 32 word \<Rightarrow> vm \<Rightarrow> error + vm) \<Rightarrow> vm \<Rightarrow> error + vm" where
  "withIntsFromStack fn =
     withStackVariables (\<lambda>left right s.
       andThen (throwIfInvalidType Int_t (type left)) (\<lambda>_.
       andThen (throwIfInvalidType Int_t (type right)) (\<lambda>_.
       fn (intValue left) (intValue right) s)))"

definition withIntFloatFromStack ::
  "(32 word \<Rightarrow> float \<Rightarrow> vm \<Rightarrow> error + vm) \<Rightarrow> vm \<Rightarrow> error + vm" where
  "withIntFloatFromStack fn =
     withStackVariables (\<lambda>left right s.
       andThen (throwIfInvalidType Int_t (type left)) (\<lambda>_.
       andThen (throwIfInvalidType Float (type right)) (\<lambda>_.
       fn (intValue left) (floatValue right) s)))"

definition withFloatIntFromStack ::
  "(float \<Rightarrow> 32 word \<Rightarrow> vm \<Rightarrow> error + vm) \<Rightarrow> vm \<Rightarrow> error + vm" where
  "withFloatIntFromStack fn =
     withStackVariables (\<lambda>left right s.
       andThen (throwIfInvalidType Float (type left)) (\<lambda>_.
       andThen (throwIfInvalidType Int_t (type right)) (\<lambda>_.
       fn (floatValue left) (intValue right) s)))"

definition withFloatsFromStack ::
  "(float \<Rightarrow> float \<Rightarrow> vm \<Rightarrow> error + vm) \<Rightarrow> vm \<Rightarrow> error + vm" where
  "withFloatsFromStack fn =
     withStackVariables (\<lambda>left right s.
       andThen (throwIfInvalidType Float (type left)) (\<lambda>_.
       andThen (throwIfInvalidType Float (type right)) (\<lambda>_.
       fn (floatValue left) (floatValue right) s)))"

definition withStringsFromStack ::
  "(string \<Rightarrow> string \<Rightarrow> vm \<Rightarrow> error + vm) \<Rightarrow> vm \<Rightarrow> error + vm" where
  "withStringsFromStack fn =
     withStackVariables (\<lambda>left right s.
       andThen (throwIfInvalidType String (type left)) (\<lambda>_.
       andThen (throwIfInvalidType String (type right)) (\<lambda>_.
       fn (strValue left) (strValue right) s)))"

definition withObjectsFromStack ::
  "(32 word \<Rightarrow> 32 word \<Rightarrow> vm \<Rightarrow> error + vm) \<Rightarrow> vm \<Rightarrow> error + vm" where
  "withObjectsFromStack fn =
     withStackVariables (\<lambda>left right s.
       andThen (throwIfInvalidType Object (type left)) (\<lambda>_.
       andThen (throwIfInvalidType Object (type right)) (\<lambda>_.
       fn (objectId left) (objectId right) s)))"

text \<open>
  \<open>withEffectsFromStack\<close>, \<open>withEventsFromStack\<close>, \<open>withLocationsFromStack\<close> and
  \<open>withTalentsFromStack\<close> differ in the expected tag only.
\<close>

definition withEngineTypesFromStack ::
  "VariableType \<Rightarrow> (nat option \<Rightarrow> nat option \<Rightarrow> vm \<Rightarrow> error + vm) \<Rightarrow> vm \<Rightarrow> error + vm" where
  "withEngineTypesFromStack t fn =
     withStackVariables (\<lambda>left right s.
       andThen (throwIfInvalidType t (type left)) (\<lambda>_.
       andThen (throwIfInvalidType t (type right)) (\<lambda>_.
       fn (engineType left) (engineType right) s)))"

abbreviation "withEffectsFromStack \<equiv> withEngineTypesFromStack Effect"
abbreviation "withEventsFromStack \<equiv> withEngineTypesFromStack Event"
abbreviation "withLocationsFromStack \<equiv> withEngineTypesFromStack Location"
abbreviation "withTalentsFromStack \<equiv> withEngineTypesFromStack Talent"

definition withFloatVectorFromStack ::
  "(float \<Rightarrow> vec3 \<Rightarrow> vm \<Rightarrow> error + vm) \<Rightarrow> vm \<Rightarrow> error + vm" where
  "withFloatVectorFromStack fn s =
     andThen (getVectorFromStack s) (\<lambda>(right, s1).
     andThen (getFloatFromStack s1) (\<lambda>(left, s2). fn left right s2))"

definition withVectorFloatFromStack ::
  "(vec3 \<Rightarrow> float \<Rightarrow> vm \<Rightarrow> error + vm) \<Rightarrow> vm \<Rightarrow> error + vm" where
  "withVectorFloatFromStack fn s =
     andThen (getFloatFromStack s) (\<lambda>(right, s1).
     andThen (getVectorFromStack s1) (\<lambda>(left, s2). fn left right s2))"

definition withVectorsFromStack ::
  "(vec3 \<Rightarrow> vec3 \<Rightarrow> vm \<Rightarrow> error + vm) \<Rightarrow> vm \<Rightarrow> error + vm" where
  "withVectorsFromStack fn s =
     andThen (getVectorFromStack s) (\<lambda>(right, s1).
     andThen (getVectorFromStack s1) (\<lambda>(left, s2). fn left right s2))"

text \<open>Pushing an \<open>int\<close> made from a C++ \<open>bool\<close>, and the three floats of a vector.\<close>

definition push_bool :: "bool \<Rightarrow> vm \<Rightarrow> error + vm" where
  "push_bool b s = Inr (push_back (ofInt (of_bool b)) s)"

definition push_xyz :: "vec3 \<Rightarrow> vm \<Rightarrow> error + vm" where
  "push_xyz r s =
     Inr (push_back (ofFloat (vz r)) (push_back (ofFloat (vy r)) (push_back (ofFloat (vx r)) s)))"

subsection \<open>Arithmetic on float\<close>

text \<open>
  The binary32 result of an operation whose exact result is \<open>x\<close>; \<open>negative\<close> is the
  sign that IEEE 754 gives to the result (for a sum or a difference the sign of \<open>x\<close>, an
  exact zero sum being \<open>+0.0\<close>; for a product or a quotient the exclusive or of the
  signs of the operands, also when the result is zero).
\<close>

definition float_result :: "bool \<Rightarrow> real \<Rightarrow> error + float" where
  "float_result negative x =
     (if overflow32 x then Inl NonFiniteFloat
      else if round32 x = 0 \<and> negative then Inl NegativeZero
      else Inr (round32 x))"

definition float_add :: "float \<Rightarrow> float \<Rightarrow> error + float" where
  "float_add left right = float_result (left + right < 0) (left + right)"

definition float_sub :: "float \<Rightarrow> float \<Rightarrow> error + float" where
  "float_sub left right = float_result (left - right < 0) (left - right)"

definition float_mul :: "float \<Rightarrow> float \<Rightarrow> error + float" where
  "float_mul left right = float_result ((left < 0) \<noteq> (right < 0)) (left * right)"

text \<open>A float divided by zero is an infinity, or a NaN when it is zero itself.\<close>

definition float_div :: "float \<Rightarrow> float \<Rightarrow> error + float" where
  "float_div left right =
     (if right = 0 then Inl NonFiniteFloat
      else float_result ((left < 0) \<noteq> (right < 0)) (left / right))"

definition float_neg :: "float \<Rightarrow> error + float" where
  "float_neg f = (if f = 0 then Inl NegativeZero else Inr (- f))"

text \<open>
  The conversion of an \<open>int\<close> operand to \<open>float\<close> that the usual arithmetic conversions
  insert where the other operand is a float: it rounds (an \<open>int\<close> beyond \<open>2 ^ 24\<close> need
  not be a binary32 number) and cannot overflow.
\<close>

definition float_of_int :: "32 word \<Rightarrow> float" where
  "float_of_int k = round32 (real_of_int (sint k))"

text \<open>The three components of a \<open>glm::vec3\<close> result, computed in the order \<open>x, y, z\<close>.\<close>

definition vec3_result :: "error + float \<Rightarrow> error + float \<Rightarrow> error + float \<Rightarrow> error + vec3" where
  "vec3_result x y z =
     andThen x (\<lambda>a. andThen y (\<lambda>b. andThen z (\<lambda>c. Inr (vec3 a b c))))"

text \<open>\<open>_stack.push_back(Variable::ofFloat(...))\<close> of the result of an operation.\<close>

definition push_float :: "error + float \<Rightarrow> vm \<Rightarrow> error + vm" where
  "push_float r s = andThen r (\<lambda>v. Inr (push_back (ofFloat v) s))"

subsection \<open>Instruction handlers\<close>

text \<open>
  Every handler takes the machine's fixed environment, the instruction and the state, and
  returns the new state or the error that ended the step. C++ \<open>/\<close> on \<open>int\<close> truncates
  towards zero: \<open>sdiv\<close>. A \<open>for (int i = 0; i < count; ++i)\<close> loop runs \<open>nat count\<close> times.
\<close>

type_synonym handler = "env \<Rightarrow> Instruction \<Rightarrow> vm \<Rightarrow> error + vm"

text \<open>The loop \<open>_stack[dstIdx++] = _stack[srcIdx++]\<close> of CPDOWNSP, CPDOWNBP and DESTRUCT.\<close>

fun copy_down :: "nat \<Rightarrow> int \<Rightarrow> int \<Rightarrow> vm \<Rightarrow> error + vm" where
  "copy_down 0 dstIdx srcIdx s = Inr s"
| "copy_down (Suc n) dstIdx srcIdx s =
     (case stack_at s srcIdx of
        Inl e \<Rightarrow> Inl e
      | Inr v \<Rightarrow> (case stack_set s dstIdx v of
                   Inl e \<Rightarrow> Inl e
                 | Inr s' \<Rightarrow> copy_down n (dstIdx + 1) (srcIdx + 1) s'))"

text \<open>The loop \<open>_stack.push_back(_stack[srcIdx++])\<close> of CPTOPSP and CPTOPBP.\<close>

fun copy_top :: "nat \<Rightarrow> int \<Rightarrow> vm \<Rightarrow> error + vm" where
  "copy_top 0 srcIdx s = Inr s"
| "copy_top (Suc n) srcIdx s =
     (case stack_at s srcIdx of
        Inl e \<Rightarrow> Inl e
      | Inr v \<Rightarrow> copy_top n (srcIdx + 1) (push_back v s))"

definition executeCPDOWNSP :: handler where
  "executeCPDOWNSP E ins s =
     (let count = size_ins ins sdiv 4;
          srcIdx = stack_size s - count;
          dstIdx = stack_size s + stackOffset ins sdiv 4
      in copy_down (nat count) dstIdx srcIdx s)"

definition executeRSADDI :: handler where
  "executeRSADDI E ins s = Inr (push_back (ofInt 0) s)"

definition executeRSADDF :: handler where
  "executeRSADDF E ins s = Inr (push_back (ofFloat 0) s)"

definition executeRSADDS :: handler where
  "executeRSADDS E ins s = Inr (push_back (ofString []) s)"

definition executeRSADDO :: handler where
  "executeRSADDO E ins s = Inr (push_back (ofObject (kObjectInvalid (consts_env E))) s)"

definition executeRSADDEFF :: handler where
  "executeRSADDEFF E ins s = Inr (push_back (ofEffect None) s)"

definition executeRSADDEVT :: handler where
  "executeRSADDEVT E ins s = Inr (push_back (ofEvent None) s)"

definition executeRSADDLOC :: handler where
  "executeRSADDLOC E ins s = Inr (push_back (ofLocation None) s)"

definition executeRSADDTAL :: handler where
  "executeRSADDTAL E ins s = Inr (push_back (ofTalent None) s)"

definition executeCPTOPSP :: handler where
  "executeCPTOPSP E ins s =
     (let count = size_ins ins sdiv 4;
          srcIdx = stack_size s + stackOffset ins sdiv 4
      in copy_top (nat count) srcIdx s)"

definition executeCONSTI :: handler where
  "executeCONSTI E ins s = Inr (push_back (ofInt (intValue_ins ins)) s)"

definition executeCONSTF :: handler where
  "executeCONSTF E ins s = Inr (push_back (ofFloat (floatValue_ins ins)) s)"

definition executeCONSTS :: handler where
  "executeCONSTS E ins s = Inr (push_back (ofString (strValue_ins ins)) s)"

definition executeCONSTO :: handler where
  "executeCONSTO E ins s =
     (let id = objectId_ins ins in
      if id \<noteq> kObjectSelf (consts_env E) then Inr (push_back (ofObject id) s)
      else (case findArg (context_env E) Caller of
              Some caller \<Rightarrow> Inr (push_back caller s)
            | None \<Rightarrow> Inr (push_back (ofObject (kObjectInvalid (consts_env E))) s)))"

text \<open>
  The argument loop of ACTION, over the declared types of the first \<open>argCount\<close>
  parameters. A Vector parameter takes three floats from the stack; an Action parameter
  takes nothing and captures a copy of the context whose saved state is a copy of the
  machine's \<open>_savedState\<close>; any other parameter takes the top of the stack, which must
  carry the declared tag.
\<close>

fun collectArguments ::
  "env \<Rightarrow> VariableType list \<Rightarrow> Variable list \<Rightarrow> vm \<Rightarrow> error + (Variable list \<times> vm)" where
  "collectArguments E [] args' s = Inr (args', s)"
| "collectArguments E (t # ts) args' s =
     (if t = Vector then
        (case getVectorFromStack s of
           Inl e \<Rightarrow> Inl e
         | Inr (v, s') \<Rightarrow> collectArguments E ts (args' @ [ofVector v]) s')
      else if t = Action then
        (let ctx = ExecutionContext (routines (context_env E)) (Some (savedState_vm s))
                     (args (context_env E))
         in collectArguments E ts (args' @ [ofAction (Some (nextAddr s, ctx))])
              (s\<lparr>nextAddr := nextAddr s + 1\<rparr>))
      else if stack s = [] then Inl UndefinedBehaviour
      else if type (last (stack s)) \<noteq> t then Inl (Thrown runtime_error)
      else collectArguments E ts (args' @ [last (stack s)]) (s\<lparr>stack := butlast (stack s)\<rparr>))"

definition executeACTION :: handler where
  "executeACTION E ins s =
     (case routines (context_env E) of
        None \<Rightarrow> Inl UndefinedBehaviour
      | Some table \<Rightarrow>
     (case routineTables E table (routine ins) of
        Inl e \<Rightarrow> Inl e
      | Inr r \<Rightarrow>
     if argCount ins > getArgumentCount r then Inl (Thrown invalid_argument)
     else
     (case collectArguments E (take (nat (argCount ins)) (argumentTypes r)) [] s of
        Inl e \<Rightarrow> Inl e
      | Inr (args', s') \<Rightarrow>
     (case invoke r args' (context_env E) of
        Inl e \<Rightarrow> Inl e
      | Inr retValue \<Rightarrow>
     (if returnType r = Void then Inr s'
      else if returnType r = Vector then
        Inr (push_back (ofFloat (vx (vecValue retValue)))
            (push_back (ofFloat (vy (vecValue retValue)))
            (push_back (ofFloat (vz (vecValue retValue))) s')))
      else Inr (push_back retValue s'))))))"

definition executeLOGANDII :: handler where
  "executeLOGANDII E ins = withIntsFromStack (\<lambda>left right. push_bool (left \<noteq> 0 \<and> right \<noteq> 0))"

definition executeLOGORII :: handler where
  "executeLOGORII E ins = withIntsFromStack (\<lambda>left right. push_bool (left \<noteq> 0 \<or> right \<noteq> 0))"

definition executeINCORII :: handler where
  "executeINCORII E ins = withIntsFromStack (\<lambda>left right s. Inr (push_back (ofInt (left OR right)) s))"

definition executeEXCORII :: handler where
  "executeEXCORII E ins = withIntsFromStack (\<lambda>left right s. Inr (push_back (ofInt (left XOR right)) s))"

definition executeBOOLANDII :: handler where
  "executeBOOLANDII E ins = withIntsFromStack (\<lambda>left right s. Inr (push_back (ofInt (left AND right)) s))"

definition executeEQUALII :: handler where
  "executeEQUALII E ins = withIntsFromStack (\<lambda>left right. push_bool (left = right))"

text \<open>
  EQUALFF: \<open>fabs(left - right) < kFloatTolerance\<close>. The difference is a float
  subtraction and is rounded; where it overflows, the infinity is not below the
  tolerance, and neither is the real that \<open>round32\<close> gives there.
\<close>

definition executeEQUALFF :: handler where
  "executeEQUALFF E ins =
     withFloatsFromStack (\<lambda>left right.
       push_bool (\<bar>round32 (left - right)\<bar> < kFloatTolerance))"

definition executeEQUALSS :: handler where
  "executeEQUALSS E ins = withStringsFromStack (\<lambda>left right. push_bool (left = right))"

definition executeEQUALOO :: handler where
  "executeEQUALOO E ins = withObjectsFromStack (\<lambda>left right. push_bool (left = right))"

text \<open>The two popping loops of EQUALTT and NEQUALTT, and \<open>std::equal\<close> with \<open>operator==\<close>.\<close>

fun pop_variables :: "nat \<Rightarrow> Variable list \<Rightarrow> vm \<Rightarrow> error + (Variable list \<times> vm)" where
  "pop_variables 0 vars s = Inr (vars, s)"
| "pop_variables (Suc n) vars s =
     (if stack s = [] then Inl UndefinedBehaviour
      else pop_variables n (vars @ [last (stack s)]) (s\<lparr>stack := butlast (stack s)\<rparr>))"

definition tuples_equal :: "Instruction \<Rightarrow> vm \<Rightarrow> error + (bool \<times> vm)" where
  "tuples_equal ins s =
     (let numVariables = size_ins ins sdiv 4 in
      case pop_variables (nat numVariables) [] s of
        Inl e \<Rightarrow> Inl e
      | Inr (vars1, s1) \<Rightarrow>
          (case pop_variables (nat numVariables) [] s1 of
             Inl e \<Rightarrow> Inl e
           | Inr (vars2, s2) \<Rightarrow> Inr (list_all2 var_eq vars1 vars2, s2)))"

definition executeEQUALTT :: handler where
  "executeEQUALTT E ins s = andThen (tuples_equal ins s) (\<lambda>(equal, s'). push_bool equal s')"

definition executeEQUALEFFEFF :: handler where
  "executeEQUALEFFEFF E ins = withEffectsFromStack (\<lambda>left right. push_bool (left = right))"

definition executeEQUALEVTEVT :: handler where
  "executeEQUALEVTEVT E ins = withEventsFromStack (\<lambda>left right. push_bool (left = right))"

definition executeEQUALLOCLOC :: handler where
  "executeEQUALLOCLOC E ins = withLocationsFromStack (\<lambda>left right. push_bool (left = right))"

definition executeEQUALTALTAL :: handler where
  "executeEQUALTALTAL E ins = withTalentsFromStack (\<lambda>left right. push_bool (left = right))"

definition executeNEQUALII :: handler where
  "executeNEQUALII E ins = withIntsFromStack (\<lambda>left right. push_bool (left \<noteq> right))"

definition executeNEQUALFF :: handler where
  "executeNEQUALFF E ins = withFloatsFromStack (\<lambda>left right. push_bool (left \<noteq> right))"

definition executeNEQUALSS :: handler where
  "executeNEQUALSS E ins = withStringsFromStack (\<lambda>left right. push_bool (left \<noteq> right))"

definition executeNEQUALOO :: handler where
  "executeNEQUALOO E ins = withObjectsFromStack (\<lambda>left right. push_bool (left \<noteq> right))"

definition executeNEQUALTT :: handler where
  "executeNEQUALTT E ins s =
     andThen (tuples_equal ins s) (\<lambda>(equal, s'). push_bool (\<not> equal) s')"

definition executeNEQUALEFFEFF :: handler where
  "executeNEQUALEFFEFF E ins = withEffectsFromStack (\<lambda>left right. push_bool (left \<noteq> right))"

definition executeNEQUALEVTEVT :: handler where
  "executeNEQUALEVTEVT E ins = withEventsFromStack (\<lambda>left right. push_bool (left \<noteq> right))"

definition executeNEQUALLOCLOC :: handler where
  "executeNEQUALLOCLOC E ins = withLocationsFromStack (\<lambda>left right. push_bool (left \<noteq> right))"

definition executeNEQUALTALTAL :: handler where
  "executeNEQUALTALTAL E ins = withTalentsFromStack (\<lambda>left right. push_bool (left \<noteq> right))"

definition executeGEQII :: handler where
  "executeGEQII E ins = withIntsFromStack (\<lambda>left right. push_bool (sint left \<ge> sint right))"

definition executeGEQFF :: handler where
  "executeGEQFF E ins = withFloatsFromStack (\<lambda>left right. push_bool (left \<ge> right))"

definition executeGTII :: handler where
  "executeGTII E ins = withIntsFromStack (\<lambda>left right. push_bool (sint left > sint right))"

definition executeGTFF :: handler where
  "executeGTFF E ins = withFloatsFromStack (\<lambda>left right. push_bool (left > right))"

definition executeLTII :: handler where
  "executeLTII E ins = withIntsFromStack (\<lambda>left right. push_bool (sint left < sint right))"

definition executeLTFF :: handler where
  "executeLTFF E ins = withFloatsFromStack (\<lambda>left right. push_bool (left < right))"

definition executeLEQII :: handler where
  "executeLEQII E ins = withIntsFromStack (\<lambda>left right. push_bool (sint left \<le> sint right))"

definition executeLEQFF :: handler where
  "executeLEQFF E ins = withFloatsFromStack (\<lambda>left right. push_bool (left \<le> right))"

text \<open>
  Shifts. A shift count outside \<open>0 .. 31\<close> is undefined. \<open>left << right\<close> on \<open>int\<close> is
  defined for a non-negative \<open>left\<close> whose shifted value fits the unsigned type
  (the rule of C++17, the language level of the project); \<open>>>\<close> on a non-negative
  \<open>int\<close> divides by the power of two.
\<close>

definition shift_left_int :: "32 word \<Rightarrow> 32 word \<Rightarrow> error + 32 word" where
  "shift_left_int left right =
     (if 0 \<le> sint right \<and> sint right < 32 \<and> 0 \<le> sint left \<and>
         sint left * 2 ^ nat (sint right) < 2 ^ 32
      then Inr (word_of_int (sint left * 2 ^ nat (sint right)))
      else Inl UndefinedBehaviour)"

definition shift_right_nonneg :: "int \<Rightarrow> 32 word \<Rightarrow> error + int" where
  "shift_right_nonneg k right =
     (if 0 \<le> sint right \<and> sint right < 32 then Inr (k div 2 ^ nat (sint right))
      else Inl UndefinedBehaviour)"

definition executeSHLEFTII :: handler where
  "executeSHLEFTII E ins =
     withIntsFromStack (\<lambda>left right s.
       andThen (shift_left_int left right) (\<lambda>r. Inr (push_back (ofInt r) s)))"

text \<open>
  SHRIGHTII: for a negative \<open>left\<close> the code negates (an overflow at the least \<open>int\<close>),
  shifts the now positive value and negates again; otherwise it shifts.
\<close>

definition shift_right_int :: "32 word \<Rightarrow> 32 word \<Rightarrow> error + 32 word" where
  "shift_right_int left right =
     (let result = sint left in
      if result < 0 then
        andThen (int32 (- result)) (\<lambda>negated.
        andThen (shift_right_nonneg (sint negated) right) (\<lambda>shifted.
        int32 (- shifted)))
      else andThen (shift_right_nonneg result right) int32)"

text \<open>
  The same expression on the \<open>int\<close> of a two's-complement machine, where the negation
  wraps around and \<open>>>\<close> on a negative \<open>int\<close> is the arithmetic shift: the value that
  the compiled handler computes for a shift count from 0 to 31, also where the negation
  overflows.
\<close>

definition shift_right_int_wrapped :: "32 word \<Rightarrow> 32 word \<Rightarrow> 32 word" where
  "shift_right_int_wrapped left right =
     (if sint left < 0 then - (signed_drop_bit (nat (sint right)) (- left))
      else signed_drop_bit (nat (sint right)) left)"

definition executeSHRIGHTII :: handler where
  "executeSHRIGHTII E ins =
     withIntsFromStack (\<lambda>left right s.
       andThen (shift_right_int left right) (\<lambda>result. Inr (push_back (ofInt result) s)))"

definition executeUSHRIGHTII :: handler where
  "executeUSHRIGHTII E ins =
     withIntsFromStack (\<lambda>left right s.
       if 0 \<le> sint right \<and> sint right < 32
       then Inr (push_back (ofInt (drop_bit (nat (sint right)) left)) s)
       else Inl UndefinedBehaviour)"

definition executeADDII :: handler where
  "executeADDII E ins =
     withIntsFromStack (\<lambda>left right s.
       andThen (int32 (sint left + sint right)) (\<lambda>r. Inr (push_back (ofInt r) s)))"

definition executeADDIF :: handler where
  "executeADDIF E ins =
     withIntFloatFromStack (\<lambda>left right. push_float (float_add (float_of_int left) right))"

definition executeADDFI :: handler where
  "executeADDFI E ins =
     withFloatIntFromStack (\<lambda>left right. push_float (float_add left (float_of_int right)))"

definition executeADDFF :: handler where
  "executeADDFF E ins =
     withFloatsFromStack (\<lambda>left right. push_float (float_add left right))"

definition executeADDSS :: handler where
  "executeADDSS E ins =
     withStringsFromStack (\<lambda>left right s. Inr (push_back (ofString (left @ right)) s))"

definition executeADDVV :: handler where
  "executeADDVV E ins =
     withVectorsFromStack (\<lambda>left right s.
       andThen (vec3_result (float_add (vx left) (vx right)) (float_add (vy left) (vy right))
                  (float_add (vz left) (vz right)))
         (\<lambda>result. push_xyz result s))"

definition executeSUBII :: handler where
  "executeSUBII E ins =
     withIntsFromStack (\<lambda>left right s.
       andThen (int32 (sint left - sint right)) (\<lambda>r. Inr (push_back (ofInt r) s)))"

definition executeSUBIF :: handler where
  "executeSUBIF E ins =
     withIntFloatFromStack (\<lambda>left right. push_float (float_sub (float_of_int left) right))"

definition executeSUBFI :: handler where
  "executeSUBFI E ins =
     withFloatIntFromStack (\<lambda>left right. push_float (float_sub left (float_of_int right)))"

definition executeSUBFF :: handler where
  "executeSUBFF E ins =
     withFloatsFromStack (\<lambda>left right. push_float (float_sub left right))"

definition executeSUBVV :: handler where
  "executeSUBVV E ins =
     withVectorsFromStack (\<lambda>left right s.
       andThen (vec3_result (float_sub (vx left) (vx right)) (float_sub (vy left) (vy right))
                  (float_sub (vz left) (vz right)))
         (\<lambda>result. push_xyz result s))"

definition executeMULII :: handler where
  "executeMULII E ins =
     withIntsFromStack (\<lambda>left right s.
       andThen (int32 (sint left * sint right)) (\<lambda>r. Inr (push_back (ofInt r) s)))"

definition executeMULIF :: handler where
  "executeMULIF E ins =
     withIntFloatFromStack (\<lambda>left right. push_float (float_mul (float_of_int left) right))"

definition executeMULFI :: handler where
  "executeMULFI E ins =
     withFloatIntFromStack (\<lambda>left right. push_float (float_mul left (float_of_int right)))"

definition executeMULFF :: handler where
  "executeMULFF E ins =
     withFloatsFromStack (\<lambda>left right. push_float (float_mul left right))"

definition executeMULVF :: handler where
  "executeMULVF E ins =
     withVectorFloatFromStack (\<lambda>left right s.
       andThen (vec3_result (float_mul (vx left) right) (float_mul (vy left) right)
                  (float_mul (vz left) right))
         (\<lambda>result. push_xyz result s))"

definition executeMULFV :: handler where
  "executeMULFV E ins =
     withFloatVectorFromStack (\<lambda>left right s.
       andThen (vec3_result (float_mul left (vx right)) (float_mul left (vy right))
                  (float_mul left (vz right)))
         (\<lambda>result. push_xyz result s))"

text \<open>
  Division. On \<open>int\<close>, a zero divisor and the quotient of the least \<open>int\<close> by \<open>-1\<close> are
  undefined. On floats, DIVIF and DIVFF divide by \<open>std::max(kFloatTolerance, right)\<close>;
  DIVFI, DIVVF and DIVFV divide by the operand as it is.
\<close>

definition executeDIVII :: handler where
  "executeDIVII E ins =
     withIntsFromStack (\<lambda>left right s.
       if right = 0 then Inl UndefinedBehaviour
       else andThen (int32 (sint left sdiv sint right)) (\<lambda>r. Inr (push_back (ofInt r) s)))"

definition executeDIVIF :: handler where
  "executeDIVIF E ins =
     withIntFloatFromStack (\<lambda>left right.
       push_float (float_div (float_of_int left) (max kFloatTolerance right)))"

definition executeDIVFI :: handler where
  "executeDIVFI E ins =
     withFloatIntFromStack (\<lambda>left right. push_float (float_div left (float_of_int right)))"

definition executeDIVFF :: handler where
  "executeDIVFF E ins =
     withFloatsFromStack (\<lambda>left right.
       push_float (float_div left (max kFloatTolerance right)))"

definition executeDIVVF :: handler where
  "executeDIVVF E ins =
     withVectorFloatFromStack (\<lambda>left right s.
       andThen (vec3_result (float_div (vx left) right) (float_div (vy left) right)
                  (float_div (vz left) right))
         (\<lambda>result. push_xyz result s))"

definition executeDIVFV :: handler where
  "executeDIVFV E ins =
     withFloatVectorFromStack (\<lambda>left right s.
       andThen (vec3_result (float_div left (vx right)) (float_div left (vy right))
                  (float_div left (vz right)))
         (\<lambda>result. push_xyz result s))"

definition executeMODII :: handler where
  "executeMODII E ins =
     withIntsFromStack (\<lambda>left right s.
       if right = 0 \<or> (sint left = - (2 ^ 31) \<and> sint right = - 1) then Inl UndefinedBehaviour
       else Inr (push_back (ofInt (word_of_int (sint left smod sint right))) s))"

text \<open>NEGI and NEGF read the union of \<open>_stack.back()\<close> without looking at its tag.\<close>

definition executeNEGI :: handler where
  "executeNEGI E ins s =
     (if stack s = [] then Inl UndefinedBehaviour
      else andThen (read_intValue (last (stack s))) (\<lambda>k.
           andThen (int32 (- sint k)) (\<lambda>neg.
           Inr (s\<lparr>stack := butlast (stack s) @ [ofInt neg]\<rparr>))))"

definition executeNEGF :: handler where
  "executeNEGF E ins s =
     (if stack s = [] then Inl UndefinedBehaviour
      else andThen (read_floatValue (last (stack s))) (\<lambda>f.
           andThen (float_neg f) (\<lambda>neg.
           Inr (s\<lparr>stack := butlast (stack s) @ [ofFloat neg]\<rparr>))))"

fun pop_n :: "nat \<Rightarrow> vm \<Rightarrow> error + vm" where
  "pop_n 0 s = Inr s"
| "pop_n (Suc n) s =
     (if stack s = [] then Inl UndefinedBehaviour else pop_n n (s\<lparr>stack := butlast (stack s)\<rparr>))"

definition executeMOVSP :: handler where
  "executeMOVSP E ins s = (let count = (- stackOffset ins) sdiv 4 in pop_n (nat count) s)"

text \<open>\<open>ins.offset + ins.jumpOffset\<close> is computed in \<open>uint32_t\<close>.\<close>

definition jumpTarget :: "Instruction \<Rightarrow> 32 word" where
  "jumpTarget ins = offset ins + word_of_int (jumpOffset ins)"

definition executeJMP :: handler where
  "executeJMP E ins s = Inr (s\<lparr>nextInstruction := jumpTarget ins\<rparr>)"

definition executeJSR :: handler where
  "executeJSR E ins s =
     Inr (s\<lparr>returnOffsets := returnOffsets s @ [nextOffset ins],
            nextInstruction := jumpTarget ins\<rparr>)"

definition executeJZ :: handler where
  "executeJZ E ins s =
     andThen (getIntFromStack s) (\<lambda>(v, s').
       if v = 0 then Inr (s'\<lparr>nextInstruction := jumpTarget ins\<rparr>) else Inr s')"

definition executeRETN :: handler where
  "executeRETN E ins s =
     (if returnOffsets s = [] then Inr (s\<lparr>nextInstruction := length_prog (program_env E)\<rparr>)
      else Inr (s\<lparr>nextInstruction := last (returnOffsets s),
                  returnOffsets := butlast (returnOffsets s)\<rparr>))"

text \<open>
  \<open>_stack.resize(n)\<close> with an \<open>int\<close> argument: a negative one becomes a size beyond
  \<open>max_size()\<close> and \<open>resize\<close> throws \<open>std::length_error\<close>; a larger one appends
  default-constructed variables.
\<close>

definition resize :: "int \<Rightarrow> vm \<Rightarrow> error + vm" where
  "resize n s =
     (if n < 0 then Inl (Thrown length_error)
      else Inr (s\<lparr>stack := take (nat n) (stack s)
                            @ replicate (nat n - length (stack s)) Variable_default\<rparr>))"

definition executeDESTRUCT :: handler where
  "executeDESTRUCT E ins s =
     (let startIdx = stack_size s - size_ins ins sdiv 4;
          startIdxNoDestroy = startIdx + stackOffset ins sdiv 4;
          countNoDestroy = sizeNoDestroy ins sdiv 4
      in andThen (copy_down (nat countNoDestroy) startIdx startIdxNoDestroy s)
           (resize (startIdx + countNoDestroy)))"

text \<open>
  DECISP, INCISP, DECIBP and INCIBP: \<open>_stack[dstIdx] = ofInt(_stack[dstIdx].intValue \<plusminus> 1)\<close>,
  with no look at the tag of the slot.
\<close>

definition add_at :: "int \<Rightarrow> int \<Rightarrow> vm \<Rightarrow> error + vm" where
  "add_at dstIdx d s =
     andThen (stack_at s dstIdx) (\<lambda>v.
     andThen (read_intValue v) (\<lambda>k.
     andThen (int32 (sint k + d)) (\<lambda>r. stack_set s dstIdx (ofInt r))))"

definition executeDECISP :: handler where
  "executeDECISP E ins s = add_at (stack_size s + stackOffset ins sdiv 4) (- 1) s"

definition executeINCISP :: handler where
  "executeINCISP E ins s = add_at (stack_size s + stackOffset ins sdiv 4) 1 s"

definition executeNOTI :: handler where
  "executeNOTI E ins s = andThen (getIntFromStack s) (\<lambda>(v, s'). push_bool (v = 0) s')"

definition executeJNZ :: handler where
  "executeJNZ E ins s =
     andThen (getIntFromStack s) (\<lambda>(v, s').
       if v \<noteq> 0 then Inr (s'\<lparr>nextInstruction := jumpTarget ins\<rparr>) else Inr s')"

definition executeCPDOWNBP :: handler where
  "executeCPDOWNBP E ins s =
     (let count = size_ins ins sdiv 4;
          srcIdx = stack_size s - count;
          dstIdx = globalCount s + stackOffset ins sdiv 4
      in copy_down (nat count) dstIdx srcIdx s)"

definition executeCPTOPBP :: handler where
  "executeCPTOPBP E ins s =
     (let count = size_ins ins sdiv 4;
          srcIdx = globalCount s + stackOffset ins sdiv 4
      in copy_top (nat count) srcIdx s)"

definition executeDECIBP :: handler where
  "executeDECIBP E ins s = add_at (globalCount s + stackOffset ins sdiv 4) (- 1) s"

definition executeINCIBP :: handler where
  "executeINCIBP E ins s = add_at (globalCount s + stackOffset ins sdiv 4) 1 s"

definition executeSAVEBP :: handler where
  "executeSAVEBP E ins s =
     (let s' = s\<lparr>globalCount := stack_size s\<rparr>
      in Inr (push_back (ofInt (word_of_int (globalCount s'))) s'))"

definition executeRESTOREBP :: handler where
  "executeRESTOREBP E ins s =
     andThen (getIntFromStack s) (\<lambda>(v, s'). Inr (s'\<lparr>globalCount := sint v\<rparr>))"

text \<open>The loops \<open>push_back(_stack[srcIdx++])\<close> of STORE_STATE, into a cleared vector.\<close>

fun copy_range :: "nat \<Rightarrow> int \<Rightarrow> vm \<Rightarrow> Variable list \<Rightarrow> error + Variable list" where
  "copy_range 0 srcIdx s vars = Inr vars"
| "copy_range (Suc n) srcIdx s vars =
     (case stack_at s srcIdx of
        Inl e \<Rightarrow> Inl e
      | Inr v \<Rightarrow> copy_range n (srcIdx + 1) s (vars @ [v]))"

definition executeSTORE_STATE :: handler where
  "executeSTORE_STATE E ins s =
     (let count = size_ins ins sdiv 4;
          srcIdx = globalCount s - count
      in andThen (copy_range (nat count) srcIdx s []) (\<lambda>globals'.
     (let count = sizeLocals ins sdiv 4;
          srcIdx = stack_size s - count
      in andThen (copy_range (nat count) srcIdx s []) (\<lambda>locals'.
         Inr (s\<lparr>savedState_vm :=
                ExecutionState globals' locals' (Some (program_env E)) (offset ins + 0x10)\<rparr>)))))"

definition executeNOP :: handler where
  "executeNOP E ins s = Inr s"

subsection \<open>The handler table\<close>

text \<open>
  The constructor of \<open>VirtualMachine\<close> registers the entries of the static table
  \<open>g_handlers\<close> and then inserts the two no-operation handlers; \<open>_handlers.find\<close> in
  \<open>run\<close> is a lookup in the resulting map.
\<close>

definition g_handlers :: "(InstructionType \<times> handler) list" where
  "g_handlers =
     [(CPDOWNSP, executeCPDOWNSP),
      (RSADDI, executeRSADDI),
      (RSADDF, executeRSADDF),
      (RSADDS, executeRSADDS),
      (RSADDO, executeRSADDO),
      (RSADDEFF, executeRSADDEFF),
      (RSADDEVT, executeRSADDEVT),
      (RSADDLOC, executeRSADDLOC),
      (RSADDTAL, executeRSADDTAL),
      (CPTOPSP, executeCPTOPSP),
      (CONSTI, executeCONSTI),
      (CONSTF, executeCONSTF),
      (CONSTS, executeCONSTS),
      (CONSTO, executeCONSTO),
      (ACTION, executeACTION),
      (LOGANDII, executeLOGANDII),
      (LOGORII, executeLOGORII),
      (INCORII, executeINCORII),
      (EXCORII, executeEXCORII),
      (BOOLANDII, executeBOOLANDII),
      (EQUALII, executeEQUALII),
      (EQUALFF, executeEQUALFF),
      (EQUALSS, executeEQUALSS),
      (EQUALOO, executeEQUALOO),
      (EQUALTT, executeEQUALTT),
      (EQUALEFFEFF, executeEQUALEFFEFF),
      (EQUALEVTEVT, executeEQUALEVTEVT),
      (EQUALLOCLOC, executeEQUALLOCLOC),
      (EQUALTALTAL, executeEQUALTALTAL),
      (NEQUALII, executeNEQUALII),
      (NEQUALFF, executeNEQUALFF),
      (NEQUALSS, executeNEQUALSS),
      (NEQUALOO, executeNEQUALOO),
      (NEQUALTT, executeNEQUALTT),
      (NEQUALEFFEFF, executeNEQUALEFFEFF),
      (NEQUALEVTEVT, executeNEQUALEVTEVT),
      (NEQUALLOCLOC, executeNEQUALLOCLOC),
      (NEQUALTALTAL, executeNEQUALTALTAL),
      (GEQII, executeGEQII),
      (GEQFF, executeGEQFF),
      (GTII, executeGTII),
      (GTFF, executeGTFF),
      (LTII, executeLTII),
      (LTFF, executeLTFF),
      (LEQII, executeLEQII),
      (LEQFF, executeLEQFF),
      (SHLEFTII, executeSHLEFTII),
      (SHRIGHTII, executeSHRIGHTII),
      (USHRIGHTII, executeUSHRIGHTII),
      (ADDII, executeADDII),
      (ADDIF, executeADDIF),
      (ADDFI, executeADDFI),
      (ADDFF, executeADDFF),
      (ADDSS, executeADDSS),
      (ADDVV, executeADDVV),
      (SUBII, executeSUBII),
      (SUBIF, executeSUBIF),
      (SUBFI, executeSUBFI),
      (SUBFF, executeSUBFF),
      (SUBVV, executeSUBVV),
      (MULII, executeMULII),
      (MULIF, executeMULIF),
      (MULFI, executeMULFI),
      (MULFF, executeMULFF),
      (MULVF, executeMULVF),
      (MULFV, executeMULFV),
      (DIVII, executeDIVII),
      (DIVIF, executeDIVIF),
      (DIVFI, executeDIVFI),
      (DIVFF, executeDIVFF),
      (DIVVF, executeDIVVF),
      (DIVFV, executeDIVFV),
      (MODII, executeMODII),
      (NEGI, executeNEGI),
      (NEGF, executeNEGF),
      (MOVSP, executeMOVSP),
      (JMP, executeJMP),
      (JSR, executeJSR),
      (JZ, executeJZ),
      (RETN, executeRETN),
      (DESTRUCT, executeDESTRUCT),
      (NOTI, executeNOTI),
      (DECISP, executeDECISP),
      (INCISP, executeINCISP),
      (JNZ, executeJNZ),
      (CPDOWNBP, executeCPDOWNBP),
      (CPTOPBP, executeCPTOPBP),
      (DECIBP, executeDECIBP),
      (INCIBP, executeINCIBP),
      (SAVEBP, executeSAVEBP),
      (RESTOREBP, executeRESTOREBP),
      (STORE_STATE, executeSTORE_STATE)]"

definition handlers :: "InstructionType \<Rightarrow> handler option" where
  "handlers = map_of (g_handlers @ [(NOP, executeNOP), (NOP2, executeNOP)])"

subsection \<open>run\<close>

text \<open>
  How the \<open>while\<close> loop of \<open>run\<close> is left: its condition fails (\<open>Finished\<close>, with the
  offset and the state at that moment), it returns from inside (\<open>Halted\<close>: no handler for the opcode,
  or the handler threw), or the step leaves the model (\<open>Stuck\<close>). \<open>getInstruction\<close> at
  an offset that holds no instruction is of the last kind: the spec's program interface
  says nothing about it. A loop that runs forever has no exit: the value \<open>None\<close>.
\<close>

datatype loop_exit = Finished "32 word" vm | Halted | Stuck error

text \<open>
  One pass through the body of the loop at the offset \<open>insOff\<close>: the exit taken
  (\<open>Inl\<close>), or the state after the handler (\<open>Inr\<close>), whose \<open>nextInstruction\<close> is the
  offset of the next pass.
\<close>

definition loop_body :: "env \<Rightarrow> 32 word \<Rightarrow> vm \<Rightarrow> loop_exit + vm" where
  "loop_body E insOff s =
     (case getInstruction (program_env E) insOff of
        None \<Rightarrow> Inl (Stuck UndefinedBehaviour)
      | Some ins \<Rightarrow>
         (case handlers (type_ins ins) of
            None \<Rightarrow> Inl Halted
          | Some handler \<Rightarrow>
             (case handler E ins (s\<lparr>nextInstruction := nextOffset ins\<rparr>) of
                Inl (Thrown ex) \<Rightarrow> Inl Halted
              | Inl UndefinedBehaviour \<Rightarrow> Inl (Stuck UndefinedBehaviour)
              | Inl NonFiniteFloat \<Rightarrow> Inl (Stuck NonFiniteFloat)
              | Inl NegativeZero \<Rightarrow> Inl (Stuck NegativeZero)
              | Inr s' \<Rightarrow> Inr s')))"

partial_function (option) run_loop :: "env \<Rightarrow> 32 word \<Rightarrow> vm \<Rightarrow> loop_exit option" where
  "run_loop E insOff s =
     (if insOff < length_prog (program_env E) then
        (case loop_body E insOff s of
           Inl x \<Rightarrow> Some x
         | Inr s' \<Rightarrow> run_loop E (nextInstruction s') s')
      else Some (Finished insOff s))"

declare run_loop.simps [code]

text \<open>
  A machine as constructed: empty stacks, no globals. \<open>a\<close> is the first free address
  of the heap at that moment.
\<close>

definition VirtualMachine_new :: "nat \<Rightarrow> vm" where
  "VirtualMachine_new a =
     \<lparr>stack = [], returnOffsets = [], globalCount = 0, nextInstruction = 0,
      savedState_vm = ExecutionState [] [] None 0, nextAddr = a\<rparr>"

text \<open>The prologue of \<open>run\<close>: the offset to start at and the state to start in.\<close>

definition run_start :: "env \<Rightarrow> vm \<Rightarrow> 32 word \<times> vm" where
  "run_start E s =
     (case savedState (context_env E) of
        None \<Rightarrow> (kStartInstructionOffset, s)
      | Some st \<Rightarrow>
          (let s1 = s\<lparr>stack := stack s @ globals st\<rparr>;
               s2 = s1\<lparr>globalCount := stack_size s1\<rparr>;
               s3 = s2\<lparr>stack := stack s2 @ locals st\<rparr>
           in (insOffset st, s3)))"

datatype run_result = Returned "32 word" | Undefined error

definition run_return :: "loop_exit \<Rightarrow> run_result" where
  "run_return x =
     (case x of
        Finished insOff s \<Rightarrow>
          (if stack s \<noteq> [] \<and> type (last (stack s)) = Int_t
           then Returned (intValue (last (stack s))) else Returned (- 1))
      | Halted \<Rightarrow> Returned (- 1)
      | Stuck e \<Rightarrow> Undefined e)"

definition run :: "env \<Rightarrow> nat \<Rightarrow> run_result option" where
  "run E a =
     (case run_start E (VirtualMachine_new a) of
        (insOff, s) \<Rightarrow> map_option run_return (run_loop E insOff s))"

section \<open>DoCommand (docommand.cpp)\<close>

text \<open>
  The loop of \<open>DoCommandAction::execute\<close> over the copied arguments: the first Caller
  argument gets the actor's id written into \<open>var.objectId\<close> and the loop breaks.
  \<open>None\<close> is \<open>foundCaller == false\<close>.
\<close>

fun setCaller :: "Argument list \<Rightarrow> 32 word \<Rightarrow> Argument list option" where
  "setCaller [] actorId = None"
| "setCaller (arg # rest) actorId =
     (if kind arg = Caller then
        Some (Argument (kind arg)
                (Variable (type (var arg)) (strValue (var arg)) (vecValue (var arg))
                   (engineType (var arg)) (context_v (var arg)) actorId (floatValue (var arg)))
              # rest)
      else map_option ((#) arg) (setCaller rest actorId))"

text \<open>
  The context that \<open>execute\<close> builds from \<open>_actionToDo\<close> for the actor: a copy, with the
  Caller rebound, or appended through the verifying constructor of \<open>Argument\<close>.
\<close>

definition DoCommandAction_executionCtx ::
  "script_consts \<Rightarrow> ExecutionContext \<Rightarrow> 32 word \<Rightarrow> error + ExecutionContext" where
  "DoCommandAction_executionCtx K actionToDo actorId =
     (case setCaller (args actionToDo) actorId of
        Some args' \<Rightarrow> Inr (ExecutionContext (routines actionToDo) (savedState actionToDo) args')
      | None \<Rightarrow>
          andThen (Argument_new K Caller (ofObject actorId)) (\<lambda>arg.
          Inr (ExecutionContext (routines actionToDo) (savedState actionToDo)
                 (args actionToDo @ [arg]))))"

text \<open>
  \<open>execute\<close> then runs a new machine on the program of the saved state; an exception of
  the constructor of \<open>Argument\<close> leaves \<open>execute\<close> before that.
\<close>

definition DoCommandAction_execute ::
  "script_consts \<Rightarrow> (nat \<Rightarrow> IRoutines) \<Rightarrow> nat \<Rightarrow> ExecutionContext \<Rightarrow> 32 word
     \<Rightarrow> (error + run_result) option" where
  "DoCommandAction_execute K tables a actionToDo actorId =
     (case DoCommandAction_executionCtx K actionToDo actorId of
        Inl e \<Rightarrow> Some (Inl e)
      | Inr executionCtx \<Rightarrow>
          (case savedState actionToDo of
             None \<Rightarrow> Some (Inl UndefinedBehaviour)
           | Some st \<Rightarrow>
               (case program st of
                  None \<Rightarrow> Some (Inl UndefinedBehaviour)
                | Some p \<Rightarrow>
                    map_option Inr
                      (run \<lparr>context_env = executionCtx, program_env = p,
                            routineTables = tables, consts_env = K\<rparr> a))))"

section \<open>Concrete programs and states\<close>

text \<open>
  The number of loop passes: \<open>passes n E insOff s\<close> is the offset and state after \<open>n\<close>
  passes of the loop of \<open>run\<close> that each ran a handler to its end, started at
  \<open>insOff\<close> in \<open>s\<close>, and \<open>None\<close> if the loop is left earlier.
\<close>

fun passes :: "nat \<Rightarrow> env \<Rightarrow> 32 word \<Rightarrow> vm \<Rightarrow> (32 word \<times> vm) option" where
  "passes 0 E insOff s = Some (insOff, s)"
| "passes (Suc n) E insOff s =
     (if insOff < length_prog (program_env E) then
        (case loop_body E insOff s of
           Inl x \<Rightarrow> None
         | Inr s' \<Rightarrow> passes n E (nextInstruction s') s')
      else None)"

text \<open>An instruction with every field zero, the base of the examples.\<close>

definition ins0 :: Instruction where
  "ins0 = \<lparr>offset = 0, type_ins = NOP, nextOffset = 0, size_ins = 0, stackOffset = 0,
     intValue_ins = 0, floatValue_ins = 0, strValue_ins = [], objectId_ins = 0, routine = 0,
     argCount = 0, jumpOffset = 0, sizeNoDestroy = 0, sizeLocals = 0\<rparr>"

definition K0 :: script_consts where
  "K0 = \<lparr>kObjectSelf = 0x7F000001, kObjectInvalid = 0\<rparr>"

definition no_routines :: "nat \<Rightarrow> IRoutines" where
  "no_routines = (\<lambda>table id. Inl (Thrown out_of_range))"

text \<open>\<open>CONSTI 2; CONSTI 3; ADDII; RETN\<close>, after the 13 bytes of the header.\<close>

definition add_program :: ScriptProgram where
  "add_program = \<lparr>name = ''add'', length_prog = 29, instructions =
     [ins0\<lparr>offset := 13, type_ins := CONSTI, nextOffset := 19, intValue_ins := 2\<rparr>,
      ins0\<lparr>offset := 19, type_ins := CONSTI, nextOffset := 25, intValue_ins := 3\<rparr>,
      ins0\<lparr>offset := 25, type_ins := ADDII, nextOffset := 27\<rparr>,
      ins0\<lparr>offset := 27, type_ins := RETN, nextOffset := 29\<rparr>]\<rparr>"

definition add_env :: env where
  "add_env = \<lparr>context_env = ExecutionContext None None [], program_env = add_program,
     routineTables = no_routines, consts_env = K0\<rparr>"

text \<open>A program whose first instruction carries an opcode that has no handler.\<close>

definition unknown_program :: ScriptProgram where
  "unknown_program = \<lparr>name = ''unknown'', length_prog = 15, instructions =
     [ins0\<lparr>offset := 13, type_ins := InstructionType 200, nextOffset := 15\<rparr>]\<rparr>"

definition unknown_env :: env where
  "unknown_env = \<lparr>context_env = ExecutionContext None None [], program_env = unknown_program,
     routineTables = no_routines, consts_env = K0\<rparr>"

text \<open>
  A routine table with two routines: routine 0 takes nothing and returns the vector
  \<open>(1, 2, 3)\<close>; routine 1 takes a vector and returns its \<open>x\<close> component.
\<close>

definition vector_routines :: "nat \<Rightarrow> IRoutines" where
  "vector_routines = (\<lambda>table id.
     if id = 0 then
       Inr \<lparr>argumentTypes = [], returnType = Vector,
            invoke = (\<lambda>args' ctx. Inr (ofVector (vec3 1 2 3)))\<rparr>
     else if id = 1 then
       Inr \<lparr>argumentTypes = [Vector], returnType = Float,
            invoke = (\<lambda>args' ctx.
              case args' of [] \<Rightarrow> Inl (Thrown invalid_argument)
              | v # rest \<Rightarrow> Inr (ofFloat (vx (vecValue v))))\<rparr>
     else Inl (Thrown out_of_range))"

definition vector_env :: env where
  "vector_env = \<lparr>context_env = ExecutionContext (Some 0) None [], program_env = add_program,
     routineTables = vector_routines, consts_env = K0\<rparr>"

text \<open>A captured context with a Caller between two other arguments.\<close>

definition door_context :: ExecutionContext where
  "door_context = ExecutionContext None None
     [Argument LastOpenedBy (ofObject 7), Argument Caller (ofObject 5),
      Argument ScriptVar (ofInt 3)]"

text \<open>
  A program that saves its state and goes on: STORE_STATE for one global and two locals,
  whose successor is placed at the offset that STORE_STATE saves, then ADDII and RETN.
  \<open>store_vm\<close> is a state with one global and two locals in which the machine of
  \<open>store_env\<close> reaches the STORE_STATE; \<open>resumed_env\<close> is the environment of a
  machine resumed from what the instruction saves there.
\<close>

definition store_ins :: Instruction where
  "store_ins = ins0\<lparr>offset := 13, type_ins := STORE_STATE, nextOffset := 29,
     size_ins := 4, sizeLocals := 8\<rparr>"

definition resume_program :: ScriptProgram where
  "resume_program = \<lparr>name = ''resume'', length_prog = 33, instructions =
     [store_ins,
      ins0\<lparr>offset := 29, type_ins := ADDII, nextOffset := 31\<rparr>,
      ins0\<lparr>offset := 31, type_ins := RETN, nextOffset := 33\<rparr>]\<rparr>"

definition store_env :: env where
  "store_env = \<lparr>context_env = ExecutionContext None None [], program_env = resume_program,
     routineTables = no_routines, consts_env = K0\<rparr>"

definition store_vm :: vm where
  "store_vm = (VirtualMachine_new 0)\<lparr>stack := [ofInt 10, ofInt 20, ofInt 30], globalCount := 1\<rparr>"

definition resumed_env :: env where
  "resumed_env = \<lparr>context_env = ExecutionContext None
       (Some (ExecutionState [ofInt 10] [ofInt 20, ofInt 30] (Some resume_program) 29)) [],
     program_env = resume_program, routineTables = no_routines, consts_env = K0\<rparr>"

text \<open>Stacks for the copy instructions.\<close>

definition copy_vm :: vm where
  "copy_vm = (VirtualMachine_new 0)\<lparr>stack := [ofInt 1, ofInt 2], globalCount := 1\<rparr>"

section \<open>The loop of run\<close>

lemma run_loop_continue:
  "insOff < length_prog (program_env E) \<Longrightarrow> loop_body E insOff s = Inr s' \<Longrightarrow>
   run_loop E insOff s = run_loop E (nextInstruction s') s'"
  by (subst run_loop.simps) simp

lemma run_loop_exit:
  "insOff < length_prog (program_env E) \<Longrightarrow> loop_body E insOff s = Inl x \<Longrightarrow>
   run_loop E insOff s = Some x"
  by (subst run_loop.simps) simp

lemma run_loop_finished:
  "\<not> insOff < length_prog (program_env E) \<Longrightarrow> run_loop E insOff s = Some (Finished insOff s)"
  by (subst run_loop.simps) simp

lemma run_loop_passes:
  "passes n E insOff s = Some (insOff', s') \<Longrightarrow> run_loop E insOff s = run_loop E insOff' s'"
proof (induction n arbitrary: insOff s)
  case 0
  then show ?case by simp
next
  case (Suc n)
  from Suc.prems obtain s1 where lt: "insOff < length_prog (program_env E)"
    and body: "loop_body E insOff s = Inr s1"
    and rest: "passes n E (nextInstruction s1) s1 = Some (insOff', s')"
    by (auto split: if_splits sum.splits)
  from run_loop_continue [OF lt body] Suc.IH [OF rest] show ?case by simp
qed

text \<open>The loop is left through its condition only with the cursor at or past the length.\<close>

lemma run_loop_Finished_cursor:
  assumes "run_loop E insOff s = Some (Finished insOff' s')"
  shows "length_prog (program_env E) \<le> insOff'"
proof -
  have "\<forall>i' t'. Finished insOff' s' = Finished i' t' \<longrightarrow> length_prog (program_env E) \<le> i'"
  proof (rule run_loop.raw_induct
      [where P = "\<lambda>E i s y. \<forall>i' t'. y = Finished i' t' \<longrightarrow> length_prog (program_env E) \<le> i'",
        OF _ assms])
    fix f E i s y
    assume IH: "\<And>i s b y. f i s b = Some y \<Longrightarrow>
        \<forall>i' t'. y = Finished i' t' \<longrightarrow> length_prog (program_env i) \<le> i'"
      and eq: "(if i < length_prog (program_env E)
          then case loop_body E i s of Inl x \<Rightarrow> Some x
            | Inr s' \<Rightarrow> f E (nextInstruction s') s'
          else Some (Finished i s)) = Some y"
    show "\<forall>i' t'. y = Finished i' t' \<longrightarrow> length_prog (program_env E) \<le> i'"
    proof (cases "i < length_prog (program_env E)")
      case False
      with eq show ?thesis by auto
    next
      case True
      show ?thesis
      proof (cases "loop_body E i s")
        case (Inl x)
        with True eq have "y = x" by simp
        moreover from Inl have "\<And>i' t'. x \<noteq> Finished i' t'"
          by (auto simp: loop_body_def split: option.splits sum.splits error.splits)
        ultimately show ?thesis by simp
      next
        case (Inr s1)
        with True eq have "f E (nextInstruction s1) s1 = Some y" by simp
        from IH [OF this] show ?thesis .
      qed
    qed
  qed
  then show ?thesis by simp
qed

text \<open>Lookups in the handler table.\<close>

lemma handlers_CONSTI: "handlers CONSTI = Some executeCONSTI"
  by (simp add: handlers_def g_handlers_def InstructionType_defs)

lemma handlers_ADDII: "handlers ADDII = Some executeADDII"
  by (simp add: handlers_def g_handlers_def InstructionType_defs)

lemma handlers_RETN: "handlers RETN = Some executeRETN"
  by (simp add: handlers_def g_handlers_def InstructionType_defs)

lemma handlers_unknown: "handlers (InstructionType 200) = None"
  by (simp add: handlers_def g_handlers_def InstructionType_defs)

text \<open>The four passes of the addition program.\<close>

lemma add_program_passes:
  "passes 4 add_env 13 (VirtualMachine_new a) =
     Some (29, (VirtualMachine_new a)\<lparr>stack := [ofInt 5], nextInstruction := 29\<rparr>)"
proof -
  let ?s0 = "VirtualMachine_new a"
  let ?s1 = "?s0\<lparr>stack := [ofInt 2], nextInstruction := 19\<rparr>"
  let ?s2 = "?s0\<lparr>stack := [ofInt 2, ofInt 3], nextInstruction := 25\<rparr>"
  let ?s3 = "?s0\<lparr>stack := [ofInt 5], nextInstruction := 27\<rparr>"
  let ?s4 = "?s0\<lparr>stack := [ofInt 5], nextInstruction := 29\<rparr>"
  have len: "length_prog (program_env add_env) = 29"
    by (simp add: add_env_def add_program_def)
  have b0: "loop_body add_env 13 ?s0 = Inr ?s1"
    by (simp add: loop_body_def getInstruction_def add_env_def add_program_def ins0_def
        handlers_CONSTI executeCONSTI_def push_back_def VirtualMachine_new_def)
  have b1: "loop_body add_env 19 ?s1 = Inr ?s2"
    by (simp add: loop_body_def getInstruction_def add_env_def add_program_def ins0_def
        handlers_CONSTI executeCONSTI_def push_back_def VirtualMachine_new_def)
  have b2: "loop_body add_env 25 ?s2 = Inr ?s3"
    by (simp add: loop_body_def getInstruction_def add_env_def add_program_def ins0_def
        handlers_ADDII executeADDII_def push_back_def VirtualMachine_new_def
        withIntsFromStack_def withStackVariables_def pop_back_def andThen_def
        throwIfInvalidType_def ofInt_def int32_def)
  have b3: "loop_body add_env 27 ?s3 = Inr ?s4"
    by (simp add: loop_body_def getInstruction_def add_env_def add_program_def ins0_def
        handlers_RETN executeRETN_def VirtualMachine_new_def)
  have "passes (Suc 0) add_env 27 ?s3 = Some (29, ?s4)"
    using b3 len by simp
  then have "passes (Suc (Suc 0)) add_env 25 ?s2 = Some (29, ?s4)"
    using b2 len by simp
  then have "passes (Suc (Suc (Suc 0))) add_env 19 ?s1 = Some (29, ?s4)"
    using b1 len by simp
  then have "passes (Suc (Suc (Suc (Suc 0)))) add_env 13 ?s0 = Some (29, ?s4)"
    using b0 len by simp
  moreover have "(4::nat) = Suc (Suc (Suc (Suc 0)))" by simp
  ultimately show ?thesis by metis
qed

lemma add_program_loop:
  "run_loop add_env 13 (VirtualMachine_new a) =
     Some (Finished 29 ((VirtualMachine_new a)\<lparr>stack := [ofInt 5], nextInstruction := 29\<rparr>))"
proof -
  have "\<not> 29 < length_prog (program_env add_env)"
    by (simp add: add_env_def add_program_def)
  from run_loop_passes [OF add_program_passes] run_loop_finished [OF this]
  show ?thesis by simp
qed

lemma add_env_context: "context_env add_env = ExecutionContext None None []"
  by (simp add: add_env_def)

lemma add_env_start:
  "run_start add_env (VirtualMachine_new a) = (13, VirtualMachine_new a)"
  by (simp add: run_start_def add_env_context kStartInstructionOffset_def)

lemma add_program_run: "run add_env a = Some (Returned 5)"
  by (simp add: run_def add_env_start add_program_loop run_return_def ofInt_def)

section \<open>Operands on the stack\<close>

lemma withStackVariables_top2:
  "stack s = xs @ [first, second] \<Longrightarrow>
   withStackVariables fn s = fn first second (s\<lparr>stack := xs\<rparr>)"
  by (simp add: withStackVariables_def pop_back_def andThen_def butlast_append)

lemma withIntsFromStack_top2:
  "stack s = xs @ [l, r] \<Longrightarrow> type l = Int_t \<Longrightarrow> type r = Int_t \<Longrightarrow>
   withIntsFromStack fn s = fn (intValue l) (intValue r) (s\<lparr>stack := xs\<rparr>)"
  by (simp add: withIntsFromStack_def withStackVariables_top2 throwIfInvalidType_def andThen_def)

lemma withFloatsFromStack_top2:
  "stack s = xs @ [l, r] \<Longrightarrow> type l = Float \<Longrightarrow> type r = Float \<Longrightarrow>
   withFloatsFromStack fn s = fn (floatValue l) (floatValue r) (s\<lparr>stack := xs\<rparr>)"
  by (simp add: withFloatsFromStack_def withStackVariables_top2 throwIfInvalidType_def andThen_def)

section \<open>Arithmetic on int\<close>

lemma sint_int32:
  "- (2 ^ 31) \<le> k \<Longrightarrow> k < 2 ^ 31 \<Longrightarrow> sint (word_of_int k :: 32 word) = k"
  by (simp add: sint_sbintrunc' signed_take_bit_int_eq_self)

lemma div_pow2_le: "0 \<le> (a::int) \<Longrightarrow> a div 2 ^ n \<le> a"
  using zdiv_mono2 [of a 1 "2 ^ n"] by simp

lemma shift_right_int_negative:
  assumes neg: "sint left < 0"
  shows "shift_right_int left right =
     (if - (2 ^ 31) < sint left \<and> 0 \<le> sint right \<and> sint right < 32
      then Inr (word_of_int (- ((- sint left) div 2 ^ nat (sint right))))
      else Inl UndefinedBehaviour)"
proof (cases "- (2 ^ 31) < sint left")
  case False
  with neg show ?thesis
    by (simp add: shift_right_int_def int32_def andThen_def)
next
  case True
  from True neg have "sint (word_of_int (- sint left) :: 32 word) = - sint left"
    by (intro sint_int32) simp_all
  then have sn: "sint (- left) = - sint left" by simp
  from True neg have n: "int32 (- sint left) = Inr (- left)"
    by (simp add: int32_def)
  show ?thesis
  proof (cases "0 \<le> sint right \<and> sint right < 32")
    case False
    with neg True show ?thesis
      by (auto simp: shift_right_int_def n sn andThen_def shift_right_nonneg_def)
  next
    case ok: True
    have "0 \<le> (- sint left) div 2 ^ nat (sint right)"
      using neg by (simp add: pos_imp_zdiv_nonneg_iff)
    moreover have "(- sint left) div 2 ^ nat (sint right) \<le> - sint left"
      using neg by (intro div_pow2_le) simp
    ultimately have "int32 (- ((- sint left) div 2 ^ nat (sint right))) =
        Inr (word_of_int (- ((- sint left) div 2 ^ nat (sint right))))"
      using True by (simp add: int32_def)
    with neg True ok show ?thesis
      by (simp add: shift_right_int_def n sn andThen_def shift_right_nonneg_def)
  qed
qed

lemma shift_right_int_negative_value:
  assumes "sint left < 0" "- (2 ^ 31) < sint left" "0 \<le> sint right" "sint right < 32"
  shows "\<exists>result. shift_right_int left right = Inr result \<and>
           sint result = - ((- sint left) div 2 ^ nat (sint right)) \<and> sint result \<le> 0"
proof -
  let ?q = "(- sint left) div 2 ^ nat (sint right)"
  have q0: "0 \<le> ?q" using assms(1) by (simp add: pos_imp_zdiv_nonneg_iff)
  have "?q \<le> - sint left" using assms(1) by (intro div_pow2_le) simp
  with assms(2) q0 have "sint (word_of_int (- ?q) :: 32 word) = - ?q"
    by (intro sint_int32) simp_all
  with q0 assms show ?thesis
    by (simp add: shift_right_int_negative)
qed

text \<open>
  Wherever the C++ expression of SHRIGHTII is defined, the two's-complement reading of it
  gives the same value.
\<close>

lemma signed_drop_bit_div:
  "signed_drop_bit n (w :: 32 word) = word_of_int (sint w div 2 ^ n)"
proof -
  have "sint (signed_drop_bit n w) = sint w div 2 ^ n"
    by (simp add: sint_signed_drop_bit_eq drop_bit_eq_div)
  then have "word_of_int (sint (signed_drop_bit n w)) = (word_of_int (sint w div 2 ^ n) :: 32 word)"
    by simp
  then show ?thesis by simp
qed

lemma shift_right_int_nonneg:
  assumes "0 \<le> sint left"
  shows "shift_right_int left right =
     (if 0 \<le> sint right \<and> sint right < 32
      then Inr (word_of_int (sint left div 2 ^ nat (sint right)))
      else Inl UndefinedBehaviour)"
proof -
  have "sint left < 2 ^ 31" using sint_lt [of left] by simp
  moreover have "sint left div 2 ^ nat (sint right) \<le> sint left"
    using assms by (rule div_pow2_le)
  moreover have "0 \<le> sint left div 2 ^ nat (sint right)"
    using assms by (simp add: pos_imp_zdiv_nonneg_iff)
  ultimately show ?thesis using assms
    by (simp add: shift_right_int_def shift_right_nonneg_def andThen_def int32_def)
qed


lemma shift_right_int_wrapped_agrees:
  assumes "shift_right_int left right = Inr result"
  shows "shift_right_int_wrapped left right = result"
proof (cases "sint left < 0")
  case True
  from assms shift_right_int_negative [OF True, of right]
  have ok: "- (2 ^ 31) < sint left" "0 \<le> sint right" "sint right < 32"
    and r: "result = word_of_int (- ((- sint left) div 2 ^ nat (sint right)))"
    by (auto split: if_splits)
  from ok True have "sint (word_of_int (- sint left) :: 32 word) = - sint left"
    by (intro sint_int32) simp_all
  then have "sint (- left) = - sint left" by simp
  then have "signed_drop_bit (nat (sint right)) (- left) =
      word_of_int ((- sint left) div 2 ^ nat (sint right))"
    by (simp add: signed_drop_bit_div)
  with True r show ?thesis by (simp add: shift_right_int_wrapped_def)
next
  case False
  then have nn: "0 \<le> sint left" by simp
  from assms shift_right_int_nonneg [OF nn, of right]
  have "result = word_of_int (sint left div 2 ^ nat (sint right))"
    by (auto split: if_splits)
  with False show ?thesis by (simp add: shift_right_int_wrapped_def signed_drop_bit_div)
qed

lemma SHRIGHTII_top2:
  "stack s = xs @ [l, r] \<Longrightarrow> type l = Int_t \<Longrightarrow> type r = Int_t \<Longrightarrow>
   executeSHRIGHTII E ins s =
     andThen (shift_right_int (intValue l) (intValue r))
       (\<lambda>result. Inr (s\<lparr>stack := xs @ [ofInt result]\<rparr>))"
  by (simp add: executeSHRIGHTII_def withIntsFromStack_top2 push_back_def)

section \<open>Arithmetic on float\<close>

text \<open>
  The exponent found by \<open>binade\<close> lies between \<open>-126\<close> and \<open>127\<close> and brackets the
  magnitude of its argument.
\<close>

lemma binade_search_range: "e \<le> binade_search n e m \<and> binade_search n e m \<le> e + int n"
  by (induction n e m rule: binade_search.induct) auto

lemma binade_search_below:
  "binade_search n e m < e + int n \<Longrightarrow> m < 2 powi (binade_search n e m + 1)"
  by (induction n e m rule: binade_search.induct) (auto split: if_splits)

lemma binade_search_above:
  "2 powi e \<le> m \<Longrightarrow> 2 powi (binade_search n e m) \<le> m"
  by (induction n e m rule: binade_search.induct) (auto split: if_splits)

lemma binade_search_eq:
  "e0 \<le> e \<Longrightarrow> e \<le> e0 + int n \<Longrightarrow> 2 powi e \<le> m \<Longrightarrow> m < 2 powi (e + 1) \<Longrightarrow>
   binade_search n e0 m = e"
proof (induction n e0 m rule: binade_search.induct)
  case (1 e0 m)
  then show ?case by simp
next
  case (2 n e0 m)
  show ?case
  proof (cases "m < 2 powi (e0 + 1)")
    case True
    have "e \<le> e0"
    proof (rule ccontr)
      assume "\<not> e \<le> e0"
      then have "e0 + 1 \<le> e" by simp
      then have "(2::real) powi (e0 + 1) \<le> 2 powi e" by (intro power_int_increasing) simp_all
      with True 2 show False by simp
    qed
    with 2 True show ?thesis by simp
  next
    case False
    have "e \<noteq> e0" using False 2 by auto
    with 2 False show ?thesis by simp
  qed
qed

lemma binade_range: "- 126 \<le> binade x" "binade x \<le> 127"
  using binade_search_range [of "- 126" 253 "\<bar>x\<bar>"] by (simp_all add: binade_def)

lemma binade_below: "binade x < 127 \<Longrightarrow> \<bar>x\<bar> < 2 powi (binade x + 1)"
  using binade_search_below [of 253 "- 126" "\<bar>x\<bar>"] by (simp add: binade_def)

lemma binade_above: "2 powi (- 126) \<le> \<bar>x\<bar> \<Longrightarrow> 2 powi (binade x) \<le> \<bar>x\<bar>"
  using binade_search_above [of "- 126" "\<bar>x\<bar>" 253] by (simp add: binade_def)

lemma binade_eq:
  "- 126 \<le> e \<Longrightarrow> e \<le> 127 \<Longrightarrow> 2 powi e \<le> \<bar>x\<bar> \<Longrightarrow> \<bar>x\<bar> < 2 powi (e + 1) \<Longrightarrow> binade x = e"
  unfolding binade_def by (rule binade_search_eq) simp_all

lemma binade_subnormal: "\<bar>x\<bar> < 2 powi (- 125) \<Longrightarrow> binade x = - 126"
  by (simp add: binade_def eval_nat_numeral)

lemma round_even_of_int [simp]: "round_even (of_int n) = n"
  by (simp add: round_even_def)

lemma round_even_le: "x < of_int n + 1 / 2 \<Longrightarrow> round_even x \<le> n"
proof -
  assume a: "x < of_int n + 1 / 2"
  have f: "of_int \<lfloor>x\<rfloor> \<le> x" "x < of_int \<lfloor>x\<rfloor> + 1" by linarith+
  show ?thesis
  proof (cases "x - of_int \<lfloor>x\<rfloor> < 1 / 2")
    case True
    from a f have "of_int \<lfloor>x\<rfloor> < (of_int n :: real) + 1" by linarith
    then have "\<lfloor>x\<rfloor> \<le> n" by linarith
    with True show ?thesis by (simp add: round_even_def)
  next
    case False
    with a have "of_int \<lfloor>x\<rfloor> < (of_int n :: real)" by linarith
    then have "\<lfloor>x\<rfloor> + 1 \<le> n" by linarith
    with False show ?thesis by (simp add: round_even_def Let_def)
  qed
qed

lemma round_even_ge: "of_int n - 1 / 2 < x \<Longrightarrow> n \<le> round_even x"
proof -
  assume a: "of_int n - 1 / 2 < x"
  have f: "of_int \<lfloor>x\<rfloor> \<le> x" "x < of_int \<lfloor>x\<rfloor> + 1" by linarith+
  show ?thesis
  proof (cases "x - of_int \<lfloor>x\<rfloor> \<le> 1 / 2")
    case True
    with a have "(of_int n :: real) < of_int \<lfloor>x\<rfloor> + 1" by linarith
    then have "n \<le> \<lfloor>x\<rfloor>" by linarith
    then show ?thesis by (simp add: round_even_def Let_def)
  next
    case False
    from a f have "(of_int n :: real) < of_int \<lfloor>x\<rfloor> + 2" by linarith
    then have "n \<le> \<lfloor>x\<rfloor> + 1" by linarith
    with False show ?thesis by (simp add: round_even_def Let_def)
  qed
qed

lemma round_even_near: "\<bar>of_int (round_even x) - x\<bar> \<le> 1 / 2"
proof -
  have f: "of_int \<lfloor>x\<rfloor> \<le> x" "x < of_int \<lfloor>x\<rfloor> + 1" by linarith+
  consider "x - of_int \<lfloor>x\<rfloor> < 1 / 2" | "1 / 2 < x - of_int \<lfloor>x\<rfloor>" | "x - of_int \<lfloor>x\<rfloor> = 1 / 2"
    by linarith
  then show ?thesis
  proof cases
    case 1
    with f show ?thesis by (simp add: round_even_def)
  next
    case 2
    with f show ?thesis by (simp add: round_even_def Let_def)
  next
    case 3
    then show ?thesis by (simp add: round_even_def Let_def)
  qed
qed

lemma round_even_zero: "round_even x = 0 \<Longrightarrow> \<bar>x\<bar> \<le> 1 / 2"
  using round_even_near [of x] by simp

lemma round_even_minus: "round_even (- x) = - round_even x"
proof -
  have n: "\<bar>of_int (round_even x) - x\<bar> \<le> 1 / 2" by (rule round_even_near)
  show ?thesis
  proof (cases "x = of_int \<lfloor>x\<rfloor>")
    case True
    then obtain k where "x = of_int k" ..
    then show ?thesis by (simp flip: of_int_minus)
  next
    case False
    then have c: "\<lceil>x\<rceil> = \<lfloor>x\<rfloor> + 1" by (simp add: ceiling_altdef)
    have fm: "\<lfloor>- x\<rfloor> = - \<lfloor>x\<rfloor> - 1" using c by (simp add: ceiling_def)
    have f: "of_int \<lfloor>x\<rfloor> < x" "x < of_int \<lfloor>x\<rfloor> + 1" using False by linarith+
    consider "x - of_int \<lfloor>x\<rfloor> < 1 / 2" | "1 / 2 < x - of_int \<lfloor>x\<rfloor>" | "x - of_int \<lfloor>x\<rfloor> = 1 / 2"
      by linarith
    then show ?thesis
    proof cases
      case 1
      then show ?thesis using f by (simp add: round_even_def Let_def fm)
    next
      case 2
      then show ?thesis using f by (simp add: round_even_def Let_def fm)
    next
      case 3
      then show ?thesis using f by (simp add: round_even_def Let_def fm)
    qed
  qed
qed

lemma powi_pos [simp]: "0 < (2::real) powi k"
  by (simp add: power_int_def)

lemma abs_int_real_le: "\<bar>k\<bar> \<le> n \<Longrightarrow> \<bar>of_int k :: real\<bar> \<le> of_int n"
  by (metis of_int_abs of_int_le_iff)

lemma round_even_abs_le:
  assumes "\<bar>y\<bar> < of_int n + 1 / 2"
  shows "\<bar>of_int (round_even y) :: real\<bar> \<le> of_int n"
proof -
  from assms have "y < of_int n + 1 / 2" "of_int (- n) - 1 / 2 < y" by simp_all
  from round_even_le [OF this(1)] round_even_ge [OF this(2)]
  have "\<bar>round_even y\<bar> \<le> n" by simp
  then show ?thesis by (rule abs_int_real_le)
qed

lemma round32_bound:
  assumes "\<not> overflow32 x"
  shows "\<bar>round32 x\<bar> \<le> 2 ^ 128 - 2 ^ 104"
proof -
  let ?e = "binade x"
  let ?u = "(2::real) powi (?e - 23)"
  define y where "y = x / ?u"
  have up: "0 < ?u" by simp
  have r: "round32 x = of_int (round_even y) * ?u" by (simp add: round32_def Let_def y_def)
  have ay: "\<bar>y\<bar> = \<bar>x\<bar> / ?u" by (simp add: y_def)
  show ?thesis
  proof (cases "?e < 127")
    case True
    then have "\<bar>x\<bar> < 2 powi (?e + 1)" by (rule binade_below)
    also have "(2::real) powi (?e + 1) = 2 ^ 24 * ?u"
      by (simp add: power_int_diff power_int_add)
    finally have "\<bar>y\<bar> < 2 ^ 24" using up by (simp add: ay pos_divide_less_eq)
    then have "\<bar>y\<bar> < of_int (2 ^ 24) + 1 / 2" by simp
    then have "\<bar>of_int (round_even y) :: real\<bar> \<le> of_int (2 ^ 24)" by (rule round_even_abs_le)
    then have "\<bar>round32 x\<bar> \<le> 2 ^ 24 * ?u" using up by (simp add: r abs_mult)
    also have "\<dots> = 2 powi (?e + 1)" by (simp add: power_int_diff power_int_add)
    also from True have "\<dots> \<le> 2 powi 127" by (intro power_int_increasing) simp_all
    also have "\<dots> \<le> (2::real) ^ 128 - 2 ^ 104" by (simp add: power_int_def)
    finally show ?thesis .
  next
    case False
    with binade_range(2) [of x] have e: "?e = 127" by simp
    then have u: "?u = 2 ^ 104" by (simp add: power_int_def)
    from assms have "\<bar>x\<bar> < 2 ^ 128 - 2 ^ 103" by (simp add: overflow32_def)
    then have "\<bar>y\<bar> < of_int (2 ^ 24 - 1) + 1 / 2" by (simp add: ay u pos_divide_less_eq)
    then have "\<bar>of_int (round_even y) :: real\<bar> \<le> of_int (2 ^ 24 - 1)" by (rule round_even_abs_le)
    then have "\<bar>round32 x\<bar> \<le> (2 ^ 24 - 1) * 2 ^ 104" unfolding r u by (simp add: abs_mult)
    then show ?thesis by simp
  qed
qed

lemma round32_zero:
  assumes "round32 x = 0"
  shows "\<bar>x\<bar> \<le> 2 powi (- 150)"
proof -
  let ?e = "binade x"
  let ?u = "(2::real) powi (?e - 23)"
  have up: "0 < ?u" by simp
  from assms have "round_even (x / ?u) = 0" by (simp add: round32_def Let_def)
  then have "\<bar>x / ?u\<bar> \<le> 1 / 2" by (rule round_even_zero)
  then have h: "\<bar>x\<bar> \<le> ?u / 2" using up by (simp add: pos_divide_le_eq)
  have "?e = - 126"
  proof (rule ccontr)
    assume n: "?e \<noteq> - 126"
    with binade_range(1) [of x] have g: "- 126 < ?e" by simp
    have "\<not> \<bar>x\<bar> < 2 powi (- 125)" using binade_subnormal [of x] n by blast
    moreover have "(2::real) powi (- 126) \<le> 2 powi (- 125)" by simp
    ultimately have "(2::real) powi (- 126) \<le> \<bar>x\<bar>" by linarith
    then have "2 powi ?e \<le> \<bar>x\<bar>" by (rule binade_above)
    with h have "(2::real) powi ?e \<le> 2 powi (?e - 23) / 2" by simp
    then show False by (simp add: power_int_diff)
  qed
  moreover have "(2::real) powi (- 126 - 23) / 2 = 2 powi (- 150)"
    using power_int_diff [of "2::real" "- 149" 1] by simp
  ultimately show ?thesis using h by simp
qed

lemma round_even_eq: "of_int n - 1 / 2 < x \<Longrightarrow> x < of_int n + 1 / 2 \<Longrightarrow> round_even x = n"
  using round_even_le [of x n] round_even_ge [of n x] by simp

lemma round32_fraction:
  assumes k: "k \<le> 149" "k = 149 \<or> 2 ^ 23 \<le> \<bar>x\<bar> * 2 ^ k" "\<bar>x\<bar> * 2 ^ k < 2 ^ 24"
      and n: "of_int n - 1 / 2 < x * 2 ^ k" "x * 2 ^ k < of_int n + 1 / 2"
  shows "round32 x = of_int n / 2 ^ k"
proof -
  have p: "(2::real) powi (24 - int k) = 2 ^ 24 / 2 ^ k" "(2::real) powi (23 - int k) = 2 ^ 23 / 2 ^ k"
    by (simp_all add: power_int_diff)
  have "binade x = 23 - int k"
  proof (cases "k = 149")
    case True
    with k(3) have "\<bar>x\<bar> < 2 powi (- 125)"
      by (simp add: power_int_minus field_simps)
    with True show ?thesis by (simp add: binade_subnormal)
  next
    case False
    with k have "2 ^ 23 \<le> \<bar>x\<bar> * 2 ^ k" by simp
    with k show ?thesis
      by (intro binade_eq) (simp_all add: p field_simps)
  qed
  then have "2 powi (binade x - 23) = 1 / (2::real) ^ k"
    by (simp add: power_int_minus_divide)
  then have "round32 x = of_int (round_even (x * 2 ^ k)) / 2 ^ k"
    by (simp add: round32_def Let_def)
  with round_even_eq [OF n] show ?thesis by simp
qed

lemma round32_multiple:
  assumes k: "k \<le> 104" "2 ^ 23 * 2 ^ k \<le> \<bar>x\<bar>" "\<bar>x\<bar> < 2 ^ 24 * 2 ^ k"
      and n: "of_int n - 1 / 2 < x / 2 ^ k" "x / 2 ^ k < of_int n + 1 / 2"
  shows "round32 x = of_int n * 2 ^ k"
proof -
  have p: "(2::real) powi (24 + int k) = 2 ^ 24 * 2 ^ k" "(2::real) powi (23 + int k) = 2 ^ 23 * 2 ^ k"
    by (simp_all add: power_int_add)
  from k have "binade x = 23 + int k"
    by (intro binade_eq) (simp_all add: p)
  then have "round32 x = of_int (round_even (x / 2 ^ k)) * 2 ^ k"
    by (simp add: round32_def Let_def)
  with round_even_eq [OF n] show ?thesis by simp
qed

lemma round32_0 [simp]: "round32 0 = 0"
  using round32_fraction [of 149 0 0] by simp

lemma round32_1: "round32 1 = 1"
  using round32_fraction [of 23 1 "2 ^ 23"] by simp

lemma round32_2: "round32 2 = 2"
  using round32_fraction [of 22 2 "2 ^ 23"] by simp

lemma round32_3: "round32 3 = 3"
  using round32_fraction [of 22 3 "3 * 2 ^ 22"] by simp

lemma round32_third: "round32 (1 / 3) = 11184811 / 2 ^ 25"
  using round32_fraction [of 25 "1 / 3" 11184811] by simp

lemma round32_tol: "round32 (1 / 10 ^ 5) = 2748779 / 2 ^ 38"
  using round32_fraction [of 40 "1 / 10 ^ 5" 10995116] by simp

lemma round32_1e34: "round32 (10 ^ 34) = 16155871 * 2 ^ 89"
  using round32_multiple [of 89 "10 ^ 34" 16155871] by simp

lemma round32_300000: "round32 (3 / (2748779 / 2 ^ 38)) = 300000"
  using round32_fraction [of 5 "3 / (2748779 / 2 ^ 38)" 9600000] by simp

lemma binade_minus [simp]: "binade (- x) = binade x"
  by (simp add: binade_def)

lemma round32_minus [simp]: "round32 (- x) = - round32 x"
  by (simp add: round32_def Let_def round_even_minus)

lemma round32_nonzero: "2 powi (- 149) \<le> \<bar>x\<bar> \<Longrightarrow> round32 x \<noteq> 0"
proof
  assume a: "2 powi (- 149) \<le> \<bar>x\<bar>" and "round32 x = 0"
  then have "\<bar>x\<bar> \<le> 2 powi (- 150)" by (intro round32_zero)
  moreover have "(2::real) powi (- 150) < 2 powi (- 149)"
    by (intro power_int_strict_increasing) simp_all
  ultimately show False using a by linarith
qed

text \<open>The tolerance is positive, and so is every divisor clamped by it.\<close>

lemma kFloatTolerance_pos: "0 < kFloatTolerance"
  by (simp add: kFloatTolerance_def)

lemma max_kFloatTolerance_pos: "0 < max kFloatTolerance right"
  using kFloatTolerance_pos by (simp add: max_def)

text \<open>
  Rounding and the tolerance: a magnitude of at least \<open>kFloatTolerance\<close> is not rounded
  below it, and a magnitude more than half a step (\<open>2 ^ -41\<close>) below
  \<open>kFloatTolerance\<close> is not rounded up to it.
\<close>

lemma round_even_nonneg: "0 \<le> x \<Longrightarrow> 0 \<le> round_even x"
  by (rule round_even_ge) simp

lemma round32_nonneg: "0 \<le> x \<Longrightarrow> 0 \<le> round32 x"
  by (simp add: round32_def Let_def round_even_nonneg)

lemma round32_abs: "\<bar>round32 x\<bar> = round32 \<bar>x\<bar>"
proof (cases "0 \<le> x")
  case True
  then show ?thesis using round32_nonneg [of x] by simp
next
  case False
  then have "0 \<le> - x" by simp
  from round32_nonneg [OF this] False show ?thesis by simp
qed

lemma binade_tolerance_le:
  assumes "kFloatTolerance \<le> \<bar>x\<bar>"
  shows "- 17 \<le> binade x"
proof (rule ccontr)
  assume "\<not> - 17 \<le> binade x"
  then have l: "binade x + 1 \<le> - 17" by simp
  then have "binade x < 127" by simp
  then have "\<bar>x\<bar> < 2 powi (binade x + 1)" by (rule binade_below)
  also from l have "\<dots> \<le> 2 powi (- 17)" by (intro power_int_increasing) simp_all
  also have "\<dots> \<le> kFloatTolerance" by (simp add: kFloatTolerance_def power_int_minus_divide)
  finally show False using assms by simp
qed

lemma round32_ge_tolerance:
  assumes "kFloatTolerance \<le> \<bar>x\<bar>"
  shows "kFloatTolerance \<le> \<bar>round32 x\<bar>"
proof -
  let ?e = "binade \<bar>x\<bar>"
  let ?u = "(2::real) powi (?e - 23)"
  have up: "0 < ?u" by simp
  have r: "round32 \<bar>x\<bar> = of_int (round_even (\<bar>x\<bar> / ?u)) * ?u" by (simp add: round32_def Let_def)
  from assms have e: "- 17 \<le> ?e" using binade_tolerance_le [of "\<bar>x\<bar>"] by simp
  have "kFloatTolerance \<le> round32 \<bar>x\<bar>"
  proof (cases "?e = - 17")
    case True
    then have u: "?u = 1 / 2 ^ 40" by (simp add: power_int_minus_divide)
    from assms have "of_int 10995116 - 1 / 2 < \<bar>x\<bar> / ?u"
      unfolding u by (simp add: kFloatTolerance_def)
    then have "10995116 \<le> round_even (\<bar>x\<bar> / ?u)" by (rule round_even_ge)
    then have "(10995116 :: real) \<le> of_int (round_even (\<bar>x\<bar> / ?u))" by linarith
    then show ?thesis unfolding r u by (simp add: kFloatTolerance_def)
  next
    case False
    with e have g: "- 16 \<le> ?e" by simp
    have "(2::real) powi (- 126) \<le> 2 powi (- 17)" by (intro power_int_increasing) simp_all
    also have "\<dots> \<le> kFloatTolerance" by (simp add: kFloatTolerance_def power_int_minus_divide)
    finally have "2 powi (- 126) \<le> \<bar>\<bar>x\<bar>\<bar>" using assms by simp
    then have "2 powi ?e \<le> \<bar>\<bar>x\<bar>\<bar>" by (rule binade_above)
    then have "2 powi ?e \<le> \<bar>x\<bar>" by simp
    moreover have "(2::real) powi ?e = 2 ^ 23 * ?u" by (simp add: power_int_diff)
    ultimately have "2 ^ 23 * ?u \<le> \<bar>x\<bar>" by simp
    then have "2 ^ 23 \<le> \<bar>x\<bar> / ?u" using up by (simp add: pos_le_divide_eq)
    moreover have "(of_int (2 ^ 23) :: real) - 1 / 2 < 2 ^ 23" by simp
    ultimately have "of_int (2 ^ 23) - 1 / 2 < \<bar>x\<bar> / ?u" by linarith
    then have "2 ^ 23 \<le> round_even (\<bar>x\<bar> / ?u)" by (rule round_even_ge)
    then have "(2 ^ 23 :: real) \<le> of_int (round_even (\<bar>x\<bar> / ?u))"
      by (metis of_int_le_iff of_int_numeral of_int_power)
    then have "2 ^ 23 * ?u \<le> round32 \<bar>x\<bar>" unfolding r using up by simp
    moreover have "(2::real) powi (- 16) \<le> 2 powi ?e" using g by (intro power_int_increasing) simp_all
    moreover have "kFloatTolerance \<le> 2 powi (- 16)"
      by (simp add: kFloatTolerance_def power_int_minus_divide)
    moreover have "(2::real) powi ?e = 2 ^ 23 * ?u" by (simp add: power_int_diff)
    ultimately show ?thesis by linarith
  qed
  then show ?thesis by (simp add: round32_abs)
qed

lemma round32_lt_tolerance:
  assumes "\<bar>x\<bar> < kFloatTolerance - 1 / 2 ^ 41"
  shows "\<bar>round32 x\<bar> < kFloatTolerance"
proof -
  let ?e = "binade \<bar>x\<bar>"
  let ?u = "(2::real) powi (?e - 23)"
  have up: "0 < ?u" by simp
  have r: "round32 \<bar>x\<bar> = of_int (round_even (\<bar>x\<bar> / ?u)) * ?u" by (simp add: round32_def Let_def)
  have e: "?e \<le> - 17"
  proof (rule ccontr)
    assume "\<not> ?e \<le> - 17"
    then have g: "- 16 \<le> ?e" by simp
    then have "(2::real) powi (- 16) \<le> 2 powi ?e" by (intro power_int_increasing) simp_all
    moreover have "(2::real) powi (- 126) \<le> 2 powi (- 16)" by (intro power_int_increasing) simp_all
    moreover have "kFloatTolerance \<le> 2 powi (- 16)"
      by (simp add: kFloatTolerance_def power_int_minus_divide)
    moreover have "2 powi (- 126) \<le> \<bar>\<bar>x\<bar>\<bar> \<Longrightarrow> 2 powi ?e \<le> \<bar>\<bar>x\<bar>\<bar>" by (rule binade_above)
    moreover have "\<not> \<bar>\<bar>x\<bar>\<bar> < 2 powi (- 125) \<or> ?e = - 126"
      using binade_subnormal [of "\<bar>x\<bar>"] by blast
    moreover have "(2::real) powi (- 126) \<le> 2 powi (- 125)" by (intro power_int_increasing) simp_all
    ultimately show False using assms g by (auto simp: not_less)
  qed
  have "round32 \<bar>x\<bar> < kFloatTolerance"
  proof (cases "?e = - 17")
    case True
    then have u: "?u = 1 / 2 ^ 40" by (simp add: power_int_minus_divide)
    from assms have "\<bar>x\<bar> / ?u < of_int 10995115 + 1 / 2"
      unfolding u by (simp add: kFloatTolerance_def)
    then have "round_even (\<bar>x\<bar> / ?u) \<le> 10995115" by (rule round_even_le)
    then have "of_int (round_even (\<bar>x\<bar> / ?u)) \<le> (10995115 :: real)" by linarith
    then show ?thesis unfolding r u by (simp add: kFloatTolerance_def)
  next
    case False
    with e have l: "?e + 1 \<le> - 17" by simp
    then have "?e < 127" by simp
    then have "\<bar>\<bar>x\<bar>\<bar> < 2 powi (?e + 1)" by (rule binade_below)
    moreover have p: "(2::real) powi (?e + 1) = 2 ^ 24 * ?u" by (simp add: power_int_diff power_int_add)
    ultimately have "\<bar>x\<bar> / ?u < of_int (2 ^ 24) + 1 / 2"
      using up by (simp add: pos_divide_less_eq)
    then have "round_even (\<bar>x\<bar> / ?u) \<le> 2 ^ 24" by (rule round_even_le)
    then have "of_int (round_even (\<bar>x\<bar> / ?u)) \<le> (2 ^ 24 :: real)"
      by (metis of_int_le_iff of_int_numeral of_int_power)
    then have "round32 \<bar>x\<bar> \<le> 2 ^ 24 * ?u" unfolding r using up by simp
    moreover from l have "(2::real) powi (?e + 1) \<le> 2 powi (- 17)"
      by (intro power_int_increasing) simp_all
    moreover have "(2::real) powi (- 17) < kFloatTolerance"
      by (simp add: kFloatTolerance_def power_int_minus_divide)
    ultimately show ?thesis using p by linarith
  qed
  then show ?thesis by (simp add: round32_abs)
qed

lemma float_div_clamped:
  "float_div left (max kFloatTolerance right) =
     (if overflow32 (left / max kFloatTolerance right) then Inl NonFiniteFloat
      else if round32 (left / max kFloatTolerance right) = 0 \<and> left < 0 then Inl NegativeZero
      else Inr (round32 (left / max kFloatTolerance right)))"
proof -
  have "max kFloatTolerance right \<noteq> 0" "\<not> max kFloatTolerance right < 0"
    using max_kFloatTolerance_pos [of right] by linarith+
  then have "max kFloatTolerance right \<noteq> 0" "(max kFloatTolerance right < 0) = False"
    by blast+
  then show ?thesis by (simp only: float_div_def float_result_def if_False simp_thms)
qed

lemma DIVFF_top2:
  assumes "stack s = xs @ [l, r]" "type l = Float" "type r = Float"
  shows "executeDIVFF E ins s =
     (let q = floatValue l / max kFloatTolerance (floatValue r) in
      if overflow32 q then Inl NonFiniteFloat
      else if round32 q = 0 \<and> floatValue l < 0 then Inl NegativeZero
      else Inr (s\<lparr>stack := xs @ [ofFloat (round32 q)]\<rparr>))"
  using assms
  by (simp add: executeDIVFF_def withFloatsFromStack_top2 push_float_def float_div_clamped
      andThen_def push_back_def Let_def)

text \<open>A numerator of magnitude up to \<open>2 ^ 111\<close> over the tolerance does not overflow.\<close>

lemma quotient_by_tolerance_finite:
  assumes "\<bar>x\<bar> \<le> 2 ^ 111"
  shows "\<not> overflow32 (x / kFloatTolerance)"
proof -
  have "\<bar>x / kFloatTolerance\<bar> = \<bar>x\<bar> / kFloatTolerance"
    using kFloatTolerance_pos by simp
  also from assms have "\<dots> \<le> 2 ^ 111 / kFloatTolerance"
    using kFloatTolerance_pos by (intro divide_right_mono) simp_all
  also have "\<dots> < 2 ^ 128 - 2 ^ 103" by (simp add: kFloatTolerance_def)
  finally show ?thesis by (simp add: overflow32_def)
qed

lemma quotient_by_tolerance_nonzero:
  assumes "2 powi (- 149) \<le> \<bar>x\<bar>"
  shows "round32 (x / kFloatTolerance) \<noteq> 0"
proof (rule round32_nonzero)
  have "kFloatTolerance \<le> 1" by (simp add: kFloatTolerance_def)
  then have "\<bar>x\<bar> * kFloatTolerance \<le> \<bar>x\<bar>"
    by (intro mult_left_le) simp_all
  then have "\<bar>x\<bar> \<le> \<bar>x\<bar> / kFloatTolerance"
    using kFloatTolerance_pos by (simp add: pos_le_divide_eq)
  moreover have "\<bar>x / kFloatTolerance\<bar> = \<bar>x\<bar> / kFloatTolerance"
    using kFloatTolerance_pos by simp
  ultimately show "2 powi (- 149) \<le> \<bar>x / kFloatTolerance\<bar>"
    using assms by linarith
qed

lemma quotient_by_tolerance_overflow:
  assumes "(2 ^ 128 - 2 ^ 103) * kFloatTolerance \<le> \<bar>x\<bar>"
  shows "overflow32 (x / kFloatTolerance)"
proof -
  from assms have "2 ^ 128 - 2 ^ 103 \<le> \<bar>x\<bar> / kFloatTolerance"
    using kFloatTolerance_pos by (simp add: pos_le_divide_eq)
  then show ?thesis using kFloatTolerance_pos by (simp add: overflow32_def)
qed

lemma max_kFloatTolerance_zero: "max kFloatTolerance 0 = kFloatTolerance"
  using kFloatTolerance_pos by simp

section \<open>The copying loops\<close>

lemma copy_down_length:
  "copy_down n dstIdx srcIdx s = Inr s' \<Longrightarrow> length (stack s') = length (stack s)"
proof (induction n arbitrary: dstIdx srcIdx s)
  case 0
  then show ?case by simp
next
  case (Suc n)
  from Suc.prems obtain v s1 where "stack_set s dstIdx v = Inr s1"
    and rest: "copy_down n (dstIdx + 1) (srcIdx + 1) s1 = Inr s'"
    by (auto split: sum.splits)
  then have "length (stack s1) = length (stack s)"
    by (auto simp: stack_set_def split: if_splits)
  with Suc.IH [OF rest] show ?case by simp
qed

lemma copy_top_length:
  "copy_top n srcIdx s = Inr s' \<Longrightarrow> length (stack s') = length (stack s) + n"
proof (induction n arbitrary: srcIdx s)
  case 0
  then show ?case by simp
next
  case (Suc n)
  from Suc.prems obtain v where rest: "copy_top n (srcIdx + 1) (push_back v s) = Inr s'"
    by (auto split: sum.splits)
  from Suc.IH [OF rest] show ?case by (simp add: push_back_def)
qed

lemma copy_range_take_drop:
  "0 \<le> srcIdx \<Longrightarrow> nat srcIdx + n \<le> length (stack s) \<Longrightarrow>
   copy_range n srcIdx s vars = Inr (vars @ take n (drop (nat srcIdx) (stack s)))"
proof (induction n arbitrary: srcIdx vars)
  case 0
  then show ?case by simp
next
  case (Suc n)
  from Suc.prems have lt: "nat srcIdx < length (stack s)" by simp
  with Suc.prems have at: "stack_at s srcIdx = Inr (stack s ! nat srcIdx)"
    by (simp add: stack_at_def stack_size_def)
  from Suc.prems have n1: "nat (srcIdx + 1) = Suc (nat srcIdx)" by simp
  have "copy_range n (srcIdx + 1) s (vars @ [stack s ! nat srcIdx]) =
      Inr ((vars @ [stack s ! nat srcIdx]) @ take n (drop (nat (srcIdx + 1)) (stack s)))"
    using Suc.prems by (intro Suc.IH) simp_all
  moreover have "take (Suc n) (drop (nat srcIdx) (stack s)) =
      stack s ! nat srcIdx # take n (drop (Suc (nat srcIdx)) (stack s))"
    using lt by (simp add: Cons_nth_drop_Suc [symmetric])
  ultimately show ?case by (simp add: at n1)
qed

section \<open>Rebinding the caller\<close>

lemma setCaller_first:
  "\<forall>a\<in>set pre. kind a \<noteq> Caller \<Longrightarrow> kind c = Caller \<Longrightarrow>
   setCaller (pre @ c # post) actorId =
     Some (pre @ Argument Caller
             (Variable (type (var c)) (strValue (var c)) (vecValue (var c)) (engineType (var c))
                (context_v (var c)) actorId (floatValue (var c))) # post)"
  by (induction pre) simp_all

lemma setCaller_absent:
  "\<forall>a\<in>set xs. kind a \<noteq> Caller \<Longrightarrow> setCaller xs actorId = None"
  by (induction xs) simp_all

section \<open>Saving and restoring the state\<close>

lemma run_start_saved:
  "savedState (context_env E) = Some st \<Longrightarrow>
   run_start E (VirtualMachine_new a) =
        (insOffset st, (VirtualMachine_new a)\<lparr>stack := globals st @ locals st,
                          globalCount := int (length (globals st))\<rparr>)"
  by (simp add: run_start_def Let_def VirtualMachine_new_def stack_size_def)

lemma STORE_STATE_ranges:
  assumes nm: "n = size_ins ins sdiv 4" "m = sizeLocals ins sdiv 4"
      and r: "0 \<le> n" "n \<le> globalCount s" "globalCount s \<le> stack_size s" "0 \<le> m"
        "m \<le> stack_size s"
  shows "executeSTORE_STATE E ins s =
        Inr (s\<lparr>savedState_vm := ExecutionState
               (take (nat n) (drop (nat (globalCount s - n)) (stack s)))
               (drop (nat (stack_size s - m)) (stack s))
               (Some (program_env E)) (offset ins + 0x10)\<rparr>)"
proof -
  from r have "nat (globalCount s - n) + nat n \<le> length (stack s)"
    by (simp add: stack_size_def)
  with r have g: "copy_range (nat n) (globalCount s - n) s [] =
      Inr (take (nat n) (drop (nat (globalCount s - n)) (stack s)))"
    using copy_range_take_drop [of "globalCount s - n" "nat n" s "[]"] by simp
  from r have "nat (stack_size s - m) + nat m \<le> length (stack s)"
    by (simp add: stack_size_def)
  with r have "copy_range (nat m) (stack_size s - m) s [] =
      Inr (take (nat m) (drop (nat (stack_size s - m)) (stack s)))"
    using copy_range_take_drop [of "stack_size s - m" "nat m" s "[]"] by simp
  moreover from r have "length (drop (nat (stack_size s - m)) (stack s)) \<le> nat m"
    by (simp add: stack_size_def)
  ultimately have l: "copy_range (nat m) (stack_size s - m) s [] =
      Inr (drop (nat (stack_size s - m)) (stack s))"
    by simp
  show ?thesis
    unfolding executeSTORE_STATE_def Let_def nm [symmetric] g l andThen_def
    by simp
qed


lemma STORE_STATE_round_trip:
  assumes ex: "executeSTORE_STATE E ins s = Inr s'"
      and r: "0 \<le> globalCount s" "globalCount s \<le> stack_size s"
      and sz: "size_ins ins sdiv 4 = globalCount s"
        "sizeLocals ins sdiv 4 = stack_size s - globalCount s"
      and ctx: "savedState (context_env E') = Some (savedState_vm s')"
  shows "run_start E' (VirtualMachine_new a) =
        (offset ins + 0x10, (VirtualMachine_new a)\<lparr>stack := stack s,
                               globalCount := globalCount s\<rparr>)"
proof -
  from r sz have "executeSTORE_STATE E ins s =
      Inr (s\<lparr>savedState_vm := ExecutionState
             (take (nat (globalCount s)) (drop (nat (globalCount s - globalCount s)) (stack s)))
             (drop (nat (stack_size s - (stack_size s - globalCount s))) (stack s))
             (Some (program_env E)) (offset ins + 0x10)\<rparr>)"
    by (intro STORE_STATE_ranges) simp_all
  with ex have "s' = s\<lparr>savedState_vm := ExecutionState
             (take (nat (globalCount s)) (stack s)) (drop (nat (globalCount s)) (stack s))
             (Some (program_env E)) (offset ins + 0x10)\<rparr>"
    by simp
  then have st: "savedState_vm s' = ExecutionState
             (take (nat (globalCount s)) (stack s)) (drop (nat (globalCount s)) (stack s))
             (Some (program_env E)) (offset ins + 0x10)"
    by simp
  from r have "int (length (take (nat (globalCount s)) (stack s))) = globalCount s"
    by (auto simp: stack_size_def min_def)
  with run_start_saved [OF ctx, of a] show ?thesis
    by (simp add: st)
qed

text \<open>
  The first pass of a resumed machine: the loop fetches the instruction at the saved
  offset and runs its handler in the restored state; past the end of the program it runs
  nothing.
\<close>

lemma resume_first_pass:
  assumes st: "savedState (context_env E) = Some st"
    and lt: "insOffset st < length_prog (program_env E)"
    and ins: "getInstruction (program_env E) (insOffset st) = Some ins"
    and h: "handlers (type_ins ins) = Some handler"
    and r: "handler E ins ((VirtualMachine_new a)\<lparr>stack := globals st @ locals st,
              globalCount := int (length (globals st)),
              nextInstruction := nextOffset ins\<rparr>) = Inr s'"
  shows "loop_body E (insOffset st) ((VirtualMachine_new a)\<lparr>stack := globals st @ locals st,
              globalCount := int (length (globals st))\<rparr>) = Inr s'"
    and "run E a = map_option run_return (run_loop E (nextInstruction s') s')"
proof -
  let ?s0 = "(VirtualMachine_new a)\<lparr>stack := globals st @ locals st,
              globalCount := int (length (globals st))\<rparr>"
  from ins h r show body: "loop_body E (insOffset st) ?s0 = Inr s'"
    by (simp add: loop_body_def)
  have "run E a = map_option run_return (run_loop E (insOffset st) ?s0)"
    by (simp add: run_def run_start_saved [OF st])
  also from run_loop_continue [OF lt body]
  have "run_loop E (insOffset st) ?s0 = run_loop E (nextInstruction s') s'" .
  finally show "run E a = map_option run_return (run_loop E (nextInstruction s') s')" .
qed

lemma resume_past_end:
  assumes st: "savedState (context_env E) = Some st"
    and ge: "\<not> insOffset st < length_prog (program_env E)"
  shows "run E a = Some (run_return (Finished (insOffset st)
           ((VirtualMachine_new a)\<lparr>stack := globals st @ locals st,
              globalCount := int (length (globals st))\<rparr>)))"
  by (simp add: run_def run_start_saved [OF st] run_loop_finished [OF ge])

section \<open>Evaluating the examples\<close>

text \<open>The resumed machine of the example: ADDII at the saved offset, then RETN.\<close>

lemma resumed_ADDII:
  "executeADDII resumed_env (ins0\<lparr>offset := 29, type_ins := ADDII, nextOffset := 31\<rparr>)
     (store_vm\<lparr>nextInstruction := 31\<rparr>) =
   Inr (store_vm\<lparr>stack := [ofInt 10, ofInt 50], nextInstruction := 31\<rparr>)"
  by (simp add: executeADDII_def store_vm_def push_back_def VirtualMachine_new_def
      withIntsFromStack_def withStackVariables_def pop_back_def andThen_def
      throwIfInvalidType_def ofInt_def int32_def)

lemma resumed_tail:
  "run_loop resumed_env 31 (store_vm\<lparr>stack := [ofInt 10, ofInt 50], nextInstruction := 31\<rparr>) =
   Some (Finished 33 (store_vm\<lparr>stack := [ofInt 10, ofInt 50], nextInstruction := 33\<rparr>))"
proof -
  let ?s = "store_vm\<lparr>stack := [ofInt 10, ofInt 50], nextInstruction := 31\<rparr>"
  let ?t = "store_vm\<lparr>stack := [ofInt 10, ofInt 50], nextInstruction := 33\<rparr>"
  have len: "length_prog (program_env resumed_env) = 33"
    by (simp add: resumed_env_def resume_program_def)
  have "loop_body resumed_env 31 ?s = Inr ?t"
    by (simp add: loop_body_def getInstruction_def resumed_env_def resume_program_def
        store_ins_def ins0_def handlers_RETN executeRETN_def store_vm_def VirtualMachine_new_def)
  moreover have "nextInstruction ?t = 33" by simp
  ultimately have "run_loop resumed_env 31 ?s = run_loop resumed_env 33 ?t"
    using run_loop_continue [of 31 resumed_env ?s ?t] len by simp
  also have "\<dots> = Some (Finished 33 ?t)"
    using run_loop_finished [of 33 resumed_env ?t] len by simp
  finally show ?thesis .
qed

lemma sdiv4 [simp]: "(4::int) sdiv 4 = 1" "(8::int) sdiv 4 = 2" "(- 4::int) sdiv 4 = - 1"
  "(- 8::int) sdiv 4 = - 2" "(0::int) sdiv 4 = 0"
  by (simp_all add: signed_divide_int_def)

lemma CPDOWNSP_example:
  "executeCPDOWNSP add_env (ins0\<lparr>size_ins := 4, stackOffset := - 8\<rparr>) copy_vm =
     Inr (copy_vm\<lparr>stack := [ofInt 2, ofInt 2]\<rparr>)"
  by (simp add: executeCPDOWNSP_def copy_vm_def ins0_def stack_size_def stack_at_def
      stack_set_def)

lemma CPTOPSP_example:
  "executeCPTOPSP add_env (ins0\<lparr>size_ins := 4, stackOffset := - 8\<rparr>) copy_vm =
     Inr (copy_vm\<lparr>stack := [ofInt 1, ofInt 2, ofInt 1]\<rparr>)"
  by (simp add: executeCPTOPSP_def copy_vm_def ins0_def stack_size_def stack_at_def
      push_back_def)

lemma getFloatFromStack_top:
  "stack s = xs @ [v] \<Longrightarrow> type v = Float \<Longrightarrow>
   getFloatFromStack s = Inr (floatValue v, s\<lparr>stack := xs\<rparr>)"
  by (simp add: getFloatFromStack_def pop_back_def andThen_def throwIfInvalidType_def)

lemma getVectorFromStack_top3:
  assumes "stack s = xs @ [a, b, c]" "type a = Float" "type b = Float" "type c = Float"
  shows "getVectorFromStack s =
     Inr (vec3 (floatValue a) (floatValue b) (floatValue c), s\<lparr>stack := xs\<rparr>)"
proof -
  from assms have 1: "getFloatFromStack s = Inr (floatValue c, s\<lparr>stack := xs @ [a, b]\<rparr>)"
    using getFloatFromStack_top [of s "xs @ [a, b]" c] by simp
  from assms have 2: "getFloatFromStack (s\<lparr>stack := xs @ [a, b]\<rparr>) =
      Inr (floatValue b, s\<lparr>stack := xs @ [a]\<rparr>)"
    using getFloatFromStack_top [of "s\<lparr>stack := xs @ [a, b]\<rparr>" "xs @ [a]" b] by simp
  from assms have 3: "getFloatFromStack (s\<lparr>stack := xs @ [a]\<rparr>) =
      Inr (floatValue a, s\<lparr>stack := xs\<rparr>)"
    using getFloatFromStack_top [of "s\<lparr>stack := xs @ [a]\<rparr>" xs a] by simp
  show ?thesis
    by (simp add: getVectorFromStack_def 1 2 3 andThen_def)
qed

section \<open>Claims\<close>

text \<open>
  C1. Whenever the loop of \<open>run\<close> ends because the cursor has reached or passed the
  length of the program, \<open>run\<close> returns the \<open>int\<close> held by the top of the final stack
  if that stack is not empty and its top is tagged Int, and \<open>-1\<close> otherwise. The program
  \<open>CONSTI 2; CONSTI 3; ADDII; RETN\<close>, run with no saved state and no arguments,
  returns 5.
\<close>

theorem run_returns_top_int:
  "(\<forall>E a insOff s insOff' s'.
      run_start E (VirtualMachine_new a) = (insOff, s) \<longrightarrow>
      run_loop E insOff s = Some (Finished insOff' s') \<longrightarrow>
        length_prog (program_env E) \<le> insOff' \<and>
        run E a = Some (Returned (if stack s' \<noteq> [] \<and> type (last (stack s')) = Int_t
                                   then intValue (last (stack s')) else - 1)))
   \<and> savedState (context_env add_env) = None \<and> args (context_env add_env) = []
   \<and> run add_env 0 = Some (Returned 5)"
proof -
  have "length_prog (program_env E) \<le> insOff' \<and>
        run E a = Some (Returned (if stack s' \<noteq> [] \<and> type (last (stack s')) = Int_t
                                   then intValue (last (stack s')) else - 1))"
    if "run_start E (VirtualMachine_new a) = (insOff, s)"
      and "run_loop E insOff s = Some (Finished insOff' s')"
    for E a insOff s insOff' s'
    using that run_loop_Finished_cursor [OF that(2)] by (simp add: run_def run_return_def)
  with add_program_run [of 0] show ?thesis
    by (simp add: add_env_context)
qed

theorem run_returns_top_int_witness:
  "run_start add_env (VirtualMachine_new 0) = (13, VirtualMachine_new 0)
   \<and> run_loop add_env 13 (VirtualMachine_new 0) =
       Some (Finished 29 ((VirtualMachine_new 0)\<lparr>stack := [ofInt 5], nextInstruction := 29\<rparr>))
   \<and> length_prog (program_env add_env) \<le> 29
   \<and> run add_env 0 = Some (Returned 5)"
proof -
  have "length_prog (program_env add_env) \<le> 29"
    by (simp add: add_env_def add_program_def)
  with run_returns_top_int add_env_start [of 0] add_program_loop [of 0] show ?thesis
    by simp
qed

text \<open>
  C2. A machine whose context carries a saved state starts with the saved globals on
  the stack, the global/local boundary at their number, the saved locals above them, and
  the loop of \<open>run\<close> entered at the saved resume offset: where that offset lies inside
  the program, the first pass of the loop fetches the instruction at the saved offset and
  runs its handler in the restored state, and \<open>run\<close> goes on from the state that the
  handler leaves; where it lies at or past the end, no instruction is run. STORE_STATE,
  with \<open>n = size / 4\<close> entries below the boundary and \<open>m = sizeLocals / 4\<close> entries on
  the stack, saves the \<open>n\<close> stack entries that end at the boundary as globals, the top
  \<open>m\<close> entries as locals, the current program, and the instruction's offset plus
  \<open>0x10\<close> as the resume offset. When the two ranges are the whole stack, a machine
  started from that saved state begins with the same stack and the same boundary, at that
  offset.
\<close>

theorem save_and_resume:
  "(\<forall>E a st.
      savedState (context_env E) = Some st \<longrightarrow>
      run_start E (VirtualMachine_new a) =
        (insOffset st, (VirtualMachine_new a)\<lparr>stack := globals st @ locals st,
                          globalCount := int (length (globals st))\<rparr>)
      \<and> run E a = map_option run_return
            (run_loop E (insOffset st) ((VirtualMachine_new a)\<lparr>stack := globals st @ locals st,
                          globalCount := int (length (globals st))\<rparr>)))
   \<and> (\<forall>E ins s n m.
      n = size_ins ins sdiv 4 \<longrightarrow> m = sizeLocals ins sdiv 4 \<longrightarrow>
      0 \<le> n \<longrightarrow> n \<le> globalCount s \<longrightarrow> globalCount s \<le> stack_size s \<longrightarrow>
      0 \<le> m \<longrightarrow> m \<le> stack_size s \<longrightarrow>
      executeSTORE_STATE E ins s =
        Inr (s\<lparr>savedState_vm := ExecutionState
               (take (nat n) (drop (nat (globalCount s - n)) (stack s)))
               (drop (nat (stack_size s - m)) (stack s))
               (Some (program_env E)) (offset ins + 0x10)\<rparr>))
   \<and> (\<forall>E E' ins s s' a.
      executeSTORE_STATE E ins s = Inr s' \<longrightarrow>
      0 \<le> globalCount s \<longrightarrow> globalCount s \<le> stack_size s \<longrightarrow>
      size_ins ins sdiv 4 = globalCount s \<longrightarrow>
      sizeLocals ins sdiv 4 = stack_size s - globalCount s \<longrightarrow>
      savedState (context_env E') = Some (savedState_vm s') \<longrightarrow>
      run_start E' (VirtualMachine_new a) =
        (offset ins + 0x10, (VirtualMachine_new a)\<lparr>stack := stack s,
                               globalCount := globalCount s\<rparr>))
   \<and> (\<forall>E a st ins handler s'.
      savedState (context_env E) = Some st \<longrightarrow>
      insOffset st < length_prog (program_env E) \<longrightarrow>
      getInstruction (program_env E) (insOffset st) = Some ins \<longrightarrow>
      handlers (type_ins ins) = Some handler \<longrightarrow>
      handler E ins ((VirtualMachine_new a)\<lparr>stack := globals st @ locals st,
                        globalCount := int (length (globals st)),
                        nextInstruction := nextOffset ins\<rparr>) = Inr s' \<longrightarrow>
      loop_body E (insOffset st) ((VirtualMachine_new a)\<lparr>stack := globals st @ locals st,
                        globalCount := int (length (globals st))\<rparr>) = Inr s'
      \<and> run E a = map_option run_return (run_loop E (nextInstruction s') s'))
   \<and> (\<forall>E a st.
      savedState (context_env E) = Some st \<longrightarrow>
      \<not> insOffset st < length_prog (program_env E) \<longrightarrow>
      run E a = Some (run_return (Finished (insOffset st)
           ((VirtualMachine_new a)\<lparr>stack := globals st @ locals st,
              globalCount := int (length (globals st))\<rparr>))))"
proof (intro conjI allI impI)
  fix E :: env and a :: nat and st :: ExecutionState
  assume "savedState (context_env E) = Some st"
  then show "run_start E (VirtualMachine_new a) =
        (insOffset st, (VirtualMachine_new a)\<lparr>stack := globals st @ locals st,
                          globalCount := int (length (globals st))\<rparr>)"
    by (rule run_start_saved)
  then show "run E a = map_option run_return
            (run_loop E (insOffset st) ((VirtualMachine_new a)\<lparr>stack := globals st @ locals st,
                          globalCount := int (length (globals st))\<rparr>))"
    by (simp add: run_def)
next
  fix E :: env and ins :: Instruction and s :: vm and n m :: int
  assume "n = size_ins ins sdiv 4" "m = sizeLocals ins sdiv 4"
    "0 \<le> n" "n \<le> globalCount s" "globalCount s \<le> stack_size s" "0 \<le> m" "m \<le> stack_size s"
  then show "executeSTORE_STATE E ins s =
        Inr (s\<lparr>savedState_vm := ExecutionState
               (take (nat n) (drop (nat (globalCount s - n)) (stack s)))
               (drop (nat (stack_size s - m)) (stack s))
               (Some (program_env E)) (offset ins + 0x10)\<rparr>)"
    by (rule STORE_STATE_ranges)
next
  fix E E' :: env and ins :: Instruction and s s' :: vm and a :: nat
  assume "executeSTORE_STATE E ins s = Inr s'"
    "0 \<le> globalCount s" "globalCount s \<le> stack_size s"
    "size_ins ins sdiv 4 = globalCount s"
    "sizeLocals ins sdiv 4 = stack_size s - globalCount s"
    "savedState (context_env E') = Some (savedState_vm s')"
  then show "run_start E' (VirtualMachine_new a) =
        (offset ins + 0x10, (VirtualMachine_new a)\<lparr>stack := stack s,
                               globalCount := globalCount s\<rparr>)"
    by (rule STORE_STATE_round_trip)
next
  fix E :: env and a :: nat and st :: ExecutionState and ins :: Instruction
    and handler :: handler and s' :: vm
  assume h: "savedState (context_env E) = Some st"
    "insOffset st < length_prog (program_env E)"
    "getInstruction (program_env E) (insOffset st) = Some ins"
    "handlers (type_ins ins) = Some handler"
    "handler E ins ((VirtualMachine_new a)\<lparr>stack := globals st @ locals st,
                        globalCount := int (length (globals st)),
                        nextInstruction := nextOffset ins\<rparr>) = Inr s'"
  from h show "loop_body E (insOffset st) ((VirtualMachine_new a)\<lparr>stack := globals st @ locals st,
                        globalCount := int (length (globals st))\<rparr>) = Inr s'"
    by (rule resume_first_pass(1))
  from h show "run E a = map_option run_return (run_loop E (nextInstruction s') s')"
    by (rule resume_first_pass(2))
next
  fix E :: env and a :: nat and st :: ExecutionState
  assume "savedState (context_env E) = Some st"
    "\<not> insOffset st < length_prog (program_env E)"
  then show "run E a = Some (run_return (Finished (insOffset st)
           ((VirtualMachine_new a)\<lparr>stack := globals st @ locals st,
              globalCount := int (length (globals st))\<rparr>)))"
    by (rule resume_past_end)
qed

theorem save_and_resume_witness:
  "executeSTORE_STATE store_env store_ins store_vm =
     Inr (store_vm\<lparr>savedState_vm :=
            ExecutionState [ofInt 10] [ofInt 20, ofInt 30] (Some resume_program) 29\<rparr>)
   \<and> savedState (context_env resumed_env) =
       Some (ExecutionState [ofInt 10] [ofInt 20, ofInt 30] (Some resume_program) 29)
   \<and> run_start resumed_env (VirtualMachine_new 0) = (29, store_vm)
   \<and> 29 < length_prog (program_env resumed_env)
   \<and> getInstruction (program_env resumed_env) 29 =
       Some (ins0\<lparr>offset := 29, type_ins := ADDII, nextOffset := 31\<rparr>)
   \<and> handlers ADDII = Some executeADDII
   \<and> executeADDII resumed_env (ins0\<lparr>offset := 29, type_ins := ADDII, nextOffset := 31\<rparr>)
        (store_vm\<lparr>nextInstruction := 31\<rparr>) =
       Inr (store_vm\<lparr>stack := [ofInt 10, ofInt 50], nextInstruction := 31\<rparr>)
   \<and> loop_body resumed_env 29 store_vm =
       Inr (store_vm\<lparr>stack := [ofInt 10, ofInt 50], nextInstruction := 31\<rparr>)
   \<and> run resumed_env 0 = Some (Returned 50)"
proof -
  let ?st = "ExecutionState [ofInt 10] [ofInt 20, ofInt 30] (Some resume_program) 29"
  let ?ins = "ins0\<lparr>offset := 29, type_ins := ADDII, nextOffset := 31\<rparr>"
  let ?s' = "store_vm\<lparr>stack := [ofInt 10, ofInt 50], nextInstruction := 31\<rparr>"
  have h: "(1::int) = size_ins store_ins sdiv 4" "(2::int) = sizeLocals store_ins sdiv 4"
    "(0::int) \<le> 1" "1 \<le> globalCount store_vm" "globalCount store_vm \<le> stack_size store_vm"
    "(0::int) \<le> 2" "2 \<le> stack_size store_vm"
    by (simp_all add: store_ins_def store_vm_def stack_size_def ins0_def)
  from save_and_resume [THEN conjunct2, THEN conjunct1, rule_format, OF h, of store_env]
  have "executeSTORE_STATE store_env store_ins store_vm =
        Inr (store_vm\<lparr>savedState_vm := ExecutionState
               (take (nat 1) (drop (nat (globalCount store_vm - 1)) (stack store_vm)))
               (drop (nat (stack_size store_vm - 2)) (stack store_vm))
               (Some (program_env store_env)) (offset store_ins + 0x10)\<rparr>)" .
  then have 1: "executeSTORE_STATE store_env store_ins store_vm =
     Inr (store_vm\<lparr>savedState_vm := ?st\<rparr>)"
    by (simp add: store_vm_def store_ins_def stack_size_def store_env_def ins0_def)
  have 2: "savedState (context_env resumed_env) = Some ?st"
    by (simp add: resumed_env_def)
  have g: "0 \<le> globalCount store_vm" "globalCount store_vm \<le> stack_size store_vm"
    "size_ins store_ins sdiv 4 = globalCount store_vm"
    "sizeLocals store_ins sdiv 4 = stack_size store_vm - globalCount store_vm"
    "savedState (context_env resumed_env) = Some (savedState_vm (store_vm\<lparr>savedState_vm := ?st\<rparr>))"
    by (simp_all add: store_ins_def store_vm_def stack_size_def ins0_def resumed_env_def)
  from save_and_resume [THEN conjunct2, THEN conjunct2, THEN conjunct1, rule_format,
      OF 1 g, of 0]
  have "run_start resumed_env (VirtualMachine_new 0) =
        (offset store_ins + 0x10, (VirtualMachine_new 0)\<lparr>stack := stack store_vm,
                               globalCount := globalCount store_vm\<rparr>)" .
  then have 3: "run_start resumed_env (VirtualMachine_new 0) = (29, store_vm)"
    by (simp add: store_vm_def store_ins_def ins0_def)
  have 4: "insOffset ?st < length_prog (program_env resumed_env)"
    by (simp add: resumed_env_def resume_program_def)
  have 5: "getInstruction (program_env resumed_env) (insOffset ?st) = Some ?ins"
    by (simp add: resumed_env_def resume_program_def getInstruction_def store_ins_def ins0_def)
  have 6: "handlers (type_ins ?ins) = Some executeADDII"
    by (simp add: handlers_ADDII)
  have 7: "executeADDII resumed_env ?ins
      ((VirtualMachine_new 0)\<lparr>stack := globals ?st @ locals ?st,
         globalCount := int (length (globals ?st)),
         nextInstruction := nextOffset ?ins\<rparr>) = Inr ?s'"
    using resumed_ADDII by (simp add: store_vm_def)
  note first = save_and_resume [THEN conjunct2, THEN conjunct2, THEN conjunct2, THEN conjunct1,
      rule_format, OF 2 4 5 6 7]
  from first have 8: "loop_body resumed_env 29 store_vm = Inr ?s'"
    by (simp add: store_vm_def)
  from first have "run resumed_env 0 = map_option run_return (run_loop resumed_env 31 ?s')"
    by simp
  then have "run resumed_env 0 = map_option run_return
      (Some (Finished 33 (store_vm\<lparr>stack := [ofInt 10, ofInt 50], nextInstruction := 33\<rparr>)))"
    by (simp only: resumed_tail)
  then have 9: "run resumed_env 0 = Some (Returned 50)"
    by (simp add: run_return_def store_vm_def ofInt_def)
  from 4 have lt: "29 < length_prog (program_env resumed_env)" by simp
  from 5 have at: "getInstruction (program_env resumed_env) 29 = Some ?ins" by simp
  from 1 2 3 lt at handlers_ADDII resumed_ADDII 8 9 show ?thesis by simp
qed

text \<open>
  C3. Whenever, at any pass of the loop of \<open>run\<close>, the instruction at the cursor has no
  handler, or its handler throws, \<open>run\<close> returns \<open>-1\<close>: the exception does not reach the
  caller and no further instruction is executed. In particular a program whose first
  instruction has an opcode without a handler returns \<open>-1\<close>.
\<close>

theorem run_halts_with_failure:
  "(\<forall>E a n insOff0 s0 insOff s ins.
      run_start E (VirtualMachine_new a) = (insOff0, s0) \<longrightarrow>
      passes n E insOff0 s0 = Some (insOff, s) \<longrightarrow>
      insOff < length_prog (program_env E) \<longrightarrow>
      getInstruction (program_env E) insOff = Some ins \<longrightarrow>
      (handlers (type_ins ins) = None \<or>
       (\<exists>handler ex. handlers (type_ins ins) = Some handler \<and>
          handler E ins (s\<lparr>nextInstruction := nextOffset ins\<rparr>) = Inl (Thrown ex))) \<longrightarrow>
      run_loop E insOff s = Some Halted \<and> run E a = Some (Returned (- 1)))
   \<and> (\<forall>E a ins.
      savedState (context_env E) = None \<longrightarrow>
      kStartInstructionOffset < length_prog (program_env E) \<longrightarrow>
      getInstruction (program_env E) kStartInstructionOffset = Some ins \<longrightarrow>
      handlers (type_ins ins) = None \<longrightarrow>
      run E a = Some (Returned (- 1)))"
proof -
  have main: "run_loop E insOff s = Some Halted \<and> run E a = Some (Returned (- 1))"
    if st: "run_start E (VirtualMachine_new a) = (insOff0, s0)"
      and p: "passes n E insOff0 s0 = Some (insOff, s)"
      and lt: "insOff < length_prog (program_env E)"
      and ins: "getInstruction (program_env E) insOff = Some ins"
      and bad: "handlers (type_ins ins) = None \<or>
       (\<exists>handler ex. handlers (type_ins ins) = Some handler \<and>
          handler E ins (s\<lparr>nextInstruction := nextOffset ins\<rparr>) = Inl (Thrown ex))"
    for E a n insOff0 s0 insOff s ins
  proof -
    from ins bad have "loop_body E insOff s = Inl Halted"
      by (auto simp: loop_body_def)
    from run_loop_exit [OF lt this] have h: "run_loop E insOff s = Some Halted" .
    with run_loop_passes [OF p] have "run_loop E insOff0 s0 = Some Halted" by simp
    with st h show ?thesis by (simp add: run_def run_return_def)
  qed
  have first: "run E a = Some (Returned (- 1))"
    if "savedState (context_env E) = None"
      and "kStartInstructionOffset < length_prog (program_env E)"
      and "getInstruction (program_env E) kStartInstructionOffset = Some ins"
      and "handlers (type_ins ins) = None"
    for E a ins
  proof -
    from that(1) have st: "run_start E (VirtualMachine_new a) =
        (kStartInstructionOffset, VirtualMachine_new a)"
      by (simp add: run_start_def)
    have p: "passes 0 E kStartInstructionOffset (VirtualMachine_new a) =
        Some (kStartInstructionOffset, VirtualMachine_new a)" by simp
    from main [OF st p that(2) that(3)] that(4) show ?thesis by simp
  qed
  from main first show ?thesis by blast
qed

theorem run_halts_with_failure_witness:
  "savedState (context_env unknown_env) = None
   \<and> kStartInstructionOffset < length_prog (program_env unknown_env)
   \<and> getInstruction (program_env unknown_env) kStartInstructionOffset =
       Some (ins0\<lparr>offset := 13, type_ins := InstructionType 200, nextOffset := 15\<rparr>)
   \<and> handlers (InstructionType 200) = None
   \<and> run unknown_env 0 = Some (Returned (- 1))"
proof -
  have 1: "savedState (context_env unknown_env) = None"
    by (simp add: unknown_env_def)
  have 2: "kStartInstructionOffset < length_prog (program_env unknown_env)"
    by (simp add: unknown_env_def unknown_program_def kStartInstructionOffset_def)
  have 3: "getInstruction (program_env unknown_env) kStartInstructionOffset =
       Some (ins0\<lparr>offset := 13, type_ins := InstructionType 200, nextOffset := 15\<rparr>)"
    by (simp add: unknown_env_def unknown_program_def kStartInstructionOffset_def
        getInstruction_def ins0_def)
  have 4: "handlers (type_ins (ins0\<lparr>offset := 13, type_ins := InstructionType 200,
       nextOffset := 15\<rparr>)) = None"
    by (simp add: handlers_unknown)
  from run_halts_with_failure 1 2 3 4 have "run unknown_env 0 = Some (Returned (- 1))"
    by blast
  with 1 2 3 handlers_unknown show ?thesis by simp
qed

text \<open>
  C4 (amended). CPDOWNSP and CPDOWNBP leave the size of the operand stack unchanged;
  CPTOPSP and CPTOPBP push the copies and so grow the stack by \<open>size / 4\<close> entries
  (by nothing when that count is not positive).
\<close>

theorem copy_instructions_stack_size:
  "(\<forall>E ins s s'. executeCPDOWNSP E ins s = Inr s' \<longrightarrow> length (stack s') = length (stack s))
   \<and> (\<forall>E ins s s'. executeCPDOWNBP E ins s = Inr s' \<longrightarrow> length (stack s') = length (stack s))
   \<and> (\<forall>E ins s s'. executeCPTOPSP E ins s = Inr s' \<longrightarrow>
         length (stack s') = length (stack s) + nat (size_ins ins sdiv 4))
   \<and> (\<forall>E ins s s'. executeCPTOPBP E ins s = Inr s' \<longrightarrow>
         length (stack s') = length (stack s) + nat (size_ins ins sdiv 4))"
  by (auto simp: executeCPDOWNSP_def executeCPDOWNBP_def executeCPTOPSP_def executeCPTOPBP_def
      Let_def dest: copy_down_length copy_top_length)

theorem copy_instructions_stack_size_witness:
  "executeCPDOWNSP add_env (ins0\<lparr>size_ins := 4, stackOffset := - 8\<rparr>) copy_vm =
     Inr (copy_vm\<lparr>stack := [ofInt 2, ofInt 2]\<rparr>)
   \<and> length (stack (copy_vm\<lparr>stack := [ofInt 2, ofInt 2]\<rparr>)) = length (stack copy_vm)
   \<and> executeCPTOPSP add_env (ins0\<lparr>size_ins := 4, stackOffset := - 8\<rparr>) copy_vm =
     Inr (copy_vm\<lparr>stack := [ofInt 1, ofInt 2, ofInt 1]\<rparr>)
   \<and> length (stack (copy_vm\<lparr>stack := [ofInt 1, ofInt 2, ofInt 1]\<rparr>)) =
       length (stack copy_vm) + nat (size_ins (ins0\<lparr>size_ins := 4, stackOffset := - 8\<rparr>) sdiv 4)"
  using copy_instructions_stack_size [THEN conjunct1, rule_format, OF CPDOWNSP_example]
    copy_instructions_stack_size [THEN conjunct2, THEN conjunct2, THEN conjunct1, rule_format,
      OF CPTOPSP_example]
    CPDOWNSP_example CPTOPSP_example
  by simp

text \<open>
  The claim as it stands fails: CPTOPSP with a size of 4 bytes, on a stack of two
  variables, leaves three.
\<close>

theorem CPTOPSP_grows_stack_counterexample:
  "executeCPTOPSP add_env (ins0\<lparr>size_ins := 4, stackOffset := - 8\<rparr>) copy_vm =
     Inr (copy_vm\<lparr>stack := [ofInt 1, ofInt 2, ofInt 1]\<rparr>)
   \<and> length (stack (copy_vm\<lparr>stack := [ofInt 1, ofInt 2, ofInt 1]\<rparr>)) \<noteq> length (stack copy_vm)"
  using CPTOPSP_example by (simp add: copy_vm_def)

text \<open>
  C5. The context that DoCommand builds from a captured context for a new actor: if the
  captured arguments hold a Caller, the first of them has the actor's id written into its
  variable; if they hold none, a Caller argument holding the actor's id as an Object is
  appended. Every other argument, the routine table and the saved state are those of the
  captured context. A captured \<open>Caller = Object(5)\<close> and the actor 9 give
  \<open>Caller = Object(9)\<close> between unchanged neighbours. The id of an actor is the id of
  a game object, which is never the self sentinel (the sentinel is what a script writes
  for its caller, and no object is found under it); at that id alone the constructor of
  \<open>Argument\<close> refuses the appended argument with \<open>std::invalid_argument\<close>.
\<close>

theorem DoCommand_rebinds_caller:
  "(\<forall>K r st pre c post actorId.
      (\<forall>a\<in>set pre. kind a \<noteq> Caller) \<longrightarrow> kind c = Caller \<longrightarrow>
      DoCommandAction_executionCtx K (ExecutionContext r st (pre @ c # post)) actorId =
        Inr (ExecutionContext r st
          (pre @ Argument Caller
             (Variable (type (var c)) (strValue (var c)) (vecValue (var c)) (engineType (var c))
                (context_v (var c)) actorId (floatValue (var c))) # post)))
   \<and> (\<forall>K r st xs actorId.
      (\<forall>a\<in>set xs. kind a \<noteq> Caller) \<longrightarrow>
      DoCommandAction_executionCtx K (ExecutionContext r st xs) actorId =
        (if actorId = kObjectSelf K then Inl (Thrown invalid_argument)
         else Inr (ExecutionContext r st (xs @ [Argument Caller (ofObject actorId)]))))
   \<and> DoCommandAction_executionCtx K0 door_context 9 =
        Inr (ExecutionContext None None
          [Argument LastOpenedBy (ofObject 7), Argument Caller (ofObject 9),
           Argument ScriptVar (ofInt 3)])"
proof (intro conjI allI impI)
  fix K r st pre c post actorId
  assume "\<forall>a\<in>set pre. kind a \<noteq> Caller" "kind c = Caller"
  then show "DoCommandAction_executionCtx K (ExecutionContext r st (pre @ c # post)) actorId =
        Inr (ExecutionContext r st
          (pre @ Argument Caller
             (Variable (type (var c)) (strValue (var c)) (vecValue (var c)) (engineType (var c))
                (context_v (var c)) actorId (floatValue (var c))) # post))"
    by (simp add: DoCommandAction_executionCtx_def setCaller_first)
next
  fix K :: script_consts and r st xs actorId
  assume "\<forall>a\<in>set xs. kind a \<noteq> Caller"
  then show "DoCommandAction_executionCtx K (ExecutionContext r st xs) actorId =
        (if actorId = kObjectSelf K then Inl (Thrown invalid_argument)
         else Inr (ExecutionContext r st (xs @ [Argument Caller (ofObject actorId)])))"
    by (simp add: DoCommandAction_executionCtx_def setCaller_absent Argument_new_def verify_def
        andThen_def ofObject_def)
next
  show "DoCommandAction_executionCtx K0 door_context 9 =
        Inr (ExecutionContext None None
          [Argument LastOpenedBy (ofObject 7), Argument Caller (ofObject 9),
           Argument ScriptVar (ofInt 3)])"
    by (simp add: DoCommandAction_executionCtx_def door_context_def ofObject_def)
qed

theorem DoCommand_rebinds_caller_witness:
  "kind (Argument LastOpenedBy (ofObject 7)) \<noteq> Caller
   \<and> kind (Argument Caller (ofObject 5)) = Caller
   \<and> DoCommandAction_executionCtx K0
        (ExecutionContext None None
          ([Argument LastOpenedBy (ofObject 7)] @ Argument Caller (ofObject 5)
             # [Argument ScriptVar (ofInt 3)])) 9 =
       Inr (ExecutionContext None None
          ([Argument LastOpenedBy (ofObject 7)] @ Argument Caller (ofObject 9)
             # [Argument ScriptVar (ofInt 3)]))
   \<and> kind (Argument ScriptVar (ofInt 3)) \<noteq> Caller
   \<and> DoCommandAction_executionCtx K0 (ExecutionContext None None [Argument ScriptVar (ofInt 3)]) 9 =
       Inr (ExecutionContext None None [Argument ScriptVar (ofInt 3), Argument Caller (ofObject 9)])"
proof -
  have h: "\<forall>a\<in>set [Argument LastOpenedBy (ofObject 7)]. kind a \<noteq> Caller"
    "kind (Argument Caller (ofObject 5)) = Caller"
    by simp_all
  have g: "\<forall>a\<in>set [Argument ScriptVar (ofInt 3)]. kind a \<noteq> Caller" by simp
  note present = DoCommand_rebinds_caller [THEN conjunct1, THEN spec, THEN spec, THEN spec,
      THEN spec, THEN spec, THEN spec, THEN spec, THEN mp, THEN mp, OF h]
  note absent = DoCommand_rebinds_caller [THEN conjunct2, THEN conjunct1, THEN spec, THEN spec,
      THEN spec, THEN spec, THEN spec, THEN mp, OF g]
  have "DoCommandAction_executionCtx K0
        (ExecutionContext None None
          ([Argument LastOpenedBy (ofObject 7)] @ Argument Caller (ofObject 5)
             # [Argument ScriptVar (ofInt 3)])) 9 =
       Inr (ExecutionContext None None
          ([Argument LastOpenedBy (ofObject 7)] @ Argument Caller (ofObject 9)
             # [Argument ScriptVar (ofInt 3)]))"
    using present [of K0 None None "[Argument ScriptVar (ofInt 3)]" 9]
    by (simp add: ofObject_def)
  moreover have "DoCommandAction_executionCtx K0
        (ExecutionContext None None [Argument ScriptVar (ofInt 3)]) 9 =
       Inr (ExecutionContext None None [Argument ScriptVar (ofInt 3), Argument Caller (ofObject 9)])"
    using absent [of K0 None None 9]
    by (simp add: K0_def)
  ultimately show ?thesis using h g by simp
qed

text \<open>
  C6. What the code does where the claim fails. Routine 0 returns the vector
  \<open>(1, 2, 3)\<close>; ACTION pushes its result as the floats \<open>z, y, x\<close>, so \<open>x\<close> is on top.
  A Vector parameter then takes the top of the stack as \<open>z\<close>: the argument loop builds
  \<open>(3, 2, 1)\<close>, and routine 1, which returns the \<open>x\<close> component of its vector parameter,
  returns 3, not 1. The vector instructions push their results in the other order:
  ADDVV of \<open>(1, 2, 3)\<close> and \<open>(0, 0, 0)\<close> leaves the floats \<open>x, y, z\<close>, which
  \<open>getVectorFromStack\<close> reads back as \<open>(1, 2, 3)\<close>.
\<close>

theorem ACTION_vector_result_reversed:
  "executeACTION vector_env (ins0\<lparr>routine := 0, argCount := 0\<rparr>) (VirtualMachine_new 0) =
     Inr ((VirtualMachine_new 0)\<lparr>stack := [ofFloat 3, ofFloat 2, ofFloat 1]\<rparr>)
   \<and> collectArguments vector_env [Vector] []
       ((VirtualMachine_new 0)\<lparr>stack := [ofFloat 3, ofFloat 2, ofFloat 1]\<rparr>) =
     Inr ([ofVector (vec3 3 2 1)], (VirtualMachine_new 0)\<lparr>stack := []\<rparr>)
   \<and> executeACTION vector_env (ins0\<lparr>routine := 1, argCount := 1\<rparr>)
       ((VirtualMachine_new 0)\<lparr>stack := [ofFloat 3, ofFloat 2, ofFloat 1]\<rparr>) =
     Inr ((VirtualMachine_new 0)\<lparr>stack := [ofFloat 3]\<rparr>)
   \<and> executeADDVV vector_env ins0
       ((VirtualMachine_new 0)\<lparr>stack := [ofFloat 1, ofFloat 2, ofFloat 3,
                                         ofFloat 0, ofFloat 0, ofFloat 0]\<rparr>) =
     Inr ((VirtualMachine_new 0)\<lparr>stack := [ofFloat 1, ofFloat 2, ofFloat 3]\<rparr>)
   \<and> getVectorFromStack ((VirtualMachine_new 0)\<lparr>stack := [ofFloat 1, ofFloat 2, ofFloat 3]\<rparr>) =
     Inr (vec3 1 2 3, (VirtualMachine_new 0)\<lparr>stack := []\<rparr>)"
proof -
  let ?s = "(VirtualMachine_new 0)\<lparr>stack := [ofFloat 3, ofFloat 2, ofFloat 1]\<rparr>"
  have ctx: "context_env vector_env = ExecutionContext (Some 0) None []"
    "routineTables vector_env = vector_routines"
    by (simp_all add: vector_env_def)
  have 1: "executeACTION vector_env (ins0\<lparr>routine := 0, argCount := 0\<rparr>) (VirtualMachine_new 0) = Inr ?s"
    by (simp add: executeACTION_def ctx vector_routines_def ins0_def getArgumentCount_def
        ofVector_def push_back_def VirtualMachine_new_def)
  have v: "getVectorFromStack ?s = Inr (vec3 3 2 1, (VirtualMachine_new 0)\<lparr>stack := []\<rparr>)"
    using getVectorFromStack_top3 [of ?s "[]" "ofFloat 3" "ofFloat 2" "ofFloat 1"]
    by (simp add: ofFloat_def)
  have 2: "collectArguments vector_env [Vector] [] ?s =
     Inr ([ofVector (vec3 3 2 1)], (VirtualMachine_new 0)\<lparr>stack := []\<rparr>)"
    by (simp add: v)
  have 3: "executeACTION vector_env (ins0\<lparr>routine := 1, argCount := 1\<rparr>) ?s =
     Inr ((VirtualMachine_new 0)\<lparr>stack := [ofFloat 3]\<rparr>)"
    by (simp add: executeACTION_def ctx vector_routines_def ins0_def getArgumentCount_def v
        ofVector_def push_back_def)
  have 5: "getVectorFromStack ((VirtualMachine_new 0)\<lparr>stack := [ofFloat 1, ofFloat 2, ofFloat 3]\<rparr>) =
     Inr (vec3 1 2 3, (VirtualMachine_new 0)\<lparr>stack := []\<rparr>)"
    using getVectorFromStack_top3 [of
        "(VirtualMachine_new 0)\<lparr>stack := [ofFloat 1, ofFloat 2, ofFloat 3]\<rparr>" "[]"
        "ofFloat 1" "ofFloat 2" "ofFloat 3"]
    by (simp add: ofFloat_def)
  let ?t = "(VirtualMachine_new 0)\<lparr>stack := [ofFloat 1, ofFloat 2, ofFloat 3,
                                         ofFloat 0, ofFloat 0, ofFloat 0]\<rparr>"
  have r: "getVectorFromStack ?t = Inr (vec3 0 0 0,
      (VirtualMachine_new 0)\<lparr>stack := [ofFloat 1, ofFloat 2, ofFloat 3]\<rparr>)"
    using getVectorFromStack_top3 [of ?t "[ofFloat 1, ofFloat 2, ofFloat 3]"
        "ofFloat 0" "ofFloat 0" "ofFloat 0"]
    by (simp add: ofFloat_def)
  have sum: "vec3_result (float_add 1 0) (float_add 2 0) (float_add 3 0) = Inr (vec3 1 2 3)"
    by (simp add: vec3_result_def float_add_def float_result_def overflow32_def andThen_def
        round32_1 round32_2 round32_3)
  have 4: "executeADDVV vector_env ins0 ?t =
     Inr ((VirtualMachine_new 0)\<lparr>stack := [ofFloat 1, ofFloat 2, ofFloat 3]\<rparr>)"
    by (simp add: executeADDVV_def withVectorsFromStack_def r 5 sum andThen_def push_xyz_def
        push_back_def)
  from 1 2 3 4 5 show ?thesis by simp
qed

text \<open>
  C7. What the code does where the claim fails. CONSTI can push the least \<open>int\<close>,
  \<open>-2147483648\<close>. SHRIGHTII with that left operand and the shift count 1 negates it
  first, and the negation overflows: the handler has no guard, and the C++ is undefined
  there. On a two's-complement machine the negation wraps around to the same negative
  number, the shift of its bits gives \<open>-1073741824\<close>, and the second negation makes the
  result \<open>+1073741824\<close>: a positive result for a negative left operand. Away from the
  least \<open>int\<close> the two negations cancel: \<open>-8\<close> shifted right by 1 is \<open>-4\<close>.
\<close>

theorem SHRIGHTII_least_int_not_sign_preserving:
  "executeCONSTI add_env (ins0\<lparr>intValue_ins := - 2147483648\<rparr>) (VirtualMachine_new 0) =
     Inr ((VirtualMachine_new 0)\<lparr>stack := [ofInt (- 2147483648)]\<rparr>)
   \<and> sint (- 2147483648 :: 32 word) = - (2 ^ 31)
   \<and> int32 (- sint (- 2147483648 :: 32 word)) = Inl UndefinedBehaviour
   \<and> shift_right_int (- 2147483648) 1 = Inl UndefinedBehaviour
   \<and> executeSHRIGHTII add_env ins0
        ((VirtualMachine_new 0)\<lparr>stack := [ofInt (- 2147483648), ofInt 1]\<rparr>) =
       Inl UndefinedBehaviour
   \<and> shift_right_int_wrapped (- 2147483648) 1 = 1073741824
   \<and> 0 < sint (shift_right_int_wrapped (- 2147483648) 1)
   \<and> executeSHRIGHTII add_env ins0 ((VirtualMachine_new 0)\<lparr>stack := [ofInt (- 8), ofInt 1]\<rparr>) =
       Inr ((VirtualMachine_new 0)\<lparr>stack := [ofInt (- 4)]\<rparr>)
   \<and> shift_right_int_wrapped (- 8) 1 = - 4"
proof -
  have a: "executeCONSTI add_env (ins0\<lparr>intValue_ins := - 2147483648\<rparr>) (VirtualMachine_new 0) =
     Inr ((VirtualMachine_new 0)\<lparr>stack := [ofInt (- 2147483648)]\<rparr>)"
    by (simp add: executeCONSTI_def push_back_def VirtualMachine_new_def ins0_def)
  have b: "sint (- 2147483648 :: 32 word) = - (2 ^ 31)" by simp
  have c: "int32 (- sint (- 2147483648 :: 32 word)) = Inl UndefinedBehaviour"
    by (simp add: int32_def)
  have d: "shift_right_int (- 2147483648) 1 = Inl UndefinedBehaviour"
    by (simp add: shift_right_int_def Let_def int32_def andThen_def)
  have e: "executeSHRIGHTII add_env ins0
        ((VirtualMachine_new 0)\<lparr>stack := [ofInt (- 2147483648), ofInt 1]\<rparr>) =
       Inl UndefinedBehaviour"
    using SHRIGHTII_top2 [of "(VirtualMachine_new 0)\<lparr>stack := [ofInt (- 2147483648), ofInt 1]\<rparr>"
        "[]" "ofInt (- 2147483648)" "ofInt 1" add_env ins0]
    by (simp add: ofInt_def d andThen_def)
  have f: "shift_right_int_wrapped (- 2147483648) 1 = 1073741824"
    by (simp add: shift_right_int_wrapped_def)
  have g: "0 < sint (shift_right_int_wrapped (- 2147483648) 1)"
    by (simp add: f)
  have h: "executeSHRIGHTII add_env ins0 ((VirtualMachine_new 0)\<lparr>stack := [ofInt (- 8), ofInt 1]\<rparr>)
       = Inr ((VirtualMachine_new 0)\<lparr>stack := [ofInt (- 4)]\<rparr>)"
    using SHRIGHTII_top2 [of "(VirtualMachine_new 0)\<lparr>stack := [ofInt (- 8), ofInt 1]\<rparr>" "[]"
        "ofInt (- 8)" "ofInt 1" add_env ins0]
    by (simp add: ofInt_def shift_right_int_negative andThen_def)
  have i: "shift_right_int_wrapped (- 8) 1 = - 4"
    by (simp add: shift_right_int_wrapped_def)
  from a b c d e f g h i show ?thesis by simp
qed

text \<open>
  C8 (amended). DIVFF on two Float operands divides the left operand by
  \<open>max(kFloatTolerance, right)\<close> in binary32 arithmetic, where \<open>kFloatTolerance\<close> is the
  binary32 number nearest to \<open>1e-5\<close>: it pushes the exact quotient rounded to binary32
  when the rounded quotient is finite, and its result is an infinity when the exact
  quotient reaches \<open>2 ^ 128 - 2 ^ 103\<close> in magnitude. The divisor is positive, so the
  division is never one by zero. With the divisor \<open>0.0\<close> the divisor used is
  \<open>kFloatTolerance\<close>: for a left operand of magnitude up to \<open>2 ^ 111\<close> the result is
  the rounded quotient of the operand by \<open>kFloatTolerance\<close>, a finite number; for a left
  operand of magnitude \<open>(2 ^ 128 - 2 ^ 103) * kFloatTolerance\<close> (about \<open>3.4e33\<close>) or more
  the result is an infinity. Whatever DIVFF pushes in the model is at most the largest
  finite binary32 number in magnitude. (A negative left operand whose quotient rounds to
  zero gives the negative zero, the error \<open>NegativeZero\<close>.)
\<close>

theorem DIVFF_clamps_divisor:
  "(\<forall>E ins s xs l r.
      stack s = xs @ [l, r] \<longrightarrow> type l = Float \<longrightarrow> type r = Float \<longrightarrow>
      executeDIVFF E ins s =
        (let q = floatValue l / max kFloatTolerance (floatValue r) in
         if overflow32 q then Inl NonFiniteFloat
         else if round32 q = 0 \<and> floatValue l < 0 then Inl NegativeZero
         else Inr (s\<lparr>stack := xs @ [ofFloat (round32 q)]\<rparr>)))
   \<and> kFloatTolerance = 2748779 / 2 ^ 38
   \<and> round32 (1 / 10 ^ 5) = kFloatTolerance
   \<and> (\<forall>right. 0 < max kFloatTolerance right)
   \<and> (\<forall>E ins s xs l r s'.
      stack s = xs @ [l, r] \<longrightarrow> type l = Float \<longrightarrow> type r = Float \<longrightarrow>
      executeDIVFF E ins s = Inr s' \<longrightarrow>
      (\<exists>v. s' = s\<lparr>stack := xs @ [ofFloat v]\<rparr> \<and> \<bar>v\<bar> \<le> 2 ^ 128 - 2 ^ 104))
   \<and> (\<forall>E ins s xs l r.
      stack s = xs @ [l, r] \<longrightarrow> type l = Float \<longrightarrow> type r = Float \<longrightarrow> floatValue r = 0 \<longrightarrow>
      (floatValue l = 0 \<or> 1 / 2 ^ 149 \<le> \<bar>floatValue l\<bar>) \<longrightarrow> \<bar>floatValue l\<bar> \<le> 2 ^ 111 \<longrightarrow>
      executeDIVFF E ins s =
        Inr (s\<lparr>stack := xs @ [ofFloat (round32 (floatValue l / kFloatTolerance))]\<rparr>)
      \<and> \<bar>round32 (floatValue l / kFloatTolerance)\<bar> \<le> 2 ^ 128 - 2 ^ 104)
   \<and> (\<forall>E ins s xs l r.
      stack s = xs @ [l, r] \<longrightarrow> type l = Float \<longrightarrow> type r = Float \<longrightarrow> floatValue r = 0 \<longrightarrow>
      (2 ^ 128 - 2 ^ 103) * kFloatTolerance \<le> \<bar>floatValue l\<bar> \<longrightarrow>
      executeDIVFF E ins s = Inl NonFiniteFloat)"
proof (intro conjI allI impI)
  fix E :: env and ins :: Instruction and s :: vm and xs l r
  assume "stack s = xs @ [l, r]" "type l = Float" "type r = Float"
  then show "executeDIVFF E ins s =
        (let q = floatValue l / max kFloatTolerance (floatValue r) in
         if overflow32 q then Inl NonFiniteFloat
         else if round32 q = 0 \<and> floatValue l < 0 then Inl NegativeZero
         else Inr (s\<lparr>stack := xs @ [ofFloat (round32 q)]\<rparr>))"
    by (rule DIVFF_top2)
next
  show "kFloatTolerance = 2748779 / 2 ^ 38" by (simp add: kFloatTolerance_def)
next
  show "round32 (1 / 10 ^ 5) = kFloatTolerance" using round32_tol by (simp add: kFloatTolerance_def)
next
  fix right show "0 < max kFloatTolerance right" by (rule max_kFloatTolerance_pos)
next
  fix E :: env and ins :: Instruction and s s' :: vm and xs l r
  assume h: "stack s = xs @ [l, r]" "type l = Float" "type r = Float"
    and ex: "executeDIVFF E ins s = Inr s'"
  let ?q = "floatValue l / max kFloatTolerance (floatValue r)"
  from ex DIVFF_top2 [OF h, of E ins]
  have "\<not> overflow32 ?q" and "s' = s\<lparr>stack := xs @ [ofFloat (round32 ?q)]\<rparr>"
    by (auto simp: Let_def split: if_splits)
  with round32_bound [of ?q]
  show "\<exists>v. s' = s\<lparr>stack := xs @ [ofFloat v]\<rparr> \<and> \<bar>v\<bar> \<le> 2 ^ 128 - 2 ^ 104"
    by blast
next
  fix E :: env and ins :: Instruction and s :: vm and xs l r
  assume h: "stack s = xs @ [l, r]" "type l = Float" "type r = Float"
    and z: "floatValue r = 0"
    and n: "floatValue l = 0 \<or> 1 / 2 ^ 149 \<le> \<bar>floatValue l\<bar>"
    and b: "\<bar>floatValue l\<bar> \<le> 2 ^ 111"
  let ?q = "floatValue l / kFloatTolerance"
  from b have fin: "\<not> overflow32 ?q" by (rule quotient_by_tolerance_finite)
  have nz: "\<not> (round32 ?q = 0 \<and> floatValue l < 0)"
  proof (cases "floatValue l = 0")
    case True
    then show ?thesis by simp
  next
    case False
    with n have "2 powi (- 149) \<le> \<bar>floatValue l\<bar>" by (simp add: power_int_minus_divide)
    then have "round32 ?q \<noteq> 0" by (rule quotient_by_tolerance_nonzero)
    then show ?thesis by simp
  qed
  from DIVFF_top2 [OF h, of E ins] z fin nz
  show "executeDIVFF E ins s =
        Inr (s\<lparr>stack := xs @ [ofFloat (round32 (floatValue l / kFloatTolerance))]\<rparr>)"
    by (simp add: max_kFloatTolerance_zero Let_def)
  from fin show "\<bar>round32 (floatValue l / kFloatTolerance)\<bar> \<le> 2 ^ 128 - 2 ^ 104"
    by (rule round32_bound)
next
  fix E :: env and ins :: Instruction and s :: vm and xs l r
  assume h: "stack s = xs @ [l, r]" "type l = Float" "type r = Float"
    and z: "floatValue r = 0"
    and b: "(2 ^ 128 - 2 ^ 103) * kFloatTolerance \<le> \<bar>floatValue l\<bar>"
  from b have "overflow32 (floatValue l / kFloatTolerance)"
    by (rule quotient_by_tolerance_overflow)
  with DIVFF_top2 [OF h, of E ins] z
  show "executeDIVFF E ins s = Inl NonFiniteFloat"
    by (simp add: max_kFloatTolerance_zero Let_def)
qed

theorem DIVFF_clamps_divisor_witness:
  "stack ((VirtualMachine_new 0)\<lparr>stack := [ofFloat 3, ofFloat 0]\<rparr>) = [] @ [ofFloat 3, ofFloat 0]
   \<and> type (ofFloat 3) = Float \<and> type (ofFloat 0) = Float \<and> floatValue (ofFloat 0) = 0
   \<and> 1 / 2 ^ 149 \<le> \<bar>floatValue (ofFloat 3)\<bar> \<and> \<bar>floatValue (ofFloat 3)\<bar> \<le> 2 ^ 111
   \<and> executeDIVFF add_env ins0 ((VirtualMachine_new 0)\<lparr>stack := [ofFloat 3, ofFloat 0]\<rparr>)
       = Inr ((VirtualMachine_new 0)\<lparr>stack := [ofFloat 300000]\<rparr>)
   \<and> (300000 :: real) < 3 / kFloatTolerance
   \<and> \<bar>300000 :: real\<bar> \<le> 2 ^ 128 - 2 ^ 104
   \<and> stack ((VirtualMachine_new 0)\<lparr>stack := [ofFloat 1, ofFloat 3]\<rparr>) = [] @ [ofFloat 1, ofFloat 3]
   \<and> executeDIVFF add_env ins0 ((VirtualMachine_new 0)\<lparr>stack := [ofFloat 1, ofFloat 3]\<rparr>)
       = Inr ((VirtualMachine_new 0)\<lparr>stack := [ofFloat (11184811 / 2 ^ 25)]\<rparr>)"
proof -
  have h: "stack ((VirtualMachine_new 0)\<lparr>stack := [ofFloat 3, ofFloat 0]\<rparr>)
      = [] @ [ofFloat 3, ofFloat 0]"
    "type (ofFloat 3) = Float" "type (ofFloat 0) = Float" "floatValue (ofFloat 0) = 0"
    by (simp_all add: ofFloat_def)
  have g: "floatValue (ofFloat 3) = 0 \<or> 1 / 2 ^ 149 \<le> \<bar>floatValue (ofFloat 3)\<bar>"
    "\<bar>floatValue (ofFloat 3)\<bar> \<le> 2 ^ 111"
    by (simp_all add: ofFloat_def)
  note zero = DIVFF_clamps_divisor [THEN conjunct2, THEN conjunct2, THEN conjunct2,
      THEN conjunct2, THEN conjunct2, THEN conjunct1, rule_format, OF h g, of add_env ins0]
  have q: "round32 (floatValue (ofFloat 3) / kFloatTolerance) = 300000"
    using round32_300000 by (simp add: ofFloat_def kFloatTolerance_def)
  from zero have 1: "executeDIVFF add_env ins0
      ((VirtualMachine_new 0)\<lparr>stack := [ofFloat 3, ofFloat 0]\<rparr>)
       = Inr ((VirtualMachine_new 0)\<lparr>stack := [ofFloat 300000]\<rparr>)"
    by (simp add: q)
  from zero have 2: "\<bar>300000 :: real\<bar> \<le> 2 ^ 128 - 2 ^ 104"
    by (simp add: q)
  have 3: "(300000 :: real) < 3 / kFloatTolerance"
    by (simp add: kFloatTolerance_def)
  have k: "stack ((VirtualMachine_new 0)\<lparr>stack := [ofFloat 1, ofFloat 3]\<rparr>)
      = [] @ [ofFloat 1, ofFloat 3]"
    by simp
  have t: "type (ofFloat 1) = Float" by (simp add: ofFloat_def)
  note third = DIVFF_clamps_divisor [THEN conjunct1, rule_format, OF k t h(2), of add_env ins0]
  have m: "floatValue (ofFloat 1) / max kFloatTolerance (floatValue (ofFloat 3)) = 1 / 3"
    by (simp add: ofFloat_def kFloatTolerance_def)
  from third have 4: "executeDIVFF add_env ins0
      ((VirtualMachine_new 0)\<lparr>stack := [ofFloat 1, ofFloat 3]\<rparr>)
       = Inr ((VirtualMachine_new 0)\<lparr>stack := [ofFloat (11184811 / 2 ^ 25)]\<rparr>)"
    unfolding m by (simp add: round32_third overflow32_def)
  from h g 1 2 3 k 4 show ?thesis by (simp add: ofFloat_def)
qed

text \<open>
  The claim as it stands fails: \<open>16155871 * 2 ^ 89\<close> is the binary32 number nearest to
  \<open>1e34\<close>, a finite float; DIVFF of it by \<open>0.0\<close> divides by \<open>kFloatTolerance\<close>, the
  exact quotient is about \<open>1e39\<close>, beyond the binary32 range, and the result is an
  infinity.
\<close>

theorem DIVFF_by_zero_infinite_counterexample:
  "round32 (10 ^ 34) = 16155871 * 2 ^ 89
   \<and> \<not> overflow32 (16155871 * 2 ^ 89)
   \<and> 2 ^ 128 - 2 ^ 103 \<le> (16155871 * 2 ^ 89) / max kFloatTolerance 0
   \<and> executeDIVFF add_env ins0
        ((VirtualMachine_new 0)\<lparr>stack := [ofFloat (16155871 * 2 ^ 89), ofFloat 0]\<rparr>) =
       Inl NonFiniteFloat"
proof -
  have a: "round32 (10 ^ 34) = 16155871 * 2 ^ 89" by (rule round32_1e34)
  have b: "\<not> overflow32 (16155871 * 2 ^ 89)" by (simp add: overflow32_def)
  have c: "2 ^ 128 - 2 ^ 103 \<le> (16155871 * 2 ^ 89) / max kFloatTolerance (0::real)"
    by (simp add: kFloatTolerance_def)
  then have o: "overflow32 ((16155871 * 2 ^ 89) / max kFloatTolerance 0)"
    by (simp add: overflow32_def kFloatTolerance_def)
  have d: "executeDIVFF add_env ins0
        ((VirtualMachine_new 0)\<lparr>stack := [ofFloat (16155871 * 2 ^ 89), ofFloat 0]\<rparr>) =
       Inl NonFiniteFloat"
    using DIVFF_top2 [of "(VirtualMachine_new 0)\<lparr>stack := [ofFloat (16155871 * 2 ^ 89), ofFloat 0]\<rparr>"
        "[]" "ofFloat (16155871 * 2 ^ 89)" "ofFloat 0" add_env ins0] o
    by (simp add: ofFloat_def Let_def)
  from a b c d show ?thesis by simp
qed

text \<open>
  C9. The constructor of \<open>Argument\<close> throws \<open>std::invalid_argument\<close> exactly when the
  pairing of kind and variable is violated: an argument of an object kind must hold an
  Object variable whose id is not the self sentinel, an argument of a numeric kind must
  hold an Int variable. Otherwise the argument is constructed, with the kind and the
  variable given. The error is the outcome of the construction itself.
\<close>

theorem Argument_verified_at_construction:
  "Argument_new K k v =
     (if (k \<in> {Caller, ClickingObject, EnteringObject, ExitingObject, LastClosedBy,
                LastOpenedBy, LastPerceived}
          \<and> (type v \<noteq> Object \<or> objectId v = kObjectSelf K))
        \<or> (k \<in> {ScriptVar, UserDefinedEventNumber, LastPerceptionHeard,
                  LastPerceptionInaudible, LastPerceptionSeen, LastPerceptionVanished}
            \<and> type v \<noteq> Int_t)
      then Inl (Thrown invalid_argument) else Inr (Argument k v))"
  by (cases k) (simp_all add: Argument_new_def verify_def andThen_def)

theorem Argument_verified_at_construction_witness:
  "Argument_new K0 Caller (ofObject 5) = Inr (Argument Caller (ofObject 5))
   \<and> Argument_new K0 Caller (ofObject (kObjectSelf K0)) = Inl (Thrown invalid_argument)
   \<and> Argument_new K0 LastOpenedBy (ofInt 5) = Inl (Thrown invalid_argument)
   \<and> Argument_new K0 ScriptVar (ofInt 7) = Inr (Argument ScriptVar (ofInt 7))
   \<and> Argument_new K0 LastPerceptionSeen (ofObject 5) = Inl (Thrown invalid_argument)"
  using Argument_verified_at_construction [of K0 Caller "ofObject 5"]
    Argument_verified_at_construction [of K0 Caller "ofObject (kObjectSelf K0)"]
    Argument_verified_at_construction [of K0 LastOpenedBy "ofInt 5"]
    Argument_verified_at_construction [of K0 ScriptVar "ofInt 7"]
    Argument_verified_at_construction [of K0 LastPerceptionSeen "ofObject 5"]
  by (simp add: ofObject_def ofInt_def K0_def)

text \<open>
  C10. EQUALFF pushes 1 when the absolute difference of its two Float operands, the
  difference being the float subtraction of binary32 arithmetic, is below
  \<open>kFloatTolerance\<close>, and 0 otherwise: it pushes 1 when the exact difference is below
  \<open>kFloatTolerance\<close> by more than half a rounding step, and 0 when the exact
  difference is \<open>kFloatTolerance\<close> or more. NEQUALFF pushes 1 when the operands differ
  at all. NEQUALFF is therefore not the negation of EQUALFF: on \<open>0.0\<close> and \<open>5e-6\<close>
  both push 1, for the real \<open>5e-6\<close> as for the binary32 number nearest to it,
  \<open>2748779 / 2 ^ 39\<close>.
\<close>

theorem NEQUALFF_not_negation_of_EQUALFF:
  "(\<forall>E ins s xs l r.
      stack s = xs @ [l, r] \<longrightarrow> type l = Float \<longrightarrow> type r = Float \<longrightarrow>
      executeEQUALFF E ins s =
        Inr (s\<lparr>stack := xs @
          [ofInt (of_bool (\<bar>round32 (floatValue l - floatValue r)\<bar> < kFloatTolerance))]\<rparr>)
      \<and> executeNEQUALFF E ins s =
        Inr (s\<lparr>stack := xs @ [ofInt (of_bool (floatValue l \<noteq> floatValue r))]\<rparr>))
   \<and> (\<forall>E ins s xs l r.
      stack s = xs @ [l, r] \<longrightarrow> type l = Float \<longrightarrow> type r = Float \<longrightarrow>
      \<bar>floatValue l - floatValue r\<bar> < kFloatTolerance - 1 / 2 ^ 41 \<longrightarrow>
      executeEQUALFF E ins s = Inr (s\<lparr>stack := xs @ [ofInt 1]\<rparr>))
   \<and> (\<forall>E ins s xs l r.
      stack s = xs @ [l, r] \<longrightarrow> type l = Float \<longrightarrow> type r = Float \<longrightarrow>
      kFloatTolerance \<le> \<bar>floatValue l - floatValue r\<bar> \<longrightarrow>
      executeEQUALFF E ins s = Inr (s\<lparr>stack := xs @ [ofInt 0]\<rparr>))
   \<and> executeEQUALFF add_env ins0
        ((VirtualMachine_new 0)\<lparr>stack := [ofFloat 0, ofFloat (5 / 10 ^ 6)]\<rparr>)
       = Inr ((VirtualMachine_new 0)\<lparr>stack := [ofInt 1]\<rparr>)
   \<and> executeNEQUALFF add_env ins0
        ((VirtualMachine_new 0)\<lparr>stack := [ofFloat 0, ofFloat (5 / 10 ^ 6)]\<rparr>)
       = Inr ((VirtualMachine_new 0)\<lparr>stack := [ofInt 1]\<rparr>)
   \<and> round32 (5 / 10 ^ 6) = 2748779 / 2 ^ 39
   \<and> executeEQUALFF add_env ins0
        ((VirtualMachine_new 0)\<lparr>stack := [ofFloat 0, ofFloat (2748779 / 2 ^ 39)]\<rparr>)
       = Inr ((VirtualMachine_new 0)\<lparr>stack := [ofInt 1]\<rparr>)
   \<and> executeNEQUALFF add_env ins0
        ((VirtualMachine_new 0)\<lparr>stack := [ofFloat 0, ofFloat (2748779 / 2 ^ 39)]\<rparr>)
       = Inr ((VirtualMachine_new 0)\<lparr>stack := [ofInt 1]\<rparr>)"
proof -
  have a: "executeEQUALFF E ins s =
        Inr (s\<lparr>stack := xs @
          [ofInt (of_bool (\<bar>round32 (floatValue l - floatValue r)\<bar> < kFloatTolerance))]\<rparr>)
      \<and> executeNEQUALFF E ins s =
        Inr (s\<lparr>stack := xs @ [ofInt (of_bool (floatValue l \<noteq> floatValue r))]\<rparr>)"
    if "stack s = xs @ [l, r]" "type l = Float" "type r = Float" for E ins s xs l r
    using that
    by (simp add: executeEQUALFF_def executeNEQUALFF_def withFloatsFromStack_top2
        push_bool_def push_back_def)
  have below: "executeEQUALFF E ins s = Inr (s\<lparr>stack := xs @ [ofInt 1]\<rparr>)"
    if "stack s = xs @ [l, r]" "type l = Float" "type r = Float"
      "\<bar>floatValue l - floatValue r\<bar> < kFloatTolerance - 1 / 2 ^ 41" for E ins s xs l r
    using a [OF that(1-3), of E ins] round32_lt_tolerance [OF that(4)] by simp
  have above: "executeEQUALFF E ins s = Inr (s\<lparr>stack := xs @ [ofInt 0]\<rparr>)"
    if "stack s = xs @ [l, r]" "type l = Float" "type r = Float"
      "kFloatTolerance \<le> \<bar>floatValue l - floatValue r\<bar>" for E ins s xs l r
    using a [OF that(1-3), of E ins] round32_ge_tolerance [OF that(4)] by simp
  have r1: "round32 (5 / 10 ^ 6) = 2748779 / 2 ^ 39"
    using round32_fraction [of 41 "5 / 10 ^ 6" 10995116] by simp
  have r2: "round32 (2748779 / 2 ^ 39) = 2748779 / 2 ^ 39"
    using round32_fraction [of 41 "2748779 / 2 ^ 39" 10995116] by simp
  have d1: "\<bar>round32 (floatValue (ofFloat 0) - floatValue (ofFloat (5 / 10 ^ 6)))\<bar> < kFloatTolerance"
    using r1 by (simp add: ofFloat_def kFloatTolerance_def)
  have d2: "\<bar>round32 (floatValue (ofFloat 0) - floatValue (ofFloat (2748779 / 2 ^ 39)))\<bar>
      < kFloatTolerance"
    using r2 by (simp add: ofFloat_def kFloatTolerance_def)
  have b: "executeEQUALFF add_env ins0
        ((VirtualMachine_new 0)\<lparr>stack := [ofFloat 0, ofFloat (5 / 10 ^ 6)]\<rparr>)
       = Inr ((VirtualMachine_new 0)\<lparr>stack := [ofInt 1]\<rparr>)"
    "executeNEQUALFF add_env ins0
        ((VirtualMachine_new 0)\<lparr>stack := [ofFloat 0, ofFloat (5 / 10 ^ 6)]\<rparr>)
       = Inr ((VirtualMachine_new 0)\<lparr>stack := [ofInt 1]\<rparr>)"
    using a [of "(VirtualMachine_new 0)\<lparr>stack := [ofFloat 0, ofFloat (5 / 10 ^ 6)]\<rparr>" "[]"
        "ofFloat 0" "ofFloat (5 / 10 ^ 6)" add_env ins0] d1
    by (simp_all add: ofFloat_def)
  have c: "executeEQUALFF add_env ins0
        ((VirtualMachine_new 0)\<lparr>stack := [ofFloat 0, ofFloat (2748779 / 2 ^ 39)]\<rparr>)
       = Inr ((VirtualMachine_new 0)\<lparr>stack := [ofInt 1]\<rparr>)"
    "executeNEQUALFF add_env ins0
        ((VirtualMachine_new 0)\<lparr>stack := [ofFloat 0, ofFloat (2748779 / 2 ^ 39)]\<rparr>)
       = Inr ((VirtualMachine_new 0)\<lparr>stack := [ofInt 1]\<rparr>)"
    using a [of "(VirtualMachine_new 0)\<lparr>stack := [ofFloat 0, ofFloat (2748779 / 2 ^ 39)]\<rparr>" "[]"
        "ofFloat 0" "ofFloat (2748779 / 2 ^ 39)" add_env ins0] d2
    by (simp_all add: ofFloat_def)
  from a below above b c r1 show ?thesis by blast
qed

theorem NEQUALFF_not_negation_of_EQUALFF_witness:
  "stack ((VirtualMachine_new 0)\<lparr>stack := [ofFloat 1, ofFloat 2]\<rparr>) = [] @ [ofFloat 1, ofFloat 2]
   \<and> type (ofFloat 1) = Float \<and> type (ofFloat 2) = Float
   \<and> kFloatTolerance \<le> \<bar>floatValue (ofFloat 1) - floatValue (ofFloat 2)\<bar>
   \<and> executeEQUALFF add_env ins0 ((VirtualMachine_new 0)\<lparr>stack := [ofFloat 1, ofFloat 2]\<rparr>)
       = Inr ((VirtualMachine_new 0)\<lparr>stack := [ofInt 0]\<rparr>)
   \<and> executeNEQUALFF add_env ins0 ((VirtualMachine_new 0)\<lparr>stack := [ofFloat 1, ofFloat 2]\<rparr>)
       = Inr ((VirtualMachine_new 0)\<lparr>stack := [ofInt 1]\<rparr>)
   \<and> stack ((VirtualMachine_new 0)\<lparr>stack := [ofFloat 1, ofFloat 1]\<rparr>) = [] @ [ofFloat 1, ofFloat 1]
   \<and> \<bar>floatValue (ofFloat 1) - floatValue (ofFloat 1)\<bar> < kFloatTolerance - 1 / 2 ^ 41
   \<and> executeEQUALFF add_env ins0 ((VirtualMachine_new 0)\<lparr>stack := [ofFloat 1, ofFloat 1]\<rparr>)
       = Inr ((VirtualMachine_new 0)\<lparr>stack := [ofInt 1]\<rparr>)"
proof -
  have h: "stack ((VirtualMachine_new 0)\<lparr>stack := [ofFloat 1, ofFloat 2]\<rparr>)
      = [] @ [ofFloat 1, ofFloat 2]"
    "type (ofFloat 1) = Float" "type (ofFloat 2) = Float"
    by (simp_all add: ofFloat_def)
  have far: "kFloatTolerance \<le> \<bar>floatValue (ofFloat 1) - floatValue (ofFloat 2)\<bar>"
    by (simp add: ofFloat_def kFloatTolerance_def)
  have g: "stack ((VirtualMachine_new 0)\<lparr>stack := [ofFloat 1, ofFloat 1]\<rparr>)
      = [] @ [ofFloat 1, ofFloat 1]"
    by simp
  have near: "\<bar>floatValue (ofFloat 1) - floatValue (ofFloat 1)\<bar> < kFloatTolerance - 1 / 2 ^ 41"
    by (simp add: kFloatTolerance_def)
  note exact = NEQUALFF_not_negation_of_EQUALFF [THEN conjunct1, rule_format, OF h, of add_env ins0]
  note above = NEQUALFF_not_negation_of_EQUALFF [THEN conjunct2, THEN conjunct2, THEN conjunct1,
      rule_format, OF h far, of add_env ins0]
  note below = NEQUALFF_not_negation_of_EQUALFF [THEN conjunct2, THEN conjunct1,
      rule_format, OF g h(2) h(2) near, of add_env ins0]
  from above have 1: "executeEQUALFF add_env ins0
      ((VirtualMachine_new 0)\<lparr>stack := [ofFloat 1, ofFloat 2]\<rparr>)
       = Inr ((VirtualMachine_new 0)\<lparr>stack := [ofInt 0]\<rparr>)"
    by simp
  from exact have 2: "executeNEQUALFF add_env ins0
      ((VirtualMachine_new 0)\<lparr>stack := [ofFloat 1, ofFloat 2]\<rparr>)
       = Inr ((VirtualMachine_new 0)\<lparr>stack := [ofInt 1]\<rparr>)"
    by (simp add: ofFloat_def)
  from below have 3: "executeEQUALFF add_env ins0
      ((VirtualMachine_new 0)\<lparr>stack := [ofFloat 1, ofFloat 1]\<rparr>)
       = Inr ((VirtualMachine_new 0)\<lparr>stack := [ofInt 1]\<rparr>)"
    by simp
  from h far 1 2 g near 3 show ?thesis by simp
qed
end
